theory Spec2Isabelle
  imports Complex_Main "HOL-Library.Word"
begin

unbundle bit_operations_syntax

section \<open>The command queue of gskglcommandqueue.c\<close>

subsection \<open>Data\<close>

text \<open>
  A finite C \<open>float\<close> is a real number. The command queue stores floats and converts
  them to integers but computes none; where the render job computes with them, the
  result is rounded (\<open>float_round\<close> below). Infinities and NaN are outside the model.
\<close>

type_synonym float = real
type_synonym guint = "32 word"
type_synonym guint16 = "16 word"

record graphene_rect_t =
  origin_x :: float
  origin_y :: float
  size_width :: float
  size_height :: float

text \<open>Conversion of a float to \<open>guint16\<close> as in \<open>batch->any.viewport.width = viewport->size.width\<close>:
  the fraction is dropped (truncation towards zero). C leaves values outside 0..65535
  undefined; the model wraps them.\<close>

definition guint16_of_float :: "float \<Rightarrow> guint16" where
  "guint16_of_float x = word_of_int (if 0 \<le> x then \<lfloor>x\<rfloor> else \<lceil>x\<rceil>)"

datatype GskGLCommandKind =
    GSK_GL_COMMAND_KIND_CLEAR
  | GSK_GL_COMMAND_KIND_PUSH_DEBUG_GROUP
  | GSK_GL_COMMAND_KIND_POP_DEBUG_GROUP
  | GSK_GL_COMMAND_KIND_DRAW

record GskGLCommandBind =
  bind_texture :: "5 word"
  bind_id :: "27 word"

text \<open>
  \<open>GskGLCommandBatch\<close> is a C union whose members share the head \<open>any\<close>. The code
  reads the \<open>draw\<close>, \<open>clear\<close> and \<open>debug_group\<close> members only after testing \<open>kind\<close>,
  so the members are modelled as separate fields of one record. The bit-field widths
  are those of the declarations: \<open>program : 24\<close>, \<open>uniform_count : 11\<close>,
  \<open>bind_count : 5\<close>, \<open>vbo_count : 16\<close>.

  \<open>next_batch_index\<close> is a C \<open>int\<close> holding an array index or -1. The array holds
  fewer than \<open>2^31\<close> batches of 32 bytes each, so the conversions between the
  \<open>guint\<close> index and the \<open>int\<close> field are exact, and the field is modelled as \<open>int\<close>.
\<close>

record GskGLCommandBatch =
  kind :: GskGLCommandKind
  program :: "24 word"
  next_batch_index :: int
  viewport_width :: guint16
  viewport_height :: guint16
  draw_framebuffer :: guint
  draw_uniform_count :: "11 word"
  draw_bind_count :: "5 word"
  draw_vbo_count :: "16 word"
  draw_vbo_offset :: guint
  draw_uniform_offset :: guint
  draw_bind_offset :: guint
  debug_group :: "string option"
  clear_bits :: guint
  clear_framebuffer :: guint

text \<open>The fields of \<open>GskGLUniformInfo\<close> that this file reads (the header declaring it
  is not part of the sources at hand).\<close>

datatype GskGLUniformFormat =
    GSK_GL_UNIFORM_FORMAT_1F | GSK_GL_UNIFORM_FORMAT_2F
  | GSK_GL_UNIFORM_FORMAT_3F | GSK_GL_UNIFORM_FORMAT_4F
  | GSK_GL_UNIFORM_FORMAT_1FV | GSK_GL_UNIFORM_FORMAT_2FV
  | GSK_GL_UNIFORM_FORMAT_3FV | GSK_GL_UNIFORM_FORMAT_4FV
  | GSK_GL_UNIFORM_FORMAT_1I | GSK_GL_UNIFORM_FORMAT_2I
  | GSK_GL_UNIFORM_FORMAT_3I | GSK_GL_UNIFORM_FORMAT_4I
  | GSK_GL_UNIFORM_FORMAT_TEXTURE | GSK_GL_UNIFORM_FORMAT_MATRIX
  | GSK_GL_UNIFORM_FORMAT_COLOR | GSK_GL_UNIFORM_FORMAT_ROUNDED_RECT

record GskGLUniformInfo =
  info_format :: GskGLUniformFormat
  info_array_count :: nat
  info_offset :: nat
  info_send_corners :: bool

record GskGLCommandUniform =
  uniform_info :: GskGLUniformInfo
  uniform_location :: guint

text \<open>The attachment state as far as the command queue reads and writes it: the bound
  framebuffer and the texture units, each with its \<open>changed\<close> flag.\<close>

record GskGLBindTexture =
  tex_changed :: bool
  tex_texture :: guint
  tex_id :: guint

record GskGLAttachmentState =
  fbo_id :: guint
  fbo_changed :: bool
  textures :: "GskGLBindTexture list"

record GskGLDrawVertex =
  position :: "float \<times> float"
  uv :: "float \<times> float"

text \<open>
  Modelled from the spec: the shared vertex buffer (\<open>gskglbuffer\<close> is not among the
  sources). The buffer is the sequence of vertex slots reserved so far; a slot is
  \<open>None\<close> until somebody writes it. \<open>gsk_gl_buffer_get_offset\<close> is the number of slots
  as a \<open>guint\<close>; \<open>gsk_gl_buffer_advance\<close> reserves \<open>count\<close> further slots and returns
  the index of the first one, which stands for the destination pointer.
\<close>

type_synonym GskGLBuffer = "GskGLDrawVertex option list"

definition gsk_gl_buffer_get_offset :: "GskGLBuffer \<Rightarrow> guint" where
  "gsk_gl_buffer_get_offset buffer = word_of_nat (length buffer)"

definition gsk_gl_buffer_advance :: "GskGLBuffer \<Rightarrow> nat \<Rightarrow> nat \<times> GskGLBuffer" where
  "gsk_gl_buffer_advance buffer count = (length buffer, buffer @ replicate count None)"

text \<open>\<open>memcpy (dest, vertices, sizeof (GskGLDrawVertex) * n)\<close>: the source pointer is the
  memory it addresses, read at indices \<open>0..n-1\<close>.\<close>

definition memcpy_vertices :: "GskGLBuffer \<Rightarrow> nat \<Rightarrow> (nat \<Rightarrow> GskGLDrawVertex) \<Rightarrow> nat \<Rightarrow> GskGLBuffer" where
  "memcpy_vertices buffer dest src n =
     take dest buffer @ map (\<lambda>i. Some (src i)) [0..<n] @ drop (dest + n) buffer"

text \<open>Calls on the GL context, in the order issued.\<close>

datatype gl_cap = GL_DEPTH_TEST | GL_BLEND | GL_SCISSOR_TEST

datatype gl_call =
    GlEnable gl_cap
  | GlDisable gl_cap
  | GlDepthFunc_LEQUAL
  | GlBlendFunc_ONE_ONE_MINUS_SRC_ALPHA
  | GlBlendEquation_FUNC_ADD
  | GlGenVertexArrays
  | GlBindVertexArray
  | GlDeleteVertexArrays
  | BufferSubmit
  | GlEnableVertexAttribArray nat
  | GlVertexAttribPointer nat
  | GlScissor guint guint guint guint
  | GlBindFramebuffer guint
  | GlViewport guint16 guint16
  | GlClear guint
  | GlUseProgram guint
  | GlActiveTexture "5 word"
  | GlBindTexture "27 word"
  | GlUniform guint GskGLUniformInfo
  | GlDrawArrays guint "16 word"
  | PushDebugGroup "string option"
  | PopDebugGroup
  | GlGetIntegerv_MAX_TEXTURE_SIZE
  | MakeCurrent
  | GlGenTextures guint
  | GlGenFramebuffers guint
  | GlActiveTexture0
  | GlBindTexture2D guint
  | GlTexParameteri_MIN_FILTER int
  | GlTexParameteri_MAG_FILTER int
  | GlTexParameteri_WRAP_S_CLAMP_TO_EDGE
  | GlTexParameteri_WRAP_T_CLAMP_TO_EDGE
  | GlTexImage2D int int bool
  | GlFramebufferTexture2D guint
  | RestoreAttachments

record GskGLCommandQueue =
  gl_context :: "gl_call list"
  batches :: "GskGLCommandBatch list"
  batch_binds :: "GskGLCommandBind list"
  batch_uniforms :: "GskGLCommandUniform list"
  vertices :: GskGLBuffer
  attachments :: GskGLAttachmentState
  saved_state :: "GskGLAttachmentState list"
  tail_batch_index :: int
  in_draw :: bool
  max_texture_size :: int

text \<open>Modelled from the spec: \<open>GSK_GL_N_VERTICES\<close>, declared in a header that is not among
  the sources, is the number of vertices of one rectangle, six; \<open>draw_rect\<close> of the render
  job writes exactly the vertices 0 to 5 of a quantum.\<close>

definition GSK_GL_N_VERTICES :: nat where
  "GSK_GL_N_VERTICES = 6"

subsection \<open>Recording\<close>

text \<open>\<open>g_array_set_size\<close> on an array created with \<open>clear_ = TRUE\<close> zero-fills the new
  element.\<close>

definition zero_batch :: GskGLCommandBatch where
  "zero_batch = \<lparr> kind = GSK_GL_COMMAND_KIND_CLEAR, program = 0, next_batch_index = 0,
     viewport_width = 0, viewport_height = 0, draw_framebuffer = 0,
     draw_uniform_count = 0, draw_bind_count = 0, draw_vbo_count = 0, draw_vbo_offset = 0,
     draw_uniform_offset = 0, draw_bind_offset = 0, debug_group = None,
     clear_bits = 0, clear_framebuffer = 0 \<rparr>"

text \<open>\<open>begin_next_batch\<close> appends a batch with \<open>next_batch_index = -1\<close>; the caller then
  fills the batch in, which \<open>set_last_batch\<close> expresses.\<close>

definition begin_next_batch :: "GskGLCommandQueue \<Rightarrow> GskGLCommandQueue" where
  "begin_next_batch self =
     self\<lparr>batches := batches self @ [zero_batch\<lparr>next_batch_index := -1\<rparr>]\<rparr>"

definition set_last_batch :: "(GskGLCommandBatch \<Rightarrow> GskGLCommandBatch) \<Rightarrow> GskGLCommandQueue \<Rightarrow> GskGLCommandQueue" where
  "set_last_batch f self =
     self\<lparr>batches := (batches self)[length (batches self) - 1 := f (last (batches self))]\<rparr>"

definition enqueue_batch :: "GskGLCommandQueue \<Rightarrow> GskGLCommandQueue" where
  "enqueue_batch self =
     (let index = int (length (batches self)) - 1;
          self' = (if tail_batch_index self \<noteq> -1
                   then self\<lparr>batches := (batches self)[nat (tail_batch_index self) :=
                          (batches self ! nat (tail_batch_index self))\<lparr>next_batch_index := index\<rparr>]\<rparr>
                   else self)
      in self'\<lparr>tail_batch_index := index\<rparr>)"

definition discard_batch :: "GskGLCommandQueue \<Rightarrow> GskGLCommandQueue" where
  "discard_batch self = self\<lparr>batches := butlast (batches self)\<rparr>"

text \<open>
  Every entry point starts with \<open>g_return_if_fail\<close> checks; a failed check returns
  without any effect, which is the first branch of each definition. The vertex source
  of \<open>add_vertices\<close> is \<open>None\<close> for a \<open>NULL\<close> pointer; the returned pointer is \<open>None\<close>
  for \<open>NULL\<close> and otherwise the index of the first reserved slot.
\<close>

definition gsk_gl_command_queue_begin_draw :: "guint \<Rightarrow> graphene_rect_t \<Rightarrow> GskGLCommandQueue \<Rightarrow> GskGLCommandQueue" where
  "gsk_gl_command_queue_begin_draw prog viewport self =
     (if in_draw self then self
      else (set_last_batch (\<lambda>batch. batch\<lparr>
              kind := GSK_GL_COMMAND_KIND_DRAW,
              program := ucast prog,
              next_batch_index := -1,
              viewport_width := guint16_of_float (size_width viewport),
              viewport_height := guint16_of_float (size_height viewport),
              draw_framebuffer := 0,
              draw_uniform_count := 0,
              draw_uniform_offset := word_of_nat (length (batch_uniforms self)),
              draw_bind_count := 0,
              draw_bind_offset := word_of_nat (length (batch_binds self)),
              draw_vbo_count := 0,
              draw_vbo_offset := gsk_gl_buffer_get_offset (vertices self)\<rparr>)
            (begin_next_batch self))\<lparr>in_draw := True\<rparr>)"

definition gsk_gl_command_queue_add_vertices ::
    "(nat \<Rightarrow> GskGLDrawVertex) option \<Rightarrow> GskGLCommandQueue \<Rightarrow> nat option \<times> GskGLCommandQueue" where
  "gsk_gl_command_queue_add_vertices source self =
     (if \<not> in_draw self \<or> batches self = [] then (None, self)
      else
        let self1 = set_last_batch
              (\<lambda>batch. batch\<lparr>draw_vbo_count := draw_vbo_count batch + word_of_nat GSK_GL_N_VERTICES\<rparr>) self;
            (dest, buffer) = gsk_gl_buffer_advance (vertices self1) GSK_GL_N_VERTICES
        in (case source of
              Some src \<Rightarrow> (None, self1\<lparr>vertices := memcpy_vertices buffer dest src GSK_GL_N_VERTICES\<rparr>)
            | None \<Rightarrow> (Some dest, self1\<lparr>vertices := buffer\<rparr>)))"

text \<open>The loop of \<open>end_draw\<close> over the texture units: a unit that changed and holds a
  texture is recorded as a bind and its flag is cleared.\<close>

fun snapshot_binds :: "GskGLBindTexture list \<Rightarrow> GskGLBindTexture list \<times> GskGLCommandBind list" where
  "snapshot_binds [] = ([], [])"
| "snapshot_binds (t # ts) =
     (let (ts', binds) = snapshot_binds ts
      in if tex_changed t \<and> tex_id t > 0
         then (t\<lparr>tex_changed := False\<rparr> # ts',
               \<lparr>bind_texture = ucast (tex_texture t), bind_id = ucast (tex_id t)\<rparr> # binds)
         else (t # ts', binds))"

text \<open>The test of \<open>end_draw\<close> for chaining the new draw to the batch before it.\<close>

definition can_chain :: "GskGLCommandBatch option \<Rightarrow> GskGLCommandBatch \<Rightarrow> bool" where
  "can_chain last_batch batch =
     (case last_batch of
        None \<Rightarrow> False
      | Some l \<Rightarrow>
          kind l = GSK_GL_COMMAND_KIND_DRAW \<and>
          program l = program batch \<and>
          viewport_width l = viewport_width batch \<and>
          viewport_height l = viewport_height batch \<and>
          draw_framebuffer l = draw_framebuffer batch \<and>
          draw_uniform_count batch = 0 \<and>
          draw_bind_count batch = 0 \<and>
          draw_vbo_offset l + ucast (draw_vbo_count l) = draw_vbo_offset batch)"

text \<open>
  \<open>end_draw\<close>. The uniform state is not among the sources: \<open>snapshot\<close> is the list of
  uniforms for which \<open>gsk_gl_uniform_state_snapshot\<close> invokes the callback for the
  batch's program, each appended to \<open>batch_uniforms\<close>. The assertion that the open batch
  is a draw holds whenever \<open>in_draw\<close> is set by \<open>begin_draw\<close>.
\<close>

definition gsk_gl_command_queue_end_draw :: "GskGLCommandUniform list \<Rightarrow> GskGLCommandQueue \<Rightarrow> GskGLCommandQueue" where
  "gsk_gl_command_queue_end_draw snapshot self =
     (if batches self = [] \<or> \<not> in_draw self then self
      else if draw_vbo_count (last (batches self)) = 0
      then (discard_batch self)\<lparr>in_draw := False\<rparr>
      else
        let \<comment> \<open>Track the destination framebuffer in case it changed\<close>
            self1 = (set_last_batch (\<lambda>batch. batch\<lparr>draw_framebuffer := fbo_id (attachments self)\<rparr>) self)
                      \<lparr>attachments := (attachments self)\<lparr>fbo_changed := False\<rparr>\<rparr>;
            \<comment> \<open>Track the list of uniforms that changed\<close>
            uniform_offset = (word_of_nat (length (batch_uniforms self1)) :: guint);
            self2 = self1\<lparr>batch_uniforms := batch_uniforms self1 @ snapshot\<rparr>;
            self3 = set_last_batch (\<lambda>batch. batch\<lparr>
                      draw_uniform_offset := uniform_offset,
                      draw_uniform_count := ucast (word_of_nat (length (batch_uniforms self2)) - uniform_offset)\<rparr>) self2;
            \<comment> \<open>Track the bind attachments that changed\<close>
            (textures', binds) = snapshot_binds (textures (attachments self3));
            self4 = (set_last_batch (\<lambda>batch. batch\<lparr>
                      draw_bind_offset := word_of_nat (length (batch_binds self3)),
                      draw_bind_count := word_of_nat (length binds)\<rparr>) self3)
                      \<lparr>attachments := (attachments self3)\<lparr>textures := textures'\<rparr>,
                       batch_binds := batch_binds self3 @ binds\<rparr>;
            n = length (batches self4);
            last_batch = (if n > 1 then Some (batches self4 ! (n - 2)) else None);
            batch = batches self4 ! (n - 1);
            \<comment> \<open>Do simple chaining of draw to last batch\<close>
            self5 = (if can_chain last_batch batch
                     then discard_batch (self4\<lparr>batches := (batches self4)[n - 2 :=
                            (batches self4 ! (n - 2))\<lparr>draw_vbo_count :=
                               draw_vbo_count (batches self4 ! (n - 2)) + draw_vbo_count batch\<rparr>]\<rparr>)
                     else enqueue_batch self4)
        in self5\<lparr>in_draw := False\<rparr>)"

definition G_MAXINT :: nat where
  "G_MAXINT = 2147483647"

definition GL_ALL_BUFFER_BITS :: guint where
  "GL_ALL_BUFFER_BITS = 0x4000 OR 0x100 OR 0x400"

definition gsk_gl_command_queue_clear :: "guint \<Rightarrow> graphene_rect_t \<Rightarrow> GskGLCommandQueue \<Rightarrow> GskGLCommandQueue" where
  "gsk_gl_command_queue_clear bits viewport self =
     (if in_draw self \<or> \<not> length (batches self) < G_MAXINT then self
      else (enqueue_batch (set_last_batch (\<lambda>batch. batch\<lparr>
              kind := GSK_GL_COMMAND_KIND_CLEAR,
              viewport_width := guint16_of_float (size_width viewport),
              viewport_height := guint16_of_float (size_height viewport),
              clear_bits := (if bits = 0 then GL_ALL_BUFFER_BITS else bits),
              clear_framebuffer := fbo_id (attachments self),
              next_batch_index := -1,
              program := 0\<rparr>)
            (begin_next_batch self)))
           \<lparr>attachments := (attachments self)\<lparr>fbo_changed := False\<rparr>\<rparr>)"

definition gsk_gl_command_queue_push_debug_group :: "string \<Rightarrow> GskGLCommandQueue \<Rightarrow> GskGLCommandQueue" where
  "gsk_gl_command_queue_push_debug_group label self =
     (if in_draw self \<or> \<not> length (batches self) < G_MAXINT then self
      else enqueue_batch (set_last_batch (\<lambda>batch. batch\<lparr>
              kind := GSK_GL_COMMAND_KIND_PUSH_DEBUG_GROUP,
              debug_group := Some label,
              next_batch_index := -1,
              program := 0\<rparr>)
            (begin_next_batch self)))"

definition gsk_gl_command_queue_pop_debug_group :: "GskGLCommandQueue \<Rightarrow> GskGLCommandQueue" where
  "gsk_gl_command_queue_pop_debug_group self =
     (if in_draw self \<or> \<not> length (batches self) < G_MAXINT then self
      else enqueue_batch (set_last_batch (\<lambda>batch. batch\<lparr>
              kind := GSK_GL_COMMAND_KIND_POP_DEBUG_GROUP,
              debug_group := None,
              next_batch_index := -1,
              program := 0\<rparr>)
            (begin_next_batch self)))"

text \<open>\<open>begin_frame\<close> requires an empty batch array and resets the tail index.\<close>

definition gsk_gl_command_queue_begin_frame :: "GskGLCommandQueue \<Rightarrow> GskGLCommandQueue" where
  "gsk_gl_command_queue_begin_frame self =
     (if batches self \<noteq> [] then self else self\<lparr>tail_batch_index := -1\<rparr>)"

text \<open>
  Modelled from the spec: \<open>gsk_gl_attachment_state_bind_framebuffer\<close> (the attachment
  state is not among the sources) records the framebuffer to draw to and flags a change.
\<close>

definition gsk_gl_attachment_state_bind_framebuffer :: "GskGLAttachmentState \<Rightarrow> guint \<Rightarrow> GskGLAttachmentState" where
  "gsk_gl_attachment_state_bind_framebuffer state fb =
     (if fbo_id state \<noteq> fb then state\<lparr>fbo_id := fb, fbo_changed := True\<rparr> else state)"

definition gsk_gl_command_queue_bind_framebuffer :: "guint \<Rightarrow> GskGLCommandQueue \<Rightarrow> GskGLCommandQueue" where
  "gsk_gl_command_queue_bind_framebuffer fb self =
     self\<lparr>attachments := gsk_gl_attachment_state_bind_framebuffer (attachments self) fb\<rparr>"

text \<open>
  A recording sequence is a list of calls of the recording entry points.
  \<open>Set_attachments\<close> stands for any change that the attachment state's own functions
  (texture binds, save and restore) make between two calls.
\<close>

datatype record_op =
    Begin_draw guint graphene_rect_t
  | Add_vertices "(nat \<Rightarrow> GskGLDrawVertex) option"
  | End_draw "GskGLCommandUniform list"
  | Clear guint graphene_rect_t
  | Push_debug_group string
  | Pop_debug_group
  | Bind_framebuffer guint
  | Set_attachments GskGLAttachmentState

fun record_step :: "record_op \<Rightarrow> GskGLCommandQueue \<Rightarrow> GskGLCommandQueue" where
  "record_step (Begin_draw prog viewport) self = gsk_gl_command_queue_begin_draw prog viewport self"
| "record_step (Add_vertices source) self = snd (gsk_gl_command_queue_add_vertices source self)"
| "record_step (End_draw snapshot) self = gsk_gl_command_queue_end_draw snapshot self"
| "record_step (Clear bits viewport) self = gsk_gl_command_queue_clear bits viewport self"
| "record_step (Push_debug_group label) self = gsk_gl_command_queue_push_debug_group label self"
| "record_step Pop_debug_group self = gsk_gl_command_queue_pop_debug_group self"
| "record_step (Bind_framebuffer fb) self = gsk_gl_command_queue_bind_framebuffer fb self"
| "record_step (Set_attachments a) self = self\<lparr>attachments := a\<rparr>"

fun record_ops :: "record_op list \<Rightarrow> GskGLCommandQueue \<Rightarrow> GskGLCommandQueue" where
  "record_ops [] self = self"
| "record_ops (op # ops) self = record_ops ops (record_step op self)"

text \<open>The queue at the start of a frame: what \<open>end_frame\<close> leaves and \<open>begin_frame\<close>
  requires and sets.\<close>

definition frame_start :: "GskGLCommandQueue \<Rightarrow> bool" where
  "frame_start self \<longleftrightarrow> batches self = [] \<and> tail_batch_index self = -1 \<and> \<not> in_draw self"

definition new_queue :: GskGLCommandQueue where
  "new_queue = \<lparr> gl_context = [], batches = [], batch_binds = [], batch_uniforms = [],
     vertices = [],
     attachments = \<lparr>fbo_id = 0, fbo_changed = False, textures = []\<rparr>,
     saved_state = [], tail_batch_index = -1, in_draw = False, max_texture_size = 16384 \<rparr>"

subsection \<open>Execution\<close>

text \<open>A \<open>cairo_rectangle_int_t\<close> has four C \<open>int\<close> fields. In \<open>apply_scissor\<close> they are
  multiplied with the unsigned scale factor, so the arithmetic is that of \<open>guint\<close>; the
  fields are kept as 32-bit words (two's complement).\<close>

record cairo_rectangle_int_t =
  rect_x :: guint
  rect_y :: guint
  rect_width :: guint
  rect_height :: guint

text \<open>\<open>scissor\<close> is \<open>None\<close> when \<open>has_scissor\<close> is false.\<close>

definition apply_scissor :: "guint \<Rightarrow> guint \<Rightarrow> guint \<Rightarrow> cairo_rectangle_int_t option \<Rightarrow> gl_call list" where
  "apply_scissor framebuffer surface_height scale_factor scissor =
     (if framebuffer \<noteq> 0 \<or> scissor = None then [GlDisable GL_SCISSOR_TEST]
      else case scissor of
             None \<Rightarrow> [GlDisable GL_SCISSOR_TEST]
           | Some r \<Rightarrow>
               [GlEnable GL_SCISSOR_TEST,
                GlScissor (rect_x r * scale_factor)
                          (surface_height - (rect_height r * scale_factor) - (rect_y r * scale_factor))
                          (rect_width r * scale_factor)
                          (rect_height r * scale_factor)])"

text \<open>The local variables of \<open>execute\<close> that carry the state applied so far.\<close>

record exec_state =
  cur_framebuffer :: guint
  cur_program :: guint
  cur_width :: guint16
  cur_height :: guint16

definition apply_viewport :: "exec_state \<Rightarrow> guint16 \<Rightarrow> guint16 \<Rightarrow> gl_call list \<times> exec_state" where
  "apply_viewport st width height =
     (if cur_width st \<noteq> width \<or> cur_height st \<noteq> height
      then ([GlViewport width height], st\<lparr>cur_width := width, cur_height := height\<rparr>)
      else ([], st))"

text \<open>Switching the framebuffer, as both the clear and the draw case do it.\<close>

definition apply_framebuffer ::
    "guint \<Rightarrow> guint \<Rightarrow> cairo_rectangle_int_t option \<Rightarrow> exec_state \<Rightarrow> guint \<Rightarrow> gl_call list \<times> exec_state" where
  "apply_framebuffer surface_height scale_factor scissor st fb =
     (if cur_framebuffer st \<noteq> fb
      then (GlBindFramebuffer fb # apply_scissor fb surface_height scale_factor scissor,
            st\<lparr>cur_framebuffer := fb\<rparr>)
      else ([], st))"

text \<open>\<open>framebuffer\<close>, \<open>program\<close>, \<open>width\<close> and \<open>height\<close> start at zero.\<close>

definition initial_exec_state :: exec_state where
  "initial_exec_state = \<lparr>cur_framebuffer = 0, cur_program = 0, cur_width = 0, cur_height = 0\<rparr>"

datatype exec_error = Out_of_fuel | Assertion_failed | Out_of_bounds

definition bind_calls :: "GskGLCommandBind list \<Rightarrow> GskGLCommandBatch \<Rightarrow> exec_error + gl_call list" where
  "bind_calls binds batch =
     (let idx = (\<lambda>i. unat (draw_bind_offset batch + word_of_nat i));
          n = unat (draw_bind_count batch)
      in if list_all (\<lambda>i. idx i < length binds) [0..<n]
         then Inr (concat (map (\<lambda>i. [GlActiveTexture (bind_texture (binds ! idx i)),
                                      GlBindTexture (bind_id (binds ! idx i))]) [0..<n]))
         else Inl Out_of_bounds)"

definition uniform_calls :: "GskGLCommandUniform list \<Rightarrow> GskGLCommandBatch \<Rightarrow> exec_error + gl_call list" where
  "uniform_calls uniforms batch =
     (let idx = (\<lambda>i. unat (draw_uniform_offset batch + word_of_nat i));
          n = unat (draw_uniform_count batch)
      in if list_all (\<lambda>i. idx i < length uniforms) [0..<n]
         then Inr (map (\<lambda>i. GlUniform (uniform_location (uniforms ! idx i))
                                       (uniform_info (uniforms ! idx i))) [0..<n])
         else Inl Assertion_failed)"

text \<open>One pass of the loop body: the \<open>switch\<close> over the batch kind.\<close>

definition execute_batch ::
    "GskGLCommandQueue \<Rightarrow> guint \<Rightarrow> guint \<Rightarrow> cairo_rectangle_int_t option \<Rightarrow>
     GskGLCommandBatch \<Rightarrow> exec_state \<Rightarrow> exec_error + (gl_call list \<times> exec_state)" where
  "execute_batch self surface_height scale_factor scissor batch st =
     (case kind batch of
        GSK_GL_COMMAND_KIND_CLEAR \<Rightarrow>
          (let (c1, st1) = apply_framebuffer surface_height scale_factor scissor st (clear_framebuffer batch);
               (c2, st2) = apply_viewport st1 (viewport_width batch) (viewport_height batch)
           in Inr (c1 @ c2 @ [GlClear (clear_bits batch)], st2))
      | GSK_GL_COMMAND_KIND_PUSH_DEBUG_GROUP \<Rightarrow> Inr ([PushDebugGroup (debug_group batch)], st)
      | GSK_GL_COMMAND_KIND_POP_DEBUG_GROUP \<Rightarrow> Inr ([PopDebugGroup], st)
      | GSK_GL_COMMAND_KIND_DRAW \<Rightarrow>
          (let (c0, st0) = (if ucast (program batch) \<noteq> cur_program st
                            then ([GlUseProgram (ucast (program batch))],
                                  st\<lparr>cur_program := ucast (program batch)\<rparr>)
                            else ([], st));
               (c1, st1) = apply_framebuffer surface_height scale_factor scissor st0 (draw_framebuffer batch);
               (c2, st2) = apply_viewport st1 (viewport_width batch) (viewport_height batch)
           in case bind_calls (batch_binds self) batch of
                Inl e \<Rightarrow> Inl e
              | Inr c3 \<Rightarrow>
                  (case uniform_calls (batch_uniforms self) batch of
                     Inl e \<Rightarrow> Inl e
                   | Inr c4 \<Rightarrow>
                       Inr (c0 @ c1 @ c2 @ c3 @ c4 @
                            [GlDrawArrays (draw_vbo_offset batch) (draw_vbo_count batch)], st2))))"

text \<open>
  The loop \<open>while (next_batch_index >= 0)\<close>. It ends only when a batch with a negative
  next index is reached, so the model counts the passes down from \<open>fuel\<close> and reports
  \<open>Out_of_fuel\<close> when they are used up. The result lists, for every pass, the index
  visited and the GL calls issued there; its length is the variable \<open>count\<close>.
\<close>

fun execute_loop ::
    "nat \<Rightarrow> GskGLCommandQueue \<Rightarrow> guint \<Rightarrow> guint \<Rightarrow> cairo_rectangle_int_t option \<Rightarrow>
     int \<Rightarrow> exec_state \<Rightarrow> exec_error + (nat \<times> gl_call list) list" where
  "execute_loop fuel self surface_height scale_factor scissor next_index st =
     (if \<not> next_index \<ge> 0 then Inr []
      else case fuel of
        0 \<Rightarrow> Inl Out_of_fuel
      | Suc fuel' \<Rightarrow>
          if \<not> nat next_index < length (batches self) then Inl Out_of_bounds
          else
            let batch = batches self ! nat next_index
            in if \<not> next_batch_index batch \<noteq> next_index then Inl Assertion_failed
               else case execute_batch self surface_height scale_factor scissor batch st of
                      Inl e \<Rightarrow> Inl e
                    | Inr (calls, st') \<Rightarrow>
                        (case execute_loop fuel' self surface_height scale_factor scissor
                                (next_batch_index batch) st' of
                           Inl e \<Rightarrow> Inl e
                         | Inr rest \<Rightarrow> Inr ((nat next_index, calls) # rest)))"

definition execute_prologue :: "gl_call list" where
  "execute_prologue =
     [GlEnable GL_DEPTH_TEST, GlDepthFunc_LEQUAL,
      GlEnable GL_BLEND, GlBlendFunc_ONE_ONE_MINUS_SRC_ALPHA, GlBlendEquation_FUNC_ADD,
      GlGenVertexArrays, GlBindVertexArray, BufferSubmit,
      GlEnableVertexAttribArray 0, GlVertexAttribPointer 0,
      GlEnableVertexAttribArray 1, GlVertexAttribPointer 1]"

text \<open>\<open>execute\<close> returns the GL calls it issues, in order. Called inside a draw bracket or
  on an empty queue it returns at once.\<close>

definition gsk_gl_command_queue_execute ::
    "nat \<Rightarrow> GskGLCommandQueue \<Rightarrow> guint \<Rightarrow> guint \<Rightarrow> cairo_rectangle_int_t option \<Rightarrow>
     exec_error + gl_call list" where
  "gsk_gl_command_queue_execute fuel self surface_height scale_factor scissor =
     (if in_draw self then Inr []
      else if batches self = [] then Inr []
      else case execute_loop fuel self surface_height scale_factor scissor 0 initial_exec_state of
             Inl e \<Rightarrow> Inl e
           | Inr passes \<Rightarrow>
               Inr (execute_prologue @ apply_scissor 0 surface_height scale_factor scissor @
                    concat (map snd passes) @ [GlDeleteVertexArrays]))"

subsection \<open>The invariant of recording\<close>

text \<open>
  While a frame is recorded, the batches that are linked are the first \<open>m\<close> entries of
  the array, each pointing to the entry after it and the last one to -1; \<open>m\<close> is the
  length of the array, less the open batch inside a draw bracket. The open batch is a
  draw batch, and every batch's uniform and bind ranges lie inside the shared arrays.
\<close>

definition links_ok :: "nat \<Rightarrow> GskGLCommandBatch list \<Rightarrow> bool" where
  "links_ok m bs \<longleftrightarrow>
     list_all (\<lambda>i. next_batch_index (bs ! i) = (if i + 1 < m then int i + 1 else -1)) [0..<length bs]"

definition batch_ok :: "nat \<Rightarrow> nat \<Rightarrow> GskGLCommandBatch \<Rightarrow> bool" where
  "batch_ok n_uniforms n_binds b \<longleftrightarrow>
     unat (draw_uniform_offset b) + unat (draw_uniform_count b) \<le> n_uniforms \<and>
     unat (draw_bind_offset b) + unat (draw_bind_count b) \<le> n_binds"

definition linked_count :: "GskGLCommandQueue \<Rightarrow> nat" where
  "linked_count self = length (batches self) - (if in_draw self then 1 else 0)"

definition queue_inv :: "GskGLCommandQueue \<Rightarrow> bool" where
  "queue_inv self \<longleftrightarrow>
     (in_draw self \<longrightarrow> batches self \<noteq> [] \<and> kind (last (batches self)) = GSK_GL_COMMAND_KIND_DRAW) \<and>
     tail_batch_index self = int (linked_count self) - 1 \<and>
     links_ok (linked_count self) (batches self) \<and>
     list_all (batch_ok (length (batch_uniforms self)) (length (batch_binds self))) (batches self)"

text \<open>
  Two abbreviations for stating what \<open>end_draw\<close> does: the open batch as the three
  snapshots complete it, and the queue after the snapshots.
\<close>

definition closed_batch :: "GskGLCommandUniform list \<Rightarrow> GskGLCommandQueue \<Rightarrow> GskGLCommandBatch \<Rightarrow> GskGLCommandBatch" where
  "closed_batch snapshot self batch = batch\<lparr>
     draw_framebuffer := fbo_id (attachments self),
     draw_uniform_offset := word_of_nat (length (batch_uniforms self)),
     draw_uniform_count := word_of_nat (length snapshot),
     draw_bind_offset := word_of_nat (length (batch_binds self)),
     draw_bind_count := word_of_nat (length (snd (snapshot_binds (textures (attachments self)))))\<rparr>"

definition after_snapshot :: "GskGLCommandUniform list \<Rightarrow> GskGLCommandQueue \<Rightarrow> GskGLCommandQueue" where
  "after_snapshot snapshot self = self\<lparr>
     attachments := (attachments self)\<lparr>fbo_changed := False,
        textures := fst (snapshot_binds (textures (attachments self)))\<rparr>,
     batch_uniforms := batch_uniforms self @ snapshot,
     batch_binds := batch_binds self @ snd (snapshot_binds (textures (attachments self))),
     in_draw := False\<rparr>"

text \<open>
  A draw as the renderer records it: \<open>begin_draw\<close>, one \<open>add_vertices\<close> per entry of
  \<open>sources\<close>, \<open>end_draw\<close>. An operation other than \<open>add_vertices\<close> and \<open>end_draw\<close>
  leaves an open bracket as it is, apart from the attachment state.
\<close>

definition draw_ops :: "guint \<Rightarrow> graphene_rect_t \<Rightarrow> (nat \<Rightarrow> GskGLDrawVertex) option list \<Rightarrow> GskGLCommandUniform list \<Rightarrow> record_op list" where
  "draw_ops prog viewport sources snapshot =
     Begin_draw prog viewport # map Add_vertices sources @ [End_draw snapshot]"

fun keeps_bracket :: "record_op \<Rightarrow> bool" where
  "keeps_bracket (Add_vertices _) = False"
| "keeps_bracket (End_draw _) = False"
| "keeps_bracket _ = True"

text \<open>The viewport of the examples.\<close>

definition viewport_800x600 :: graphene_rect_t where
  "viewport_800x600 = \<lparr>origin_x = 0, origin_y = 0, size_width = 800, size_height = 600\<rparr>"

text \<open>The recording of the spec's example: a clear, then two draws of one rectangle
  each with the same program and viewport.\<close>

definition example_recording :: "record_op list" where
  "example_recording =
     [Clear 0 viewport_800x600,
      Begin_draw 1 viewport_800x600, Add_vertices None, End_draw [],
      Begin_draw 1 viewport_800x600, Add_vertices None, End_draw []]"


text \<open>The batch that \<open>begin_draw\<close> appends, for stating what a bracket leaves.\<close>

definition opened_batch :: "guint \<Rightarrow> graphene_rect_t \<Rightarrow> GskGLCommandQueue \<Rightarrow> GskGLCommandBatch" where
  "opened_batch prog viewport self = zero_batch\<lparr>
     kind := GSK_GL_COMMAND_KIND_DRAW,
     program := ucast prog,
     next_batch_index := -1,
     viewport_width := guint16_of_float (size_width viewport),
     viewport_height := guint16_of_float (size_height viewport),
     draw_uniform_offset := word_of_nat (length (batch_uniforms self)),
     draw_bind_offset := word_of_nat (length (batch_binds self)),
     draw_vbo_offset := gsk_gl_buffer_get_offset (vertices self)\<rparr>"

text \<open>
  The state in which a draw of \<open>prog\<close> and \<open>viewport\<close> without uniform changes will be
  chained: the last batch is a draw of that program, viewport and of the framebuffer now
  bound, its vertex range ends where the vertex buffer ends, and no texture unit has a
  bind pending.
\<close>

definition merge_ready :: "guint \<Rightarrow> graphene_rect_t \<Rightarrow> GskGLCommandQueue \<Rightarrow> bool" where
  "merge_ready prog viewport self \<longleftrightarrow>
     \<not> in_draw self \<and> batches self \<noteq> [] \<and>
     kind (last (batches self)) = GSK_GL_COMMAND_KIND_DRAW \<and>
     program (last (batches self)) = ucast prog \<and>
     viewport_width (last (batches self)) = guint16_of_float (size_width viewport) \<and>
     viewport_height (last (batches self)) = guint16_of_float (size_height viewport) \<and>
     draw_framebuffer (last (batches self)) = fbo_id (attachments self) \<and>
     draw_vbo_offset (last (batches self)) + ucast (draw_vbo_count (last (batches self)))
       = gsk_gl_buffer_get_offset (vertices self) \<and>
     snd (snapshot_binds (textures (attachments self))) = []"

text \<open>A vertex for the examples.\<close>

definition test_vertex :: GskGLDrawVertex where
  "test_vertex = \<lparr>position = (0, 0), uv = (0, 0)\<rparr>"

text \<open>
  A property of a list of GL calls: every \<open>glBindFramebuffer\<close> in it is followed at once
  by the calls of \<open>apply_scissor\<close> for the framebuffer bound.
\<close>

fun binds_then_scissor :: "guint \<Rightarrow> guint \<Rightarrow> cairo_rectangle_int_t option \<Rightarrow> gl_call list \<Rightarrow> bool" where
  "binds_then_scissor surface_height scale_factor scissor [] = True"
| "binds_then_scissor surface_height scale_factor scissor (c # cs) =
     ((case c of
         GlBindFramebuffer fb \<Rightarrow>
           take (length (apply_scissor fb surface_height scale_factor scissor)) cs
             = apply_scissor fb surface_height scale_factor scissor
       | _ \<Rightarrow> True) \<and>
      binds_then_scissor surface_height scale_factor scissor cs)"

definition example_scissor :: cairo_rectangle_int_t where
  "example_scissor = \<lparr>rect_x = 10, rect_y = 20, rect_width = 100, rect_height = 50\<rparr>"

text \<open>A list of GL calls without a \<open>glBindFramebuffer\<close>.\<close>

definition no_bind_fb :: "gl_call list \<Rightarrow> bool" where
  "no_bind_fb cs \<longleftrightarrow> list_all (\<lambda>c. case c of GlBindFramebuffer fb \<Rightarrow> False | _ \<Rightarrow> True) cs"


text \<open>A recording into an offscreen framebuffer: framebuffer 1 is bound, then the
  example is recorded.\<close>

definition offscreen_recording :: "record_op list" where
  "offscreen_recording = Bind_framebuffer 1 # example_recording"

subsection \<open>Creating textures and render targets\<close>

text \<open>
  What the GL implementation answers during one call: the value \<open>glGetIntegerv\<close> writes
  for \<open>GL_MAX_TEXTURE_SIZE\<close>, the names \<open>glGenTextures\<close> and \<open>glGenFramebuffers\<close> hand
  out (a \<open>GLuint\<close> each), whether the context uses GLES, and whether the framebuffer
  is complete after the texture is attached.
\<close>

record gl_answers =
  gl_max_texture_size :: int
  gl_gen_texture :: guint
  gl_gen_framebuffer :: guint
  gl_use_es :: bool
  gl_framebuffer_complete :: bool

text \<open>
  Modelled from the spec: \<open>gsk_gl_attachment_state_save\<close> copies the attachment state
  and \<open>gsk_gl_attachment_state_restore\<close> binds the saved framebuffer and textures again
  (the attachment state is not among the sources). \<open>restore\<close> asserts that something
  was saved.
\<close>

definition gsk_gl_command_queue_save :: "GskGLCommandQueue \<Rightarrow> GskGLCommandQueue" where
  "gsk_gl_command_queue_save self = self\<lparr>saved_state := saved_state self @ [attachments self]\<rparr>"

definition gsk_gl_command_queue_restore :: "GskGLCommandQueue \<Rightarrow> exec_error + GskGLCommandQueue" where
  "gsk_gl_command_queue_restore self =
     (if \<not> length (saved_state self) > 0 then Inl Assertion_failed
      else Inr (self\<lparr>saved_state := butlast (saved_state self),
                     gl_context := gl_context self @ [RestoreAttachments]\<rparr>))"

definition gl_do :: "gl_call list \<Rightarrow> GskGLCommandQueue \<Rightarrow> GskGLCommandQueue" where
  "gl_do calls self = self\<lparr>gl_context := gl_context self @ calls\<rparr>"

text \<open>\<open>create_texture\<close> returns a C \<open>int\<close>: -1, or the \<open>GLuint\<close> texture name converted
  to \<open>int\<close>.\<close>

definition gsk_gl_command_queue_create_texture ::
    "gl_answers \<Rightarrow> int \<Rightarrow> int \<Rightarrow> int \<Rightarrow> int \<Rightarrow> GskGLCommandQueue \<Rightarrow> exec_error + (int \<times> GskGLCommandQueue)" where
  "gsk_gl_command_queue_create_texture gl width height min_filter mag_filter self =
     (let self1 = (if max_texture_size self = -1
                   then (gl_do [GlGetIntegerv_MAX_TEXTURE_SIZE] self)
                          \<lparr>max_texture_size := gl_max_texture_size gl\<rparr>
                   else self)
      in if width > max_texture_size self1 \<or> height > max_texture_size self1
         then Inr (-1, self1)
         else
           let texture_id = gl_gen_texture gl;
               self2 = gl_do
                 [MakeCurrent, GlGenTextures texture_id, GlActiveTexture0, GlBindTexture2D texture_id,
                  GlTexParameteri_MIN_FILTER min_filter, GlTexParameteri_MAG_FILTER mag_filter,
                  GlTexParameteri_WRAP_S_CLAMP_TO_EDGE, GlTexParameteri_WRAP_T_CLAMP_TO_EDGE,
                  GlTexImage2D width height (gl_use_es gl)]
                 (gsk_gl_command_queue_save self1)
           in case gsk_gl_command_queue_restore self2 of
                Inl e \<Rightarrow> Inl e
              | Inr self3 \<Rightarrow> Inr (sint texture_id, self3))"

text \<open>
  \<open>create_render_target\<close> returns its \<open>gboolean\<close> and what it wrote to \<open>out_fbo_id\<close> and
  \<open>out_texture_id\<close>, \<open>None\<close> when it wrote nothing. A framebuffer that is not complete
  fails the assertion.
\<close>

definition gsk_gl_command_queue_create_render_target ::
    "gl_answers \<Rightarrow> int \<Rightarrow> int \<Rightarrow> int \<Rightarrow> int \<Rightarrow> GskGLCommandQueue \<Rightarrow>
     exec_error + ((bool \<times> (guint \<times> guint) option) \<times> GskGLCommandQueue)" where
  "gsk_gl_command_queue_create_render_target gl width height min_filter mag_filter self =
     (if \<not> width > 0 \<or> \<not> height > 0 then Inr ((False, None), self)
      else
        case gsk_gl_command_queue_create_texture gl width height min_filter mag_filter
               (gsk_gl_command_queue_save self) of
          Inl e \<Rightarrow> Inl e
        | Inr (texture_id, self1) \<Rightarrow>
            if texture_id = -1
            then (case gsk_gl_command_queue_restore self1 of
                    Inl e \<Rightarrow> Inl e
                  | Inr self2 \<Rightarrow> Inr ((False, Some (0, 0)), self2))
            else
              let fbo_id = gl_gen_framebuffer gl;
                  self2 = gl_do [MakeCurrent, GlGenFramebuffers fbo_id, GlBindFramebuffer fbo_id,
                                 GlFramebufferTexture2D (word_of_int texture_id)] self1
              in if \<not> gl_framebuffer_complete gl then Inl Assertion_failed
                 else case gsk_gl_command_queue_restore self2 of
                        Inl e \<Rightarrow> Inl e
                      | Inr self3 \<Rightarrow> Inr ((True, Some (fbo_id, word_of_int texture_id)), self3))"

definition example_gl :: gl_answers where
  "example_gl = \<lparr>gl_max_texture_size = 16384, gl_gen_texture = 7, gl_gen_framebuffer = 3,
     gl_use_es = False, gl_framebuffer_complete = True\<rparr>"

section \<open>The render job of gskglrenderjob.c\<close>

subsection \<open>Single-precision arithmetic\<close>

text \<open>
  The C type \<open>float\<close> is IEEE binary32. A finite \<open>float\<close> is a real number, and an
  addition, subtraction or multiplication of two of them yields the exact result rounded
  to the nearest number with a significand of 24 bits, ties to the even significand;
  comparisons, negation, \<open>MAX\<close> and \<open>MIN\<close> are exact. \<open>float_exponent\<close> is the binary
  exponent of the result's leading bit, found by counting up from the smallest normal
  exponent -126 to the largest, 127; below it the numbers are subnormal, with the spacing
  \<open>2^-149\<close>. Infinities and NaN are not modelled: the model follows the code as long as
  no result reaches \<open>2^128\<close>.
\<close>

fun float_exponent_from :: "nat \<Rightarrow> int \<Rightarrow> real \<Rightarrow> int" where
  "float_exponent_from 0 e x = e"
| "float_exponent_from (Suc n) e x =
     (if \<bar>x\<bar> < 2 powi (e + 1) then e else float_exponent_from n (e + 1) x)"

definition float_exponent :: "real \<Rightarrow> int" where
  "float_exponent x = float_exponent_from 253 (- 126) x"

definition round_to_even :: "real \<Rightarrow> int" where
  "round_to_even y =
     (if y - of_int \<lfloor>y\<rfloor> < 1 / 2 then \<lfloor>y\<rfloor>
      else if y - of_int \<lfloor>y\<rfloor> > 1 / 2 then \<lfloor>y\<rfloor> + 1
      else if even \<lfloor>y\<rfloor> then \<lfloor>y\<rfloor> else \<lfloor>y\<rfloor> + 1)"

definition float_round :: "real \<Rightarrow> float" where
  "float_round x =
     of_int (round_to_even (x / 2 powi (float_exponent x - 23))) * 2 powi (float_exponent x - 23)"

definition fadd :: "float \<Rightarrow> float \<Rightarrow> float" where
  "fadd a b = float_round (a + b)"

definition fsub :: "float \<Rightarrow> float \<Rightarrow> float" where
  "fsub a b = float_round (a - b)"

definition fmul :: "float \<Rightarrow> float \<Rightarrow> float" where
  "fmul a b = float_round (a * b)"

subsection \<open>Rectangles and rounded rectangles\<close>

record graphene_size_t =
  corner_width :: float
  corner_height :: float

text \<open>A \<open>GskRoundedRect\<close>: the bounds and the array \<open>corner[4]\<close> (top left, top right,
  bottom right, bottom left), one field per element.\<close>

record GskRoundedRect =
  bounds :: graphene_rect_t
  corner0 :: graphene_size_t
  corner1 :: graphene_size_t
  corner2 :: graphene_size_t
  corner3 :: graphene_size_t

definition GRAPHENE_RECT_INIT :: "float \<Rightarrow> float \<Rightarrow> float \<Rightarrow> float \<Rightarrow> graphene_rect_t" where
  "GRAPHENE_RECT_INIT x y w h = \<lparr>origin_x = x, origin_y = y, size_width = w, size_height = h\<rparr>"

definition zero_size :: graphene_size_t where
  "zero_size = \<lparr>corner_width = 0, corner_height = 0\<rparr>"

definition GSK_ROUNDED_RECT_INIT :: "float \<Rightarrow> float \<Rightarrow> float \<Rightarrow> float \<Rightarrow> GskRoundedRect" where
  "GSK_ROUNDED_RECT_INIT x y w h =
     \<lparr>bounds = GRAPHENE_RECT_INIT x y w h,
      corner0 = zero_size, corner1 = zero_size, corner2 = zero_size, corner3 = zero_size\<rparr>"

text \<open>The corner macros. \<open>rounded_rect_bottom_left\<close> takes its vertical position from
  \<open>corner[2]\<close> and its size from \<open>corner[3]\<close>, as the source has it.\<close>

definition rounded_rect_corner0 :: "GskRoundedRect \<Rightarrow> graphene_rect_t" where
  "rounded_rect_corner0 r =
     GRAPHENE_RECT_INIT (origin_x (bounds r)) (origin_y (bounds r))
       (corner_width (corner0 r)) (corner_height (corner0 r))"

definition rounded_rect_corner1 :: "GskRoundedRect \<Rightarrow> graphene_rect_t" where
  "rounded_rect_corner1 r =
     GRAPHENE_RECT_INIT (fsub (fadd (origin_x (bounds r)) (size_width (bounds r))) (corner_width (corner1 r)))
       (origin_y (bounds r))
       (corner_width (corner1 r)) (corner_height (corner1 r))"

definition rounded_rect_corner2 :: "GskRoundedRect \<Rightarrow> graphene_rect_t" where
  "rounded_rect_corner2 r =
     GRAPHENE_RECT_INIT (fsub (fadd (origin_x (bounds r)) (size_width (bounds r))) (corner_width (corner2 r)))
       (fsub (fadd (origin_y (bounds r)) (size_height (bounds r))) (corner_height (corner2 r)))
       (corner_width (corner2 r)) (corner_height (corner2 r))"

definition rounded_rect_corner3 :: "GskRoundedRect \<Rightarrow> graphene_rect_t" where
  "rounded_rect_corner3 r =
     GRAPHENE_RECT_INIT (origin_x (bounds r))
       (fsub (fadd (origin_y (bounds r)) (size_height (bounds r))) (corner_height (corner2 r)))
       (corner_width (corner3 r)) (corner_height (corner3 r))"

definition rect_intersects :: "graphene_rect_t \<Rightarrow> graphene_rect_t \<Rightarrow> bool" where
  "rect_intersects r1 r2 =
     (if origin_x r1 > fadd (origin_x r2) (size_width r2) \<or>
         fadd (origin_x r1) (size_width r1) < origin_x r2
      then False
      else if origin_y r1 > fadd (origin_y r2) (size_height r2) \<or>
              fadd (origin_y r1) (size_height r1) < origin_y r2
      then False
      else True)"

definition rect_contains_rect :: "graphene_rect_t \<Rightarrow> graphene_rect_t \<Rightarrow> bool" where
  "rect_contains_rect r1 r2 =
     (if origin_x r2 \<ge> origin_x r1 \<and>
         fadd (origin_x r2) (size_width r2) \<le> fadd (origin_x r1) (size_width r1) \<and>
         origin_y r2 \<ge> origin_y r1 \<and>
         fadd (origin_y r2) (size_height r2) \<le> fadd (origin_y r1) (size_height r1)
      then True else False)"

definition rounded_rect_has_corner :: "graphene_size_t \<Rightarrow> bool" where
  "rounded_rect_has_corner c \<longleftrightarrow> corner_width c > 0 \<and> corner_height c > 0"

text \<open>
  The functions of the graphene and GSK libraries that the job calls on rectangles,
  after their documentation: \<open>graphene_rect_intersection\<close> normalises both rectangles
  and yields their intersection, or the zero rectangle when there is none;
  \<open>graphene_rect_contains_rect\<close> tests whether the second normalised rectangle lies
  in the first; \<open>gsk_rounded_rect_is_rectilinear\<close> tests that no corner has a positive
  width or height. Their sums and differences are those of \<open>float\<close>.
\<close>

definition graphene_rect_normalize :: "graphene_rect_t \<Rightarrow> graphene_rect_t" where
  "graphene_rect_normalize r =
     (let r1 = (if size_width r < 0
                then r\<lparr>origin_x := fsub (origin_x r) \<bar>size_width r\<bar>, size_width := \<bar>size_width r\<bar>\<rparr> else r)
      in if size_height r1 < 0
         then r1\<lparr>origin_y := fsub (origin_y r1) \<bar>size_height r1\<bar>, size_height := \<bar>size_height r1\<bar>\<rparr> else r1)"

definition graphene_rect_intersection :: "graphene_rect_t \<Rightarrow> graphene_rect_t \<Rightarrow> graphene_rect_t" where
  "graphene_rect_intersection a b =
     (let ra = graphene_rect_normalize a; rb = graphene_rect_normalize b;
          x1 = max (origin_x ra) (origin_x rb);
          y1 = max (origin_y ra) (origin_y rb);
          x2 = min (fadd (origin_x ra) (size_width ra)) (fadd (origin_x rb) (size_width rb));
          y2 = min (fadd (origin_y ra) (size_height ra)) (fadd (origin_y rb) (size_height rb))
      in if x1 \<ge> x2 \<or> y1 \<ge> y2 then GRAPHENE_RECT_INIT 0 0 0 0
         else GRAPHENE_RECT_INIT x1 y1 (fsub x2 x1) (fsub y2 y1))"

definition graphene_rect_contains_rect :: "graphene_rect_t \<Rightarrow> graphene_rect_t \<Rightarrow> bool" where
  "graphene_rect_contains_rect a b =
     (let ra = graphene_rect_normalize a; rb = graphene_rect_normalize b
      in origin_x ra \<le> origin_x rb \<and> origin_y ra \<le> origin_y rb \<and>
         fadd (origin_x rb) (size_width rb) \<le> fadd (origin_x ra) (size_width ra) \<and>
         fadd (origin_y rb) (size_height rb) \<le> fadd (origin_y ra) (size_height ra))"

definition gsk_rounded_rect_is_rectilinear :: "GskRoundedRect \<Rightarrow> bool" where
  "gsk_rounded_rect_is_rectilinear r \<longleftrightarrow>
     \<not> (corner_width (corner0 r) > 0 \<or> corner_height (corner0 r) > 0) \<and>
     \<not> (corner_width (corner1 r) > 0 \<or> corner_height (corner1 r) > 0) \<and>
     \<not> (corner_width (corner2 r) > 0 \<or> corner_height (corner2 r) > 0) \<and>
     \<not> (corner_width (corner3 r) > 0 \<or> corner_height (corner3 r) > 0)"

definition rounded_inner_rect_contains_rect :: "GskRoundedRect \<Rightarrow> graphene_rect_t \<Rightarrow> bool" where
  "rounded_inner_rect_contains_rect rounded rect =
     (let offset_x = max (corner_width (corner0 rounded)) (corner_width (corner3 rounded));
          offset_y = max (corner_height (corner0 rounded)) (corner_height (corner1 rounded));
          inner = GRAPHENE_RECT_INIT
            (fadd (origin_x (bounds rounded)) offset_x)
            (fadd (origin_y (bounds rounded)) offset_y)
            (fsub (fsub (size_width (bounds rounded)) offset_x)
               (max (corner_width (corner1 rounded)) (corner_width (corner2 rounded))))
            (fsub (fsub (size_height (bounds rounded)) offset_y)
               (max (corner_height (corner3 rounded)) (corner_height (corner2 rounded))))
      in graphene_rect_contains_rect inner rect)"

text \<open>\<open>intersect_rounded_rectilinear\<close> returns \<open>None\<close> for \<open>FALSE\<close> and the result
  written for \<open>TRUE\<close>.\<close>

definition intersect_rounded_rectilinear :: "graphene_rect_t \<Rightarrow> GskRoundedRect \<Rightarrow> GskRoundedRect option" where
  "intersect_rounded_rectilinear non_rounded rounded =
     (let corners0 = (rounded_rect_has_corner (corner0 rounded) \<and>
                      rect_intersects non_rounded (rounded_rect_corner0 rounded));
          corners1 = (rounded_rect_has_corner (corner1 rounded) \<and>
                      rect_intersects non_rounded (rounded_rect_corner1 rounded));
          corners2 = (rounded_rect_has_corner (corner2 rounded) \<and>
                      rect_intersects non_rounded (rounded_rect_corner2 rounded));
          corners3 = (rounded_rect_has_corner (corner3 rounded) \<and>
                      rect_intersects non_rounded (rounded_rect_corner3 rounded))
      in if corners0 \<and> \<not> rect_contains_rect non_rounded (rounded_rect_corner0 rounded) then None
         else if corners1 \<and> \<not> rect_contains_rect non_rounded (rounded_rect_corner1 rounded) then None
         else if corners2 \<and> \<not> rect_contains_rect non_rounded (rounded_rect_corner2 rounded) then None
         else if corners3 \<and> \<not> rect_contains_rect non_rounded (rounded_rect_corner3 rounded) then None
         else Some \<lparr>bounds = graphene_rect_intersection non_rounded (bounds rounded),
                     corner0 = (if corners0 then corner0 rounded else zero_size),
                     corner1 = (if corners1 then corner1 rounded else zero_size),
                     corner2 = (if corners2 then corner2 rounded else zero_size),
                     corner3 = (if corners3 then corner3 rounded else zero_size)\<rparr>)"

subsection \<open>Transforms, nodes and the job\<close>

datatype GskTransformCategory =
    GSK_TRANSFORM_CATEGORY_UNKNOWN
  | GSK_TRANSFORM_CATEGORY_ANY
  | GSK_TRANSFORM_CATEGORY_3D
  | GSK_TRANSFORM_CATEGORY_2D
  | GSK_TRANSFORM_CATEGORY_2D_AFFINE
  | GSK_TRANSFORM_CATEGORY_2D_TRANSLATE
  | GSK_TRANSFORM_CATEGORY_IDENTITY

text \<open>
  \<open>GskTransform\<close> is not among the sources. The job is modelled over any type \<open>'t\<close> of
  transforms, with the functions of \<open>GskTransform\<close> that the job calls as parameters:
  the category, \<open>gsk_transform_to_translate\<close>, \<open>gsk_transform_to_affine\<close> (scale x,
  scale y, dx, dy), \<open>gsk_transform_translate\<close>, \<open>gsk_transform_transform\<close>,
  \<open>gsk_transform_transform_bounds\<close> and \<open>gsk_transform_scale\<close> applied to \<open>NULL\<close>.
  \<open>unknown_scale\<close> is what \<open>extract_matrix_metadata\<close> computes for the categories
  it does not expect, from a matrix it never initialises.
\<close>

record 't transform_api =
  get_category :: "'t \<Rightarrow> GskTransformCategory"
  to_translate :: "'t \<Rightarrow> float \<times> float"
  to_affine :: "'t \<Rightarrow> float \<times> float \<times> float \<times> float"
  translate :: "'t \<Rightarrow> float \<times> float \<Rightarrow> 't"
  transform :: "'t \<Rightarrow> 't \<Rightarrow> 't"
  transform_bounds :: "'t \<Rightarrow> graphene_rect_t \<Rightarrow> graphene_rect_t"
  scale :: "float \<Rightarrow> float \<Rightarrow> 't"
  unknown_scale :: "float \<times> float"

type_synonym GdkRGBA = "float \<times> float \<times> float \<times> float"

text \<open>A \<open>GskColorStop\<close> is an offset and a colour: five floats.\<close>

type_synonym GskColorStop = "float \<times> GdkRGBA"

text \<open>
  The render nodes, each with its bounds first. \<open>GSK_OTHER_NODE\<close> stands for the node
  types whose case in \<open>visit_node\<close> is empty (blend, blur, border, cairo, colour matrix,
  conic gradient, cross fade, GL shader, the shadows, opacity, the radial and repeating
  gradients, repeat, texture and text).
\<close>

datatype 't GskRenderNode =
    GSK_CONTAINER_NODE graphene_rect_t "'t GskRenderNode list"
  | GSK_DEBUG_NODE graphene_rect_t "string option" "'t GskRenderNode"
  | GSK_COLOR_NODE graphene_rect_t GdkRGBA
  | GSK_LINEAR_GRADIENT_NODE graphene_rect_t "GskColorStop list" "float \<times> float" "float \<times> float"
  | GSK_TRANSFORM_NODE graphene_rect_t 't "'t GskRenderNode"
  | GSK_CLIP_NODE graphene_rect_t graphene_rect_t "'t GskRenderNode"
  | GSK_ROUNDED_CLIP_NODE graphene_rect_t GskRoundedRect "'t GskRenderNode"
  | GSK_OTHER_NODE graphene_rect_t

fun node_bounds :: "'t GskRenderNode \<Rightarrow> graphene_rect_t" where
  "node_bounds (GSK_CONTAINER_NODE b _) = b"
| "node_bounds (GSK_DEBUG_NODE b _ _) = b"
| "node_bounds (GSK_COLOR_NODE b _) = b"
| "node_bounds (GSK_LINEAR_GRADIENT_NODE b _ _ _) = b"
| "node_bounds (GSK_TRANSFORM_NODE b _ _) = b"
| "node_bounds (GSK_CLIP_NODE b _ _) = b"
| "node_bounds (GSK_ROUNDED_CLIP_NODE b _ _) = b"
| "node_bounds (GSK_OTHER_NODE b) = b"

datatype program_name = Color_program | Linear_gradient_program

datatype uniform_key =
    UNIFORM_COLOR_COLOR
  | UNIFORM_LINEAR_GRADIENT_NUM_COLOR_STOPS
  | UNIFORM_LINEAR_GRADIENT_COLOR_STOPS
  | UNIFORM_LINEAR_GRADIENT_START_POINT
  | UNIFORM_LINEAR_GRADIENT_END_POINT

text \<open>
  What a visit does outside the job: the calls to the programs of the driver and to
  the command queue, and the messages printed. \<open>Program_begin_draw\<close> carries the
  viewport, the transform of the current modelview frame, whose matrix the source passes,
  and the current clip. \<open>Draw_rect\<close> is the call
  \<open>add_vertices (queue, NULL)\<close> of \<open>draw_rect\<close> together with the six vertices it
  writes to the pointer returned. \<open>Null_dereference\<close> marks the places where the source
  reads through the current clip although the clip stack is empty; a job made by
  \<open>gsk_gl_render_job_new\<close> never gets there.
\<close>

datatype 't job_call =
    Program_begin_draw program_name graphene_rect_t "'t option" "GskRoundedRect option"
  | Set_uniform_color uniform_key GdkRGBA
  | Set_uniform1i uniform_key int
  | Set_uniform1fv uniform_key int "float list"
  | Set_uniform2f uniform_key float float
  | Draw_rect "GskGLDrawVertex list"
  | Program_end_draw program_name
  | Queue_push_debug_group string
  | Queue_pop_debug_group
  | G_warning string
  | G_critical string
  | G_print string
  | Null_dereference

record 't GskGLRenderModelview =
  mv_transform :: 't
  mv_scale_x :: float
  mv_scale_y :: float
  mv_offset_x_before :: float
  mv_offset_y_before :: float

record GskGLRenderClip =
  clip_rect :: GskRoundedRect
  is_rectilinear :: bool

record 't GskGLRenderJob =
  job_viewport :: graphene_rect_t
  job_modelview :: "'t GskGLRenderModelview list"
  job_clip :: "GskGLRenderClip list"
  job_offset_x :: float
  job_offset_y :: float
  job_scale_x :: float
  job_scale_y :: float
  job_calls :: "'t job_call list"

definition MAX_GRADIENT_STOPS :: int where
  "MAX_GRADIENT_STOPS = 6"

definition emit :: "'t job_call list \<Rightarrow> 't GskGLRenderJob \<Rightarrow> 't GskGLRenderJob" where
  "emit cs job = job\<lparr>job_calls := job_calls job @ cs\<rparr>"

definition node_is_invisible :: "'t GskRenderNode \<Rightarrow> bool" where
  "node_is_invisible node \<longleftrightarrow>
     size_width (node_bounds node) = 0 \<or> size_height (node_bounds node) = 0"

definition gsk_gl_render_job_get_modelview :: "'t GskGLRenderJob \<Rightarrow> 't GskGLRenderModelview option" where
  "gsk_gl_render_job_get_modelview job =
     (if length (job_modelview job) > 0 then Some (last (job_modelview job)) else None)"

text \<open>\<open>extract_matrix_metadata\<close> yields the scale of a frame's transform.\<close>

definition extract_matrix_metadata :: "'t transform_api \<Rightarrow> 't \<Rightarrow> float \<times> float" where
  "extract_matrix_metadata api t =
     (case get_category api t of
        GSK_TRANSFORM_CATEGORY_IDENTITY \<Rightarrow> (1, 1)
      | GSK_TRANSFORM_CATEGORY_2D_TRANSLATE \<Rightarrow> (1, 1)
      | GSK_TRANSFORM_CATEGORY_2D_AFFINE \<Rightarrow> (case to_affine api t of (sx, sy, dx, dy) \<Rightarrow> (sx, sy))
      | _ \<Rightarrow> unknown_scale api)"

definition new_frame :: "'t transform_api \<Rightarrow> 't \<Rightarrow> 't GskGLRenderJob \<Rightarrow> 't GskGLRenderModelview" where
  "new_frame api t job =
     \<lparr>mv_transform = t,
      mv_scale_x = fst (extract_matrix_metadata api t),
      mv_scale_y = snd (extract_matrix_metadata api t),
      mv_offset_x_before = job_offset_x job,
      mv_offset_y_before = job_offset_y job\<rparr>"

definition gsk_gl_render_job_set_modelview :: "'t transform_api \<Rightarrow> 't \<Rightarrow> 't GskGLRenderJob \<Rightarrow> 't GskGLRenderJob" where
  "gsk_gl_render_job_set_modelview api t job =
     job\<lparr>job_modelview := job_modelview job @ [new_frame api t job],
         job_offset_x := 0, job_offset_y := 0,
         job_scale_x := mv_scale_x (new_frame api t job),
         job_scale_y := mv_scale_y (new_frame api t job)\<rparr>"

text \<open>\<open>push_modelview\<close>: with a frame below, the new transform is the one of that frame,
  translated by the offset and followed by the given one. The job's scale is assigned to
  itself.\<close>

definition gsk_gl_render_job_push_modelview :: "'t transform_api \<Rightarrow> 't \<Rightarrow> 't GskGLRenderJob \<Rightarrow> 't GskGLRenderJob" where
  "gsk_gl_render_job_push_modelview api t job =
     (let t' = (if length (job_modelview job) + 1 > 1
                then transform api
                       (translate api (mv_transform (last (job_modelview job)))
                          (job_offset_x job, job_offset_y job)) t
                else t)
      in job\<lparr>job_modelview := job_modelview job @ [new_frame api t' job],
             job_offset_x := 0, job_offset_y := 0,
             job_scale_x := job_scale_x job, job_scale_y := job_scale_y job\<rparr>)"

text \<open>\<open>pop_modelview\<close> asserts that the stack is not empty; on an empty stack the model
  leaves the job as it is.\<close>

definition gsk_gl_render_job_pop_modelview :: "'t GskGLRenderJob \<Rightarrow> 't GskGLRenderJob" where
  "gsk_gl_render_job_pop_modelview job =
     (if \<not> length (job_modelview job) > 0 then job
      else
        let head = last (job_modelview job);
            job1 = job\<lparr>job_offset_x := mv_offset_x_before head,
                       job_offset_y := mv_offset_y_before head,
                       job_modelview := butlast (job_modelview job)\<rparr>
        in if length (job_modelview job1) \<ge> 1
           then job1\<lparr>job_scale_x := mv_scale_x (last (job_modelview job1)),
                     job_scale_y := mv_scale_y (last (job_modelview job1))\<rparr>
           else job1)"

definition gsk_gl_render_job_clip_is_rectilinear :: "'t GskGLRenderJob \<Rightarrow> bool" where
  "gsk_gl_render_job_clip_is_rectilinear job =
     (if length (job_clip job) = 0 then True else is_rectilinear (last (job_clip job)))"

definition gsk_gl_render_job_get_clip :: "'t GskGLRenderJob \<Rightarrow> GskRoundedRect option" where
  "gsk_gl_render_job_get_clip job =
     (if length (job_clip job) = 0 then None else Some (clip_rect (last (job_clip job))))"

definition gsk_gl_render_job_push_clip :: "GskRoundedRect \<Rightarrow> 't GskGLRenderJob \<Rightarrow> 't GskGLRenderJob" where
  "gsk_gl_render_job_push_clip rect job =
     job\<lparr>job_clip := job_clip job @
           [\<lparr>clip_rect = rect, is_rectilinear = gsk_rounded_rect_is_rectilinear rect\<rparr>]\<rparr>"

definition gsk_gl_render_job_pop_clip :: "'t GskGLRenderJob \<Rightarrow> 't GskGLRenderJob" where
  "gsk_gl_render_job_pop_clip job = job\<lparr>job_clip := butlast (job_clip job)\<rparr>"

definition gsk_gl_render_job_offset :: "float \<Rightarrow> float \<Rightarrow> 't GskGLRenderJob \<Rightarrow> 't GskGLRenderJob" where
  "gsk_gl_render_job_offset offset_x offset_y job =
     job\<lparr>job_offset_x := fadd (job_offset_x job) offset_x,
         job_offset_y := fadd (job_offset_y job) offset_y\<rparr>"

text \<open>
  \<open>transform_bounds\<close>. \<open>bounds_argument\<close> is the rectangle \<open>r\<close> it builds and hands to
  \<open>gsk_transform_transform_bounds\<close>. Without a modelview the function prints a critical
  message and leaves \<open>out_rect\<close> as it was; \<open>out_rect\<close> is the value of that variable
  before the call.
\<close>

definition bounds_argument :: "'t GskGLRenderJob \<Rightarrow> graphene_rect_t \<Rightarrow> graphene_rect_t" where
  "bounds_argument job rect =
     \<lparr>origin_x = fadd (origin_x rect) (job_offset_x job),
      origin_y = fadd (origin_y rect) (job_offset_y job),
      size_width = size_width rect,
      size_height = size_width rect\<rparr>"

definition gsk_gl_render_job_transform_bounds ::
    "'t transform_api \<Rightarrow> 't GskGLRenderJob \<Rightarrow> graphene_rect_t \<Rightarrow> graphene_rect_t \<Rightarrow>
     graphene_rect_t \<times> 't GskGLRenderJob" where
  "gsk_gl_render_job_transform_bounds api job rect out_rect =
     (case gsk_gl_render_job_get_modelview job of
        Some modelview \<Rightarrow>
          (transform_bounds api (mv_transform modelview) (bounds_argument job rect), job)
      | None \<Rightarrow> (out_rect, emit [G_critical ''Attempt to transform with NULL modelview''] job))"

text \<open>A local rectangle that the source declares without initialising it. It is read
  only after a \<open>transform_bounds\<close> that found no modelview.\<close>

definition uninitialised_rect :: graphene_rect_t where
  "uninitialised_rect = GRAPHENE_RECT_INIT 0 0 0 0"

definition gsk_gl_render_job_node_overlaps_clip ::
    "'t transform_api \<Rightarrow> 't GskRenderNode \<Rightarrow> 't GskGLRenderJob \<Rightarrow> bool \<times> 't GskGLRenderJob" where
  "gsk_gl_render_job_node_overlaps_clip api node job =
     (case gsk_gl_render_job_get_clip job of
        Some clip \<Rightarrow>
          (let (transformed_bounds, job1) =
                 gsk_gl_render_job_transform_bounds api job (node_bounds node) uninitialised_rect
           in (rect_intersects (bounds clip) transformed_bounds, job1))
      | None \<Rightarrow> (True, job))"

definition draw_rect_vertices :: "'t GskGLRenderJob \<Rightarrow> graphene_rect_t \<Rightarrow> GskGLDrawVertex list" where
  "draw_rect_vertices job rect =
     (let min_x = fadd (job_offset_x job) (origin_x rect);
          min_y = fadd (job_offset_y job) (origin_y rect);
          max_x = fadd min_x (size_width rect);
          max_y = fadd min_y (size_height rect)
      in [\<lparr>position = (min_x, min_y), uv = (0, 0)\<rparr>,
          \<lparr>position = (min_x, max_y), uv = (0, 1)\<rparr>,
          \<lparr>position = (max_x, min_y), uv = (1, 0)\<rparr>,
          \<lparr>position = (max_x, max_y), uv = (1, 1)\<rparr>,
          \<lparr>position = (min_x, max_y), uv = (0, 1)\<rparr>,
          \<lparr>position = (max_x, min_y), uv = (1, 0)\<rparr>])"

definition gsk_gl_render_job_draw_rect :: "graphene_rect_t \<Rightarrow> 't GskGLRenderJob \<Rightarrow> 't GskGLRenderJob" where
  "gsk_gl_render_job_draw_rect rect job = emit [Draw_rect (draw_rect_vertices job rect)] job"

text \<open>\<open>visit_as_fallback\<close> has an empty body.\<close>

definition gsk_gl_render_job_visit_as_fallback :: "'t GskRenderNode \<Rightarrow> 't GskGLRenderJob \<Rightarrow> 't GskGLRenderJob" where
  "gsk_gl_render_job_visit_as_fallback node job = job"

definition program_begin_draw :: "program_name \<Rightarrow> 't GskGLRenderJob \<Rightarrow> 't GskGLRenderJob" where
  "program_begin_draw prog job =
     emit [Program_begin_draw prog (job_viewport job)
             (map_option mv_transform (gsk_gl_render_job_get_modelview job))
             (gsk_gl_render_job_get_clip job)] job"

definition gsk_gl_render_job_visit_color_node :: "'t GskRenderNode \<Rightarrow> 't GskGLRenderJob \<Rightarrow> 't GskGLRenderJob" where
  "gsk_gl_render_job_visit_color_node node job =
     (case node of
        GSK_COLOR_NODE b color \<Rightarrow>
          emit [Program_end_draw Color_program]
            (gsk_gl_render_job_draw_rect b
              (emit [Set_uniform_color UNIFORM_COLOR_COLOR color]
                (program_begin_draw Color_program job)))
      | _ \<Rightarrow> job)"

text \<open>The stops reinterpreted as an array of floats, as the cast
  \<open>(const float *)stops\<close> does.\<close>

definition stop_floats :: "GskColorStop list \<Rightarrow> float list" where
  "stop_floats stops = concat (map (\<lambda>(offset, r, g, b, a). [offset, r, g, b, a]) stops)"

definition gsk_gl_render_job_visit_linear_gradient_node ::
    "'t GskRenderNode \<Rightarrow> 't GskGLRenderJob \<Rightarrow> 't GskGLRenderJob" where
  "gsk_gl_render_job_visit_linear_gradient_node node job =
     (case node of
        GSK_LINEAR_GRADIENT_NODE b stops start_point end_point \<Rightarrow>
          (let n_color_stops = int (length stops)
           in if n_color_stops < MAX_GRADIENT_STOPS
              then emit [Program_end_draw Linear_gradient_program]
                     (gsk_gl_render_job_draw_rect b
                        (emit [Set_uniform1i UNIFORM_LINEAR_GRADIENT_NUM_COLOR_STOPS n_color_stops,
                               Set_uniform1fv UNIFORM_LINEAR_GRADIENT_COLOR_STOPS (n_color_stops * 5)
                                 (stop_floats stops),
                               Set_uniform2f UNIFORM_LINEAR_GRADIENT_START_POINT (fst start_point) (snd start_point),
                               Set_uniform2f UNIFORM_LINEAR_GRADIENT_END_POINT (fst end_point) (snd end_point)]
                           (program_begin_draw Linear_gradient_program job)))
              else gsk_gl_render_job_visit_as_fallback node job)
      | _ \<Rightarrow> job)"

subsection \<open>Visiting nodes\<close>

definition scale_corner :: "float \<Rightarrow> float \<Rightarrow> graphene_size_t \<Rightarrow> graphene_size_t" where
  "scale_corner sx sy c =
     \<lparr>corner_width = fmul (corner_width c) sx, corner_height = fmul (corner_height c) sy\<rparr>"

definition rect_as_rounded :: "graphene_rect_t \<Rightarrow> GskRoundedRect" where
  "rect_as_rounded r =
     \<lparr>bounds = r, corner0 = zero_size, corner1 = zero_size, corner2 = zero_size, corner3 = zero_size\<rparr>"

fun gsk_gl_render_job_visit_node ::
      "'t transform_api \<Rightarrow> 't GskRenderNode \<Rightarrow> 't GskGLRenderJob \<Rightarrow> 't GskGLRenderJob"
  and visit_children ::
      "'t transform_api \<Rightarrow> 't GskRenderNode list \<Rightarrow> 't GskGLRenderJob \<Rightarrow> 't GskGLRenderJob"
  and gsk_gl_render_job_visit_clipped_child ::
      "'t transform_api \<Rightarrow> 't GskRenderNode \<Rightarrow> GskRoundedRect \<Rightarrow> 't GskGLRenderJob \<Rightarrow> 't GskGLRenderJob"
  and gsk_gl_render_job_visit_clip_node ::
      "'t transform_api \<Rightarrow> 't GskRenderNode \<Rightarrow> 't GskGLRenderJob \<Rightarrow> 't GskGLRenderJob"
  and gsk_gl_render_job_visit_rounded_clip_node ::
      "'t transform_api \<Rightarrow> 't GskRenderNode \<Rightarrow> 't GskGLRenderJob \<Rightarrow> 't GskGLRenderJob"
  and gsk_gl_render_job_visit_transform_node ::
      "'t transform_api \<Rightarrow> 't GskRenderNode \<Rightarrow> 't GskGLRenderJob \<Rightarrow> 't GskGLRenderJob"
where
  "gsk_gl_render_job_visit_node api node job =
     (if node_is_invisible node then job
      else case gsk_gl_render_job_node_overlaps_clip api node job of
        (overlaps, job1) \<Rightarrow>
          if \<not> overlaps then job1
          else (case node of
              GSK_CONTAINER_NODE b children \<Rightarrow> visit_children api children job1
            | GSK_DEBUG_NODE b message child \<Rightarrow>
                (case message of
                   None \<Rightarrow> gsk_gl_render_job_visit_node api child job1
                 | Some m \<Rightarrow>
                     emit [Queue_pop_debug_group]
                       (gsk_gl_render_job_visit_node api child (emit [Queue_push_debug_group m] job1)))
            | GSK_COLOR_NODE b color \<Rightarrow> gsk_gl_render_job_visit_color_node node job1
            | GSK_LINEAR_GRADIENT_NODE b stops start_point end_point \<Rightarrow>
                gsk_gl_render_job_visit_linear_gradient_node node job1
            | GSK_TRANSFORM_NODE b t child \<Rightarrow> gsk_gl_render_job_visit_transform_node api node job1
            | GSK_CLIP_NODE b clip child \<Rightarrow> gsk_gl_render_job_visit_clip_node api node job1
            | GSK_ROUNDED_CLIP_NODE b clip child \<Rightarrow> gsk_gl_render_job_visit_rounded_clip_node api node job1
            | GSK_OTHER_NODE b \<Rightarrow> job1))"
| "visit_children api [] job = job"
| "visit_children api (child # children) job =
     visit_children api children (gsk_gl_render_job_visit_node api child job)"
| "gsk_gl_render_job_visit_clipped_child api child clip job =
     (case gsk_gl_render_job_transform_bounds api job (bounds clip) uninitialised_rect of
        (transformed_clip, job1) \<Rightarrow>
          if gsk_gl_render_job_clip_is_rectilinear job1
          then (case gsk_gl_render_job_get_clip job1 of
                  None \<Rightarrow> emit [Null_dereference] job1
                | Some current_clip \<Rightarrow>
                    gsk_gl_render_job_pop_clip
                      (gsk_gl_render_job_visit_node api child
                        (gsk_gl_render_job_push_clip
                           (rect_as_rounded
                              (graphene_rect_intersection transformed_clip (bounds current_clip)))
                           job1)))
          else (case intersect_rounded_rectilinear transformed_clip clip of
                  Some intersection \<Rightarrow>
                    gsk_gl_render_job_pop_clip
                      (gsk_gl_render_job_visit_node api child
                        (gsk_gl_render_job_push_clip intersection job1))
                | None \<Rightarrow> job1))"
| "gsk_gl_render_job_visit_clip_node api (GSK_CLIP_NODE b clip child) job =
     gsk_gl_render_job_visit_clipped_child api child (rect_as_rounded clip) job"
| "gsk_gl_render_job_visit_clip_node api _ job = job"
| "gsk_gl_render_job_visit_rounded_clip_node api (GSK_ROUNDED_CLIP_NODE b clip child) job =
     (if node_is_invisible child then job
      else case gsk_gl_render_job_get_clip job of
        None \<Rightarrow> emit [Null_dereference] job
      | Some current_clip \<Rightarrow>
          (case gsk_gl_render_job_transform_bounds api job (bounds clip) uninitialised_rect of
             (transformed_bounds, job1) \<Rightarrow>
               let transformed_clip =
                     \<lparr>bounds = transformed_bounds,
                      corner0 = scale_corner (job_scale_x job) (job_scale_y job) (corner0 clip),
                      corner1 = scale_corner (job_scale_x job) (job_scale_y job) (corner1 clip),
                      corner2 = scale_corner (job_scale_x job) (job_scale_y job) (corner2 clip),
                      corner3 = scale_corner (job_scale_x job) (job_scale_y job) (corner3 clip)\<rparr>;
                   fast = (if gsk_rounded_rect_is_rectilinear clip
                           then intersect_rounded_rectilinear (bounds current_clip) transformed_clip
                           else None)
               in case fast of
                    Some intersected_clip \<Rightarrow>
                      emit [G_print (''All good'' @ [CHR 0x0A])]
                        (gsk_gl_render_job_pop_clip
                          (gsk_gl_render_job_visit_node api child
                            (gsk_gl_render_job_push_clip intersected_clip job1)))
                  | None \<Rightarrow>
                      let need_offscreen =
                            (if length (job_clip job1) \<le> 1 then False
                             else if rounded_inner_rect_contains_rect current_clip (bounds transformed_clip)
                             then False else True)
                      in if \<not> need_offscreen
                         then if rounded_inner_rect_contains_rect transformed_clip (bounds current_clip)
                              then gsk_gl_render_job_visit_node api child job1
                              else gsk_gl_render_job_pop_clip
                                     (gsk_gl_render_job_visit_node api child
                                       (gsk_gl_render_job_push_clip transformed_clip job1))
                         else job1))"
| "gsk_gl_render_job_visit_rounded_clip_node api _ job = job"
| "gsk_gl_render_job_visit_transform_node api (GSK_TRANSFORM_NODE b t child) job =
     (case get_category api t of
        GSK_TRANSFORM_CATEGORY_IDENTITY \<Rightarrow> gsk_gl_render_job_visit_node api child job
      | GSK_TRANSFORM_CATEGORY_2D_TRANSLATE \<Rightarrow>
          (case to_translate api t of
             (dx, dy) \<Rightarrow>
               gsk_gl_render_job_offset (- dx) (- dy)
                 (gsk_gl_render_job_visit_node api child (gsk_gl_render_job_offset dx dy job)))
      | GSK_TRANSFORM_CATEGORY_2D_AFFINE \<Rightarrow>
          gsk_gl_render_job_pop_modelview
            (gsk_gl_render_job_visit_node api child (gsk_gl_render_job_push_modelview api t job))
      | GSK_TRANSFORM_CATEGORY_2D \<Rightarrow> emit [G_warning (''TODO: complex transform'' @ [CHR 0x0A])] job
      | GSK_TRANSFORM_CATEGORY_3D \<Rightarrow> emit [G_warning (''TODO: complex transform'' @ [CHR 0x0A])] job
      | GSK_TRANSFORM_CATEGORY_ANY \<Rightarrow> emit [G_warning (''TODO: complex transform'' @ [CHR 0x0A])] job
      | GSK_TRANSFORM_CATEGORY_UNKNOWN \<Rightarrow> emit [G_warning (''TODO: complex transform'' @ [CHR 0x0A])] job)"
| "gsk_gl_render_job_visit_transform_node api _ job = job"

subsection \<open>Creating a job, and the examples\<close>

text \<open>\<open>gsk_gl_render_job_new\<close>, as far as it sets the state modelled here. \<open>region\<close> is
  the extents of the region as a rectangle, \<open>None\<close> for \<open>NULL\<close>; the result is \<open>None\<close> when
  the scale factor is not positive.\<close>

definition gsk_gl_render_job_new ::
    "'t transform_api \<Rightarrow> graphene_rect_t \<Rightarrow> float \<Rightarrow> graphene_rect_t option \<Rightarrow> 't GskGLRenderJob option" where
  "gsk_gl_render_job_new api viewport scale_factor region =
     (if \<not> scale_factor > 0 then None
      else
        let job0 = \<lparr>job_viewport = viewport, job_modelview = [], job_clip = [],
                    job_offset_x = 0, job_offset_y = 0,
                    job_scale_x = scale_factor, job_scale_y = scale_factor, job_calls = []\<rparr>;
            job1 = gsk_gl_render_job_set_modelview api (scale api scale_factor scale_factor) job0;
            (clip_rect, job2) =
               (case region of
                  None \<Rightarrow> (viewport, job1)
                | Some extents \<Rightarrow> gsk_gl_render_job_transform_bounds api job1 extents uninitialised_rect)
        in Some (gsk_gl_render_job_push_clip
                   (GSK_ROUNDED_RECT_INIT (origin_x clip_rect) (origin_y clip_rect)
                      (size_width clip_rect) (size_height clip_rect)) job2))"


text \<open>
  Transforms for the examples: a category, a scale and a translation, with the
  functions of \<open>GskTransform\<close> on them. Composition takes the more general category.
\<close>

datatype affine = Affine GskTransformCategory float float float float

fun category_rank :: "GskTransformCategory \<Rightarrow> nat" where
  "category_rank GSK_TRANSFORM_CATEGORY_UNKNOWN = 0"
| "category_rank GSK_TRANSFORM_CATEGORY_ANY = 1"
| "category_rank GSK_TRANSFORM_CATEGORY_3D = 2"
| "category_rank GSK_TRANSFORM_CATEGORY_2D = 3"
| "category_rank GSK_TRANSFORM_CATEGORY_2D_AFFINE = 4"
| "category_rank GSK_TRANSFORM_CATEGORY_2D_TRANSLATE = 5"
| "category_rank GSK_TRANSFORM_CATEGORY_IDENTITY = 6"

definition category_min :: "GskTransformCategory \<Rightarrow> GskTransformCategory \<Rightarrow> GskTransformCategory" where
  "category_min a b = (if category_rank a \<le> category_rank b then a else b)"

fun affine_category :: "affine \<Rightarrow> GskTransformCategory" where
  "affine_category (Affine c sx sy dx dy) = c"

fun affine_to_translate :: "affine \<Rightarrow> float \<times> float" where
  "affine_to_translate (Affine c sx sy dx dy) = (dx, dy)"

fun affine_to_affine :: "affine \<Rightarrow> float \<times> float \<times> float \<times> float" where
  "affine_to_affine (Affine c sx sy dx dy) = (sx, sy, dx, dy)"

fun affine_translate :: "affine \<Rightarrow> float \<times> float \<Rightarrow> affine" where
  "affine_translate (Affine c sx sy dx dy) (x, y) =
     Affine (category_min c GSK_TRANSFORM_CATEGORY_2D_TRANSLATE) sx sy
       (fadd dx (fmul sx x)) (fadd dy (fmul sy y))"

fun affine_transform :: "affine \<Rightarrow> affine \<Rightarrow> affine" where
  "affine_transform (Affine c sx sy dx dy) (Affine c' sx' sy' dx' dy') =
     Affine (category_min c c') (fmul sx sx') (fmul sy sy')
       (fadd dx (fmul sx dx')) (fadd dy (fmul sy dy'))"

fun affine_transform_bounds :: "affine \<Rightarrow> graphene_rect_t \<Rightarrow> graphene_rect_t" where
  "affine_transform_bounds (Affine c sx sy dx dy) r =
     graphene_rect_normalize
       (GRAPHENE_RECT_INIT (fadd (fmul (origin_x r) sx) dx) (fadd (fmul (origin_y r) sy) dy)
          (fmul (size_width r) sx) (fmul (size_height r) sy))"

definition affine_api :: "affine transform_api" where
  "affine_api =
     \<lparr>get_category = affine_category, to_translate = affine_to_translate,
      to_affine = affine_to_affine, translate = affine_translate,
      transform = affine_transform, transform_bounds = affine_transform_bounds,
      scale = (\<lambda>fx fy. Affine GSK_TRANSFORM_CATEGORY_2D_AFFINE fx fy 0 0),
      unknown_scale = (1, 1)\<rparr>"

text \<open>The job of the examples: a viewport of 200 by 200 at scale 1, no region.\<close>

definition example_job :: "affine GskGLRenderJob" where
  "example_job = the (gsk_gl_render_job_new affine_api (GRAPHENE_RECT_INIT 0 0 200 200) 1 None)"

text \<open>
  A rounded clip \<open>A\<close> with bounds (0, 0, 100, 100) and radius 10 around two children, each
  a clip around a red rectangle, with the bounds that the node constructors give them.
  Clip \<open>B\<close>, (1, 1, 50, 50), cuts the top left corner box (0, 0, 10, 10) of \<open>A\<close> without
  containing it, and its corner (1, 1) lies outside the rounding of \<open>A\<close>. Clip \<open>C\<close>,
  (50, 50, 100, 100), contains the bottom right corner box (90, 90, 10, 10) of \<open>A\<close> and
  reaches beyond \<open>A\<close>.
\<close>

definition radius_10 :: graphene_size_t where
  "radius_10 = \<lparr>corner_width = 10, corner_height = 10\<rparr>"

definition clip_A :: GskRoundedRect where
  "clip_A = \<lparr>bounds = GRAPHENE_RECT_INIT 0 0 100 100,
              corner0 = radius_10, corner1 = radius_10, corner2 = radius_10, corner3 = radius_10\<rparr>"

definition rect_B :: graphene_rect_t where
  "rect_B = GRAPHENE_RECT_INIT 1 1 50 50"

definition rect_C :: graphene_rect_t where
  "rect_C = GRAPHENE_RECT_INIT 50 50 100 100"

definition red :: GdkRGBA where
  "red = (1, 0, 0, 1)"

definition B_in_A :: "affine GskRenderNode" where
  "B_in_A = GSK_ROUNDED_CLIP_NODE rect_B clip_A
              (GSK_CLIP_NODE rect_B rect_B (GSK_COLOR_NODE (GRAPHENE_RECT_INIT 0 0 100 100) red))"

definition C_in_A :: "affine GskRenderNode" where
  "C_in_A = GSK_ROUNDED_CLIP_NODE (GRAPHENE_RECT_INIT 60 60 40 40) clip_A
              (GSK_CLIP_NODE (GRAPHENE_RECT_INIT 60 60 80 80) rect_C
                 (GSK_COLOR_NODE (GRAPHENE_RECT_INIT 60 60 80 80) red))"

text \<open>The modelview of the example job, and the calls with which a visit draws a red
  rectangle under a given clip.\<close>

definition example_modelview :: affine where
  "example_modelview = Affine GSK_TRANSFORM_CATEGORY_2D_AFFINE 1 1 0 0"

definition red_rectangle_calls :: "GskRoundedRect \<Rightarrow> graphene_rect_t \<Rightarrow> affine job_call list" where
  "red_rectangle_calls clip rect =
     [Program_begin_draw Color_program (GRAPHENE_RECT_INIT 0 0 200 200) (Some example_modelview) (Some clip),
      Set_uniform_color UNIFORM_COLOR_COLOR red,
      Draw_rect (draw_rect_vertices example_job rect),
      Program_end_draw Color_program]"


text \<open>Gradient stops for the examples.\<close>

definition grey_stops :: "nat \<Rightarrow> GskColorStop list" where
  "grey_stops n = replicate n (0, 1, 1, 1, 1)"

subsection \<open>The scissor state that execution leaves\<close>

text \<open>
  What the calls of \<open>execute\<close> mean for the part of the GL state that scissoring is
  about: \<open>glBindFramebuffer\<close> sets the bound framebuffer, \<open>glEnable\<close> and \<open>glDisable\<close> of
  \<open>GL_SCISSOR_TEST\<close> switch the test, \<open>glScissor\<close> sets the box; no other call of the
  trace touches them.
\<close>

record gl_scissor_state =
  gl_bound_framebuffer :: guint
  gl_scissor_test :: bool
  gl_scissor_box :: "guint \<times> guint \<times> guint \<times> guint"

fun gl_apply :: "gl_call \<Rightarrow> gl_scissor_state \<Rightarrow> gl_scissor_state" where
  "gl_apply (GlBindFramebuffer fb) g = g\<lparr>gl_bound_framebuffer := fb\<rparr>"
| "gl_apply (GlEnable cap) g = (if cap = GL_SCISSOR_TEST then g\<lparr>gl_scissor_test := True\<rparr> else g)"
| "gl_apply (GlDisable cap) g = (if cap = GL_SCISSOR_TEST then g\<lparr>gl_scissor_test := False\<rparr> else g)"
| "gl_apply (GlScissor x y w h) g = g\<lparr>gl_scissor_box := (x, y, w, h)\<rparr>"
| "gl_apply _ g = g"

text \<open>The scissor in effect: the box when the test is on.\<close>

definition gl_scissor_in_effect :: "gl_scissor_state \<Rightarrow> (guint \<times> guint \<times> guint \<times> guint) option" where
  "gl_scissor_in_effect g = (if gl_scissor_test g then Some (gl_scissor_box g) else None)"

fun is_clear_or_draw :: "gl_call \<Rightarrow> bool" where
  "is_clear_or_draw (GlClear bits) = True"
| "is_clear_or_draw (GlDrawArrays first n) = True"
| "is_clear_or_draw _ = False"

text \<open>For every \<open>glClear\<close> and \<open>glDrawArrays\<close> of a trace, in order: the framebuffer bound
  and the scissor in effect when it is issued.\<close>

fun targets_drawn ::
    "gl_scissor_state \<Rightarrow> gl_call list \<Rightarrow> (guint \<times> (guint \<times> guint \<times> guint \<times> guint) option) list" where
  "targets_drawn g [] = []"
| "targets_drawn g (c # cs) =
     (if is_clear_or_draw c then [(gl_bound_framebuffer g, gl_scissor_in_effect g)] else []) @
     targets_drawn (gl_apply c g) cs"

text \<open>The scissor that C3, amended, asks for on a framebuffer: none on a framebuffer other
  than zero and when no rectangle was supplied, the scaled and flipped rectangle on
  framebuffer zero.\<close>

definition scissor_for ::
    "guint \<Rightarrow> guint \<Rightarrow> guint \<Rightarrow> cairo_rectangle_int_t option \<Rightarrow> (guint \<times> guint \<times> guint \<times> guint) option" where
  "scissor_for framebuffer surface_height scale_factor scissor =
     (case scissor of
        None \<Rightarrow> None
      | Some r \<Rightarrow>
          if framebuffer = 0
          then Some (rect_x r * scale_factor,
                     surface_height - rect_height r * scale_factor - rect_y r * scale_factor,
                     rect_width r * scale_factor,
                     rect_height r * scale_factor)
          else None)"

text \<open>The framebuffer a batch is recorded for, if it clears or draws.\<close>

definition batch_target :: "GskGLCommandBatch \<Rightarrow> guint option" where
  "batch_target b =
     (case kind b of
        GSK_GL_COMMAND_KIND_CLEAR \<Rightarrow> Some (clear_framebuffer b)
      | GSK_GL_COMMAND_KIND_DRAW \<Rightarrow> Some (draw_framebuffer b)
      | _ \<Rightarrow> None)"

definition gl_run :: "gl_scissor_state \<Rightarrow> gl_call list \<Rightarrow> gl_scissor_state" where
  "gl_run g cs = fold gl_apply cs g"

fun scissor_neutral :: "gl_call \<Rightarrow> bool" where
  "scissor_neutral (GlBindFramebuffer fb) = False"
| "scissor_neutral (GlEnable cap) = (cap \<noteq> GL_SCISSOR_TEST)"
| "scissor_neutral (GlDisable cap) = (cap \<noteq> GL_SCISSOR_TEST)"
| "scissor_neutral (GlScissor x y w h) = False"
| "scissor_neutral (GlClear bits) = False"
| "scissor_neutral (GlDrawArrays first n) = False"
| "scissor_neutral _ = True"

definition scissor_tracks :: "guint \<Rightarrow> guint \<Rightarrow> cairo_rectangle_int_t option \<Rightarrow> gl_scissor_state \<Rightarrow> exec_state \<Rightarrow> bool" where
  "scissor_tracks H sf sc g st \<longleftrightarrow>
     gl_bound_framebuffer g = cur_framebuffer st \<and>
     gl_scissor_in_effect g = scissor_for (cur_framebuffer st) H sf sc"

text \<open>The GL state on entry to \<open>execute\<close> in the examples: the window's framebuffer
  bound, as \<open>execute\<close> takes it to be, and the scissor test off.\<close>

definition gl_at_entry :: gl_scissor_state where
  "gl_at_entry = \<lparr>gl_bound_framebuffer = 0, gl_scissor_test = False, gl_scissor_box = (0, 0, 0, 0)\<rparr>"

section \<open>Properties of recording\<close>

subsection \<open>Auxiliary facts\<close>

lemmas cq_defs = gsk_gl_command_queue_end_draw_def gsk_gl_command_queue_begin_draw_def
  begin_next_batch_def set_last_batch_def discard_batch_def enqueue_batch_def
  gsk_gl_command_queue_add_vertices_def gsk_gl_buffer_advance_def gsk_gl_buffer_get_offset_def
  GSK_GL_N_VERTICES_def memcpy_vertices_def

lemma ucast_of_nat_down:
  "LENGTH('b::len) \<le> LENGTH('a::len) \<Longrightarrow> (ucast (word_of_nat n :: 'a word) :: 'b word) = word_of_nat n"
  by (rule bit_word_eqI) (auto simp add: bit_simps)

lemma links_ok_iff:
  "links_ok m bs \<longleftrightarrow>
     (\<forall>i<length bs. next_batch_index (bs ! i) = (if i + 1 < m then int i + 1 else -1))"
  by (auto simp: links_ok_def list_all_iff)

lemma links_okD:
  "links_ok m bs \<Longrightarrow> i < length bs \<Longrightarrow>
     next_batch_index (bs ! i) = (if i + 1 < m then int i + 1 else -1)"
  by (simp add: links_ok_iff)

lemma links_ok_open:
  "links_ok (length bs) bs \<Longrightarrow> next_batch_index b = -1 \<Longrightarrow> links_ok (length bs) (bs @ [b])"
  by (auto simp: links_ok_iff nth_append)

lemma links_ok_close:
  assumes "links_ok (length bs) (bs @ [b])"
  shows "links_ok (length bs) bs"
  unfolding links_ok_iff
proof (intro allI impI)
  fix i assume i: "i < length bs"
  then have "next_batch_index ((bs @ [b]) ! i) = (if i + 1 < length bs then int i + 1 else -1)"
    using links_okD[OF assms, of i] by simp
  then show "next_batch_index (bs ! i) = (if i + 1 < length bs then int i + 1 else -1)"
    using i by (simp add: nth_append)
qed

lemma links_ok_count:
  "links_ok m bs \<Longrightarrow> links_ok m (bs[i := (bs ! i)\<lparr>draw_vbo_count := c\<rparr>])"
  by (cases "i < length bs") (auto simp: links_ok_iff nth_list_update)

lemma batch_ok_next [simp]: "batch_ok nu nb (b\<lparr>next_batch_index := k\<rparr>) = batch_ok nu nb b"
  by (simp add: batch_ok_def)

lemma batch_ok_count [simp]: "batch_ok nu nb (b\<lparr>draw_vbo_count := k\<rparr>) = batch_ok nu nb b"
  by (simp add: batch_ok_def)

lemma list_all_update:
  "list_all P xs \<Longrightarrow> (i < length xs \<Longrightarrow> P x) \<Longrightarrow> list_all P (xs[i := x])"
  by (cases "i < length xs") (auto simp: list_all_length nth_list_update)

lemma enqueue_fields:
  "in_draw (enqueue_batch s) = in_draw s"
  "batch_uniforms (enqueue_batch s) = batch_uniforms s"
  "batch_binds (enqueue_batch s) = batch_binds s"
  "attachments (enqueue_batch s) = attachments s"
  "vertices (enqueue_batch s) = vertices s"
  "length (batches (enqueue_batch s)) = length (batches s)"
  "tail_batch_index (enqueue_batch s) = int (length (batches s)) - 1"
  by (simp_all add: enqueue_batch_def Let_def)

lemma enqueue_batch_ok:
  "list_all (batch_ok nu nb) (batches s) \<Longrightarrow> list_all (batch_ok nu nb) (batches (enqueue_batch s))"
  by (cases "nat (tail_batch_index s) < length (batches s)")
     (auto simp: enqueue_batch_def Let_def list_all_length nth_list_update)

lemma links_ok_enqueue:
  assumes l: "links_ok (length bs) (bs @ [b])" and s: "batches s = bs @ [b]"
    and t: "tail_batch_index s = int (length bs) - 1"
  shows "links_ok (Suc (length bs)) (batches (enqueue_batch s))"
  unfolding links_ok_iff
proof (intro allI impI)
  fix i assume "i < length (batches (enqueue_batch s))"
  then have i: "i < Suc (length bs)" by (simp add: enqueue_fields s)
  have old: "next_batch_index ((bs @ [b]) ! i) = (if i + 1 < length bs then int i + 1 else -1)"
    using links_okD[OF l, of i] i by simp
  show "next_batch_index (batches (enqueue_batch s) ! i) =
          (if i + 1 < Suc (length bs) then int i + 1 else -1)"
  proof (cases "bs = []")
    case True
    then show ?thesis using i old s t by (simp add: enqueue_batch_def Let_def)
  next
    case False
    then have tn: "nat (tail_batch_index s) = length bs - 1" "tail_batch_index s \<noteq> -1"
      using t by auto
    have len: "int (length bs - Suc 0) + 1 = int (length bs)" using False
      by (cases bs) auto
    show ?thesis using i old False len
      by (auto simp: enqueue_batch_def Let_def s tn nth_list_update nth_append)
  qed
qed

text \<open>One call of \<open>add_vertices\<close> inside a bracket, and any number of them.\<close>

lemma add_vertices_step:
  assumes "in_draw s" "batches s = bs @ [b]"
  shows "gsk_gl_command_queue_add_vertices src s =
     ((case src of None \<Rightarrow> Some (length (vertices s)) | Some _ \<Rightarrow> None),
      s\<lparr>batches := bs @ [b\<lparr>draw_vbo_count := draw_vbo_count b + 6\<rparr>],
        vertices := vertices s @ (case src of None \<Rightarrow> replicate 6 None
                                   | Some f \<Rightarrow> map (\<lambda>i. Some (f i)) [0..<6])\<rparr>)"
  using assms by (cases src) (simp_all add: cq_defs)

lemma add_many:
  assumes "in_draw s" "batches s = bs @ [b]"
  shows "\<exists>new. length new = 6 * length srcs \<and> record_ops (map Add_vertices srcs) s =
      s\<lparr>batches := bs @ [b\<lparr>draw_vbo_count := draw_vbo_count b + word_of_nat (6 * length srcs)\<rparr>],
        vertices := vertices s @ new\<rparr>"
  using assms
proof (induction srcs arbitrary: s b)
  case Nil
  then show ?case by simp
next
  case (Cons src srcs)
  let ?new = "case src of None \<Rightarrow> replicate 6 None | Some f \<Rightarrow> map (\<lambda>i. Some (f i)) [0..<6]"
  let ?s1 = "snd (gsk_gl_command_queue_add_vertices src s)"
  have s1: "?s1 = s\<lparr>batches := bs @ [b\<lparr>draw_vbo_count := draw_vbo_count b + 6\<rparr>],
        vertices := vertices s @ ?new\<rparr>"
    using add_vertices_step[OF Cons.prems] by simp
  have "in_draw ?s1" "batches ?s1 = bs @ [b\<lparr>draw_vbo_count := draw_vbo_count b + 6\<rparr>]"
    using Cons.prems by (simp_all add: s1)
  from Cons.IH[OF this] obtain new where new: "length new = 6 * length srcs"
     "record_ops (map Add_vertices srcs) ?s1 =
      ?s1\<lparr>batches := bs @ [b\<lparr>draw_vbo_count := draw_vbo_count b + 6 + word_of_nat (6 * length srcs)\<rparr>],
        vertices := vertices ?s1 @ new\<rparr>" by auto
  show ?case
    apply (rule exI[of _ "?new @ new"])
    using new by (simp add: s1 algebra_simps split: option.splits)
qed

text \<open>What \<open>end_draw\<close> does to a bracket that holds vertices: the batch as completed by
  the snapshots, the rest of the queue after them, and the two outcomes.\<close>

lemma end_draw_discard:
  assumes "in_draw s" "batches s = bs @ [b]" "draw_vbo_count b = 0"
  shows "gsk_gl_command_queue_end_draw snap s = s\<lparr>batches := bs, in_draw := False\<rparr>"
  using assms by (simp add: cq_defs)

lemma end_draw_merge:
  assumes "in_draw s" "batches s = bs @ [l, b]" "draw_vbo_count b \<noteq> 0"
    "can_chain (Some l) (closed_batch snap s b)"
  shows "gsk_gl_command_queue_end_draw snap s =
     (after_snapshot snap s)\<lparr>batches := bs @ [l\<lparr>draw_vbo_count := draw_vbo_count l + draw_vbo_count b\<rparr>]\<rparr>"
  using assms
  by (simp add: cq_defs closed_batch_def after_snapshot_def Let_def split_beta nth_append
        ucast_of_nat_down list_update_append butlast_append)

lemma end_draw_link:
  assumes "in_draw s" "batches s = bs @ [b]" "draw_vbo_count b \<noteq> 0"
    "\<not> can_chain (if bs = [] then None else Some (last bs)) (closed_batch snap s b)"
  shows "gsk_gl_command_queue_end_draw snap s =
     enqueue_batch ((after_snapshot snap s)\<lparr>batches := bs @ [closed_batch snap s b]\<rparr>)"
proof (cases bs rule: rev_cases)
  case Nil
  then show ?thesis using assms
    by (simp add: cq_defs closed_batch_def after_snapshot_def Let_def split_beta nth_append
        ucast_of_nat_down list_update_append butlast_append can_chain_def)
next
  case (snoc bs' l)
  then show ?thesis using assms
    by (simp add: cq_defs closed_batch_def after_snapshot_def Let_def split_beta nth_append
        ucast_of_nat_down list_update_append butlast_append)
qed

subsection \<open>The invariant holds while recording\<close>

lemma batch_ok_mono: "batch_ok nu nb b \<Longrightarrow> nu \<le> nu' \<Longrightarrow> nb \<le> nb' \<Longrightarrow> batch_ok nu' nb' b"
  by (auto simp: batch_ok_def)

lemma list_all_batch_ok_mono:
  "list_all (batch_ok nu nb) bs \<Longrightarrow> nu \<le> nu' \<Longrightarrow> nb \<le> nb' \<Longrightarrow> list_all (batch_ok nu' nb') bs"
  by (auto simp: list_all_iff intro: batch_ok_mono)

lemma unat_of_nat_le: "unat (word_of_nat n :: 'a::len word) \<le> n"
  by (simp add: unat_of_nat)

lemma queue_inv_frame_start: "frame_start s \<Longrightarrow> queue_inv s"
  by (simp add: frame_start_def queue_inv_def linked_count_def links_ok_def)

lemma inv_closedD:
  assumes "queue_inv s" "\<not> in_draw s"
  shows "tail_batch_index s = int (length (batches s)) - 1"
    "links_ok (length (batches s)) (batches s)"
    "list_all (batch_ok (length (batch_uniforms s)) (length (batch_binds s))) (batches s)"
  using assms by (simp_all add: queue_inv_def linked_count_def)

lemma inv_openD:
  assumes "queue_inv s" "in_draw s"
  shows "\<exists>bs b. batches s = bs @ [b] \<and> kind b = GSK_GL_COMMAND_KIND_DRAW \<and>
     tail_batch_index s = int (length bs) - 1 \<and> links_ok (length bs) (bs @ [b]) \<and>
     list_all (batch_ok (length (batch_uniforms s)) (length (batch_binds s))) (bs @ [b])"
proof -
  from assms have ne: "batches s \<noteq> []" by (simp add: queue_inv_def)
  then obtain bs b where bs: "batches s = bs @ [b]" by (cases "batches s" rule: rev_cases) auto
  show ?thesis using assms bs by (auto simp: queue_inv_def linked_count_def)
qed

lemma queue_inv_begin_draw:
  assumes "queue_inv s" shows "queue_inv (gsk_gl_command_queue_begin_draw p v s)"
proof (cases "in_draw s")
  case True then show ?thesis using assms by (simp add: gsk_gl_command_queue_begin_draw_def)
next
  case False
  note c = inv_closedD[OF assms False]
  have l: "links_ok (length (batches s)) (batches s @ [zero_batch\<lparr>next_batch_index := -1\<rparr>])"
    using c(2) by (rule links_ok_open) simp
  show ?thesis using False c l
    by (simp add: queue_inv_def linked_count_def cq_defs links_ok_iff nth_append batch_ok_def
         unat_of_nat_le)
qed


lemma queue_inv_add_vertices:
  assumes "queue_inv s" shows "queue_inv (snd (gsk_gl_command_queue_add_vertices src s))"
proof (cases "in_draw s")
  case False then show ?thesis using assms by (simp add: gsk_gl_command_queue_add_vertices_def)
next
  case True
  from inv_openD[OF assms True] obtain bs b where o: "batches s = bs @ [b]"
    "kind b = GSK_GL_COMMAND_KIND_DRAW" "tail_batch_index s = int (length bs) - 1"
    "links_ok (length bs) (bs @ [b])"
    "list_all (batch_ok (length (batch_uniforms s)) (length (batch_binds s))) (bs @ [b])" by blast
  have l: "links_ok (length bs) (bs @ [b\<lparr>draw_vbo_count := draw_vbo_count b + 6\<rparr>])"
    using links_ok_count[OF o(4), of "length bs" "draw_vbo_count b + 6"] by simp
  show ?thesis using True o l
    by (simp add: add_vertices_step[OF True o(1)] queue_inv_def linked_count_def)
qed

lemma after_snapshot_fields:
  "in_draw (after_snapshot snap s) = False"
  "tail_batch_index (after_snapshot snap s) = tail_batch_index s"
  "batches (after_snapshot snap s) = batches s"
  "batch_uniforms (after_snapshot snap s) = batch_uniforms s @ snap"
  "batch_binds (after_snapshot snap s) = batch_binds s @ snd (snapshot_binds (textures (attachments s)))"
  by (simp_all add: after_snapshot_def)

lemma closed_batch_ok:
  "batch_ok (length (batch_uniforms s) + length snap)
            (length (batch_binds s) + length (snd (snapshot_binds (textures (attachments s)))))
            (closed_batch snap s b)"
  using unat_of_nat_le[where 'a=32, of "length (batch_uniforms s)"]
        unat_of_nat_le[where 'a=11, of "length snap"]
        unat_of_nat_le[where 'a=32, of "length (batch_binds s)"]
        unat_of_nat_le[where 'a=5, of "length (snd (snapshot_binds (textures (attachments s))))"]
  by (simp add: batch_ok_def closed_batch_def)

lemma closed_batch_next [simp]: "next_batch_index (closed_batch snap s b) = next_batch_index b"
  by (simp add: closed_batch_def)

lemma queue_inv_end_draw:
  assumes "queue_inv s" shows "queue_inv (gsk_gl_command_queue_end_draw snap s)"
proof (cases "in_draw s")
  case False then show ?thesis using assms by (simp add: gsk_gl_command_queue_end_draw_def)
next
  case True
  from inv_openD[OF assms True] obtain bs b where o: "batches s = bs @ [b]"
    "kind b = GSK_GL_COMMAND_KIND_DRAW" "tail_batch_index s = int (length bs) - 1"
    "links_ok (length bs) (bs @ [b])"
    "list_all (batch_ok (length (batch_uniforms s)) (length (batch_binds s))) (bs @ [b])" by blast
  let ?nu = "length (batch_uniforms s) + length snap"
  let ?nb = "length (batch_binds s) + length (snd (snapshot_binds (textures (attachments s))))"
  have ok': "list_all (batch_ok ?nu ?nb) bs"
    using o(5) by (auto intro: list_all_batch_ok_mono)
  have lbs: "links_ok (length bs) bs" using links_ok_close[OF o(4)] .
  show ?thesis
  proof (cases "draw_vbo_count b = 0")
    case True
    show ?thesis using o lbs
      by (simp add: end_draw_discard[OF \<open>in_draw s\<close> o(1) True] queue_inv_def linked_count_def)
  next
    case nz: False
    show ?thesis
    proof (cases "can_chain (if bs = [] then None else Some (last bs)) (closed_batch snap s b)")
      case True
      then have "bs \<noteq> []" by (auto simp: can_chain_def)
      then obtain bs' l where bs: "bs = bs' @ [l]" by (cases bs rule: rev_cases) auto
      have m: "gsk_gl_command_queue_end_draw snap s =
        (after_snapshot snap s)\<lparr>batches := bs' @ [l\<lparr>draw_vbo_count := draw_vbo_count l + draw_vbo_count b\<rparr>]\<rparr>"
        using end_draw_merge[OF \<open>in_draw s\<close> _ nz, of bs' l snap] True o(1) bs by simp
      have l': "links_ok (length bs) (bs' @ [l\<lparr>draw_vbo_count := draw_vbo_count l + draw_vbo_count b\<rparr>])"
        using links_ok_count[OF lbs, of "length bs'" "draw_vbo_count l + draw_vbo_count b"] bs by simp
      show ?thesis using o(3) ok' l' bs
        by (simp add: m queue_inv_def linked_count_def after_snapshot_fields)
    next
      case False
      let ?s1 = "(after_snapshot snap s)\<lparr>batches := bs @ [closed_batch snap s b]\<rparr>"
      have e: "gsk_gl_command_queue_end_draw snap s = enqueue_batch ?s1"
        using end_draw_link[OF \<open>in_draw s\<close> o(1) nz False] .
      have nb: "next_batch_index b = -1" using links_okD[OF o(4), of "length bs"] by simp
      have l1: "links_ok (length bs) (bs @ [closed_batch snap s b])"
        using links_ok_open[OF lbs, of "closed_batch snap s b"] nb by simp
      have l2: "links_ok (Suc (length bs)) (batches (enqueue_batch ?s1))"
        by (rule links_ok_enqueue[OF l1]) (simp_all add: after_snapshot_fields o(3))
      have ok1: "list_all (batch_ok ?nu ?nb) (batches ?s1)"
        using ok' closed_batch_ok[of s snap b] by simp
      show ?thesis using l2 enqueue_batch_ok[OF ok1]
        by (simp add: e queue_inv_def linked_count_def enqueue_fields after_snapshot_fields)
    qed
  qed
qed

text \<open>The three operations that append and link a batch at once.\<close>

lemma queue_inv_append_link:
  assumes inv: "queue_inv s" and nd: "\<not> in_draw s" and n: "next_batch_index (f (zero_batch\<lparr>next_batch_index := -1\<rparr>)) = -1"
    and ok: "batch_ok (length (batch_uniforms s)) (length (batch_binds s)) (f (zero_batch\<lparr>next_batch_index := -1\<rparr>))"
  shows "queue_inv (enqueue_batch (set_last_batch f (begin_next_batch s)))"
proof -
  note c = inv_closedD[OF inv nd]
  let ?b = "f (zero_batch\<lparr>next_batch_index := -1\<rparr>)"
  let ?s1 = "set_last_batch f (begin_next_batch s)"
  have b1: "batches ?s1 = batches s @ [?b]" by (simp add: cq_defs)
  have f1: "tail_batch_index ?s1 = tail_batch_index s" "in_draw ?s1 = in_draw s"
     "batch_uniforms ?s1 = batch_uniforms s" "batch_binds ?s1 = batch_binds s" by (simp_all add: cq_defs)
  have l1: "links_ok (length (batches s)) (batches s @ [?b])" using links_ok_open[OF c(2) n] .
  have l2: "links_ok (Suc (length (batches s))) (batches (enqueue_batch ?s1))"
    by (rule links_ok_enqueue[OF l1 b1]) (simp add: f1 c(1))
  have ok1: "list_all (batch_ok (length (batch_uniforms s)) (length (batch_binds s))) (batches ?s1)"
    using c(3) ok by (simp add: b1)
  show ?thesis using l2 enqueue_batch_ok[OF ok1] nd
    by (simp add: queue_inv_def linked_count_def enqueue_fields f1 b1)
qed

lemma queue_inv_attachments: "queue_inv (s\<lparr>attachments := a\<rparr>) = queue_inv s"
  by (simp add: queue_inv_def linked_count_def)

lemma queue_inv_clear:
  assumes "queue_inv s" shows "queue_inv (gsk_gl_command_queue_clear bits v s)"
proof (cases "in_draw s \<or> \<not> length (batches s) < G_MAXINT")
  case True then show ?thesis using assms by (auto simp add: gsk_gl_command_queue_clear_def)
next
  case False
  then show ?thesis using assms
    by (auto simp add: gsk_gl_command_queue_clear_def queue_inv_attachments batch_ok_def zero_batch_def
          intro!: queue_inv_append_link)
qed

lemma queue_inv_push:
  assumes "queue_inv s" shows "queue_inv (gsk_gl_command_queue_push_debug_group label s)"
proof (cases "in_draw s \<or> \<not> length (batches s) < G_MAXINT")
  case True then show ?thesis using assms by (auto simp add: gsk_gl_command_queue_push_debug_group_def)
next
  case False
  then show ?thesis using assms
    by (simp add: gsk_gl_command_queue_push_debug_group_def)
       (rule queue_inv_append_link, simp_all add: batch_ok_def zero_batch_def)
qed

lemma queue_inv_pop:
  assumes "queue_inv s" shows "queue_inv (gsk_gl_command_queue_pop_debug_group s)"
proof (cases "in_draw s \<or> \<not> length (batches s) < G_MAXINT")
  case True then show ?thesis using assms by (auto simp add: gsk_gl_command_queue_pop_debug_group_def)
next
  case False
  then show ?thesis using assms
    by (simp add: gsk_gl_command_queue_pop_debug_group_def)
       (rule queue_inv_append_link, simp_all add: batch_ok_def zero_batch_def)
qed

lemma queue_inv_step: "queue_inv s \<Longrightarrow> queue_inv (record_step op s)"
  by (cases op)
     (simp_all add: queue_inv_begin_draw queue_inv_add_vertices queue_inv_end_draw queue_inv_clear
        queue_inv_push queue_inv_pop queue_inv_attachments gsk_gl_command_queue_bind_framebuffer_def)

lemma queue_inv_ops: "queue_inv s \<Longrightarrow> queue_inv (record_ops ops s)"
  by (induction ops arbitrary: s) (simp_all add: queue_inv_step)

subsection \<open>Execution follows the links\<close>

declare execute_loop.simps [simp del]

lemma unat_add_le: "unat (a + b :: 'a::len word) \<le> unat a + unat b"
  by (simp add: unat_word_ariths)

lemma bind_calls_ok:
  assumes "batch_ok nu (length binds) b"
  shows "\<exists>c. bind_calls binds b = Inr c"
proof -
  have "unat (draw_bind_offset b + word_of_nat i) < length binds" if "i < unat (draw_bind_count b)" for i
  proof -
    have "unat (draw_bind_offset b + word_of_nat i) \<le> unat (draw_bind_offset b) + unat (word_of_nat i :: guint)"
      by (rule unat_add_le)
    also have "\<dots> \<le> unat (draw_bind_offset b) + i" by (simp add: unat_of_nat_le)
    also have "\<dots> < unat (draw_bind_offset b) + unat (draw_bind_count b)" using that by simp
    finally show ?thesis using assms by (simp add: batch_ok_def)
  qed
  then show ?thesis by (simp add: bind_calls_def Let_def list_all_iff)
qed

lemma uniform_calls_ok:
  assumes "batch_ok (length us) nb b"
  shows "\<exists>c. uniform_calls us b = Inr c"
proof -
  have "unat (draw_uniform_offset b + word_of_nat i) < length us" if "i < unat (draw_uniform_count b)" for i
  proof -
    have "unat (draw_uniform_offset b + word_of_nat i) \<le> unat (draw_uniform_offset b) + unat (word_of_nat i :: guint)"
      by (rule unat_add_le)
    also have "\<dots> \<le> unat (draw_uniform_offset b) + i" by (simp add: unat_of_nat_le)
    also have "\<dots> < unat (draw_uniform_offset b) + unat (draw_uniform_count b)" using that by simp
    finally show ?thesis using assms by (simp add: batch_ok_def)
  qed
  then show ?thesis by (simp add: uniform_calls_def Let_def list_all_iff)
qed

lemma execute_batch_ok:
  assumes "batch_ok (length (batch_uniforms s)) (length (batch_binds s)) b"
  shows "\<exists>calls st'. execute_batch s H sf sc b st = Inr (calls, st')"
proof -
  from bind_calls_ok[OF assms] obtain c3 where c3: "bind_calls (batch_binds s) b = Inr c3" by blast
  from uniform_calls_ok[OF assms] obtain c4 where c4: "uniform_calls (batch_uniforms s) b = Inr c4" by blast
  show ?thesis
    by (cases "kind b") (simp_all add: execute_batch_def c3 c4 split_beta Let_def)
qed

lemma execute_loop_visits:
  assumes l: "links_ok m (batches s)" and m: "m \<le> length (batches s)"
    and ok: "list_all (batch_ok (length (batch_uniforms s)) (length (batch_binds s))) (batches s)"
  shows "i < length (batches s) \<Longrightarrow> max m (Suc i) - i \<le> fuel \<Longrightarrow>
     \<exists>passes. execute_loop fuel s H sf sc (int i) st = Inr passes \<and> map fst passes = [i..<max m (Suc i)]"
proof (induction fuel arbitrary: i st)
  case 0
  then show ?case by simp
next
  case (Suc fuel)
  let ?b = "batches s ! i"
  have nx: "next_batch_index ?b = (if i + 1 < m then int i + 1 else -1)"
    using links_okD[OF l Suc.prems(1)] .
  have "batch_ok (length (batch_uniforms s)) (length (batch_binds s)) ?b"
    using ok Suc.prems(1) by (simp add: list_all_length)
  from execute_batch_ok[OF this] obtain calls st' where
    eb: "execute_batch s H sf sc ?b st = Inr (calls, st')" by blast
  show ?case
  proof (cases "i + 1 < m")
    case True
    then have len: "Suc i < length (batches s)" using m by simp
    have "max m (Suc (Suc i)) - Suc i \<le> fuel" using Suc.prems(2) True by simp
    from Suc.IH[OF len this, of st'] obtain rest where
      rest: "execute_loop fuel s H sf sc (int (Suc i)) st' = Inr rest"
            "map fst rest = [Suc i..<max m (Suc (Suc i))]" by blast
    have "execute_loop (Suc fuel) s H sf sc (int i) st = Inr ((i, calls) # rest)"
      using Suc.prems(1) nx True eb rest(1)
      by (subst execute_loop.simps) (simp add: Let_def add.commute)
    moreover have "[i..<max m (Suc i)] = i # [Suc i..<max m (Suc (Suc i))]"
      using True by (simp add: upt_conv_Cons max_def)
    ultimately show ?thesis using rest(2) by simp
  next
    case False
    then have "max m (Suc i) = Suc i" by simp
    moreover have "execute_loop (Suc fuel) s H sf sc (int i) st = Inr [(i, calls)]"
      using Suc.prems(1) nx False eb
      by (subst execute_loop.simps) (simp add: Let_def execute_loop.simps[of _ _ _ _ _ "-1"])
    ultimately show ?thesis by simp
  qed
qed

subsection \<open>Brackets without vertices\<close>

lemma record_ops_append: "record_ops (xs @ ys) s = record_ops ys (record_ops xs s)"
  by (induction xs arbitrary: s) simp_all

lemma keeps_bracket_step:
  "in_draw s \<Longrightarrow> keeps_bracket op \<Longrightarrow> \<exists>a. record_step op s = s\<lparr>attachments := a\<rparr>"
proof (cases op)
  case (Bind_framebuffer fb)
  then show ?thesis by (simp add: gsk_gl_command_queue_bind_framebuffer_def) blast
next
  case (Set_attachments a)
  then show ?thesis by simp blast
next
  case (Begin_draw p v)
  assume "in_draw s"
  then have "record_step op s = s\<lparr>attachments := attachments s\<rparr>"
    using Begin_draw by (simp add: gsk_gl_command_queue_begin_draw_def)
  then show ?thesis by blast
next
  case (Clear b v)
  assume "in_draw s"
  then have "record_step op s = s\<lparr>attachments := attachments s\<rparr>"
    using Clear by (simp add: gsk_gl_command_queue_clear_def)
  then show ?thesis by blast
next
  case (Push_debug_group l)
  assume "in_draw s"
  then have "record_step op s = s\<lparr>attachments := attachments s\<rparr>"
    using Push_debug_group by (simp add: gsk_gl_command_queue_push_debug_group_def)
  then show ?thesis by blast
next
  case Pop_debug_group
  assume "in_draw s"
  then have "record_step op s = s\<lparr>attachments := attachments s\<rparr>"
    using Pop_debug_group by (simp add: gsk_gl_command_queue_pop_debug_group_def)
  then show ?thesis by blast
qed simp_all

lemma keeps_bracket_ops:
  "in_draw s \<Longrightarrow> list_all keeps_bracket ops \<Longrightarrow> \<exists>a. record_ops ops s = s\<lparr>attachments := a\<rparr>"
proof (induction ops arbitrary: s)
  case Nil
  have "record_ops [] s = s\<lparr>attachments := attachments s\<rparr>" by simp
  then show ?case by blast
next
  case (Cons op ops)
  from keeps_bracket_step[of s op] Cons.prems obtain a1 where a1: "record_step op s = s\<lparr>attachments := a1\<rparr>"
    by auto
  have "in_draw (s\<lparr>attachments := a1\<rparr>)" using Cons.prems(1) by simp
  from Cons.IH[OF this] Cons.prems(2) obtain a2 where
    "record_ops ops (s\<lparr>attachments := a1\<rparr>) = s\<lparr>attachments := a1\<rparr>\<lparr>attachments := a2\<rparr>" by auto
  then have "record_ops (op # ops) s = s\<lparr>attachments := a2\<rparr>" by (simp add: a1)
  then show ?case by blast
qed

lemma empty_bracket:
  assumes "\<not> in_draw s" "list_all keeps_bracket mid"
  shows "\<exists>a. gsk_gl_command_queue_end_draw snap (record_ops mid (gsk_gl_command_queue_begin_draw p v s))
           = s\<lparr>attachments := a\<rparr> \<and> a = attachments (record_ops mid (gsk_gl_command_queue_begin_draw p v s))"
proof -
  let ?s1 = "gsk_gl_command_queue_begin_draw p v s"
  have i1: "in_draw ?s1" using assms(1) by (simp add: gsk_gl_command_queue_begin_draw_def)
  from keeps_bracket_ops[OF i1 assms(2)] obtain a where a: "record_ops mid ?s1 = ?s1\<lparr>attachments := a\<rparr>"
    by blast
  have "gsk_gl_command_queue_end_draw snap (?s1\<lparr>attachments := a\<rparr>) = s\<lparr>attachments := a\<rparr>"
    using assms(1) by (simp add: cq_defs)
  then show ?thesis using a by simp
qed

subsection \<open>Counting the vertices of a bracket\<close>

lemma begin_draw_open:
  assumes "\<not> in_draw s"
  shows "gsk_gl_command_queue_begin_draw p v s =
           s\<lparr>batches := batches s @ [opened_batch p v s], in_draw := True\<rparr>"
  using assms by (simp add: cq_defs opened_batch_def zero_batch_def)

lemma bracket_count:
  assumes "\<not> in_draw s"
  shows "\<exists>new. record_ops (Begin_draw p v # map Add_vertices srcs) s =
       s\<lparr>batches := batches s @ [(opened_batch p v s)\<lparr>draw_vbo_count := word_of_nat (6 * length srcs)\<rparr>],
         in_draw := True, vertices := vertices s @ new\<rparr> \<and>
     length new = 6 * length srcs"
proof -
  let ?b0 = "opened_batch p v s"
  let ?s1 = "s\<lparr>batches := batches s @ [?b0], in_draw := True\<rparr>"
  have "in_draw ?s1" "batches ?s1 = batches s @ [?b0]" by simp_all
  from add_many[OF this, of srcs] obtain new where
    new: "length new = 6 * length srcs"
      "record_ops (map Add_vertices srcs) ?s1 =
        ?s1\<lparr>batches := batches s @ [?b0\<lparr>draw_vbo_count := draw_vbo_count ?b0 + word_of_nat (6 * length srcs)\<rparr>],
            vertices := vertices ?s1 @ new\<rparr>" by blast
  have z: "draw_vbo_count ?b0 = 0" by (simp add: opened_batch_def zero_batch_def)
  show ?thesis
    apply (rule exI[of _ new])
    using new z by (simp add: begin_draw_open[OF assms])
qed

lemma unat_six_times:
  "unat (6 * word_of_nat n :: 16 word) = (6 * n) mod 65536"
proof -
  have "6 * word_of_nat n = (word_of_nat (6 * n) :: 16 word)" by simp
  then show ?thesis by (simp only: unat_of_nat) simp
qed

lemma bracket_count_value:
  assumes "\<not> in_draw s"
  shows "unat (draw_vbo_count (last (batches (record_ops (Begin_draw p v # map Add_vertices srcs) s))))
           = (6 * length srcs) mod 65536"
    and "length (vertices (record_ops (Begin_draw p v # map Add_vertices srcs) s))
           = length (vertices s) + 6 * length srcs"
    and "length (batches (record_ops (Begin_draw p v # map Add_vertices srcs) s)) = Suc (length (batches s))"
proof -
  from bracket_count[OF assms, of p v srcs] obtain new where
    r: "record_ops (Begin_draw p v # map Add_vertices srcs) s =
       s\<lparr>batches := batches s @ [(opened_batch p v s)\<lparr>draw_vbo_count := word_of_nat (6 * length srcs)\<rparr>],
         in_draw := True, vertices := vertices s @ new\<rparr>"
     "length new = 6 * length srcs" by blast
  show "unat (draw_vbo_count (last (batches (record_ops (Begin_draw p v # map Add_vertices srcs) s))))
           = (6 * length srcs) mod 65536"
    by (simp only: r) (simp add: unat_six_times)
  show "length (vertices (record_ops (Begin_draw p v # map Add_vertices srcs) s))
           = length (vertices s) + 6 * length srcs"
    by (simp only: r) (simp add: r(2))
  show "length (batches (record_ops (Begin_draw p v # map Add_vertices srcs) s)) = Suc (length (batches s))"
    by (simp only: r) simp
qed

subsection \<open>Draws that are chained\<close>

lemma snapshot_binds_none: "snd (snapshot_binds ts) = [] \<Longrightarrow> fst (snapshot_binds ts) = ts"
  by (induction ts) (auto simp: split_beta Let_def split: if_splits)

lemma snapshot_binds_idem: "snd (snapshot_binds (fst (snapshot_binds ts))) = []"
  by (induction ts) (auto simp: split_beta Let_def)

lemma draw_ops_run:
  "record_ops (draw_ops p v srcs snap) s =
     gsk_gl_command_queue_end_draw snap (record_ops (Begin_draw p v # map Add_vertices srcs) s)"
  unfolding draw_ops_def
  using record_ops_append[of "Begin_draw p v # map Add_vertices srcs" "[End_draw snap]" s] by simp

lemma draw_merges:
  assumes r: "merge_ready p v s" and nz: "(word_of_nat (6 * length srcs) :: 16 word) \<noteq> 0"
  shows "\<exists>new. length new = 6 * length srcs \<and>
     record_ops (draw_ops p v srcs []) s =
       s\<lparr>batches := butlast (batches s) @
            [(last (batches s))\<lparr>draw_vbo_count :=
               draw_vbo_count (last (batches s)) + word_of_nat (6 * length srcs)\<rparr>],
         vertices := vertices s @ new,
         attachments := (attachments s)\<lparr>fbo_changed := False\<rparr>,
         in_draw := False\<rparr>"
proof -
  from r have nd: "\<not> in_draw s" and ne: "batches s \<noteq> []" by (simp_all add: merge_ready_def)
  define bs where "bs = butlast (batches s)"
  define l where "l = last (batches s)"
  have bsl: "batches s = bs @ [l]" using ne by (simp add: bs_def l_def)
  let ?b = "(opened_batch p v s)\<lparr>draw_vbo_count := word_of_nat (6 * length srcs)\<rparr>"
  from bracket_count[OF nd, of p v srcs] obtain new where new: "length new = 6 * length srcs"
    "record_ops (Begin_draw p v # map Add_vertices srcs) s =
       s\<lparr>batches := batches s @ [?b], in_draw := True, vertices := vertices s @ new\<rparr>" by blast
  let ?sA = "s\<lparr>batches := batches s @ [?b], in_draw := True, vertices := vertices s @ new\<rparr>"
  have cc: "can_chain (Some l) (closed_batch [] ?sA ?b)"
    using r by (simp add: can_chain_def closed_batch_def merge_ready_def l_def opened_batch_def
                 zero_batch_def)
  have fs: "fst (snapshot_binds (textures (attachments s))) = textures (attachments s)"
    and sn: "snd (snapshot_binds (textures (attachments s))) = []"
    using r by (simp_all add: merge_ready_def snapshot_binds_none)
  have "record_ops (draw_ops p v srcs []) s = gsk_gl_command_queue_end_draw [] ?sA"
    by (simp only: draw_ops_run new(2))
  also have "\<dots> =
     (after_snapshot [] ?sA)\<lparr>batches := bs @ [l\<lparr>draw_vbo_count := draw_vbo_count l + draw_vbo_count ?b\<rparr>]\<rparr>"
    by (rule end_draw_merge[OF _ _ _ cc]) (use nz in \<open>simp_all add: bsl\<close>)
  also have "\<dots> = s\<lparr>batches := bs @ [l\<lparr>draw_vbo_count := draw_vbo_count l + word_of_nat (6 * length srcs)\<rparr>],
         vertices := vertices s @ new,
         attachments := (attachments s)\<lparr>fbo_changed := False\<rparr>,
         in_draw := False\<rparr>"
    by (simp add: after_snapshot_def fs sn)
  finally show ?thesis using new(1) unfolding bs_def l_def by blast
qed

lemma draw_merges_ready:
  assumes r: "merge_ready p v s" and ne: "srcs \<noteq> []"
    and le: "unat (draw_vbo_count (last (batches s))) + 6 * length srcs \<le> 65535"
  shows "merge_ready p v (record_ops (draw_ops p v srcs []) s)"
    and "batches (record_ops (draw_ops p v srcs []) s) = butlast (batches s) @
            [(last (batches s))\<lparr>draw_vbo_count :=
               draw_vbo_count (last (batches s)) + word_of_nat (6 * length srcs)\<rparr>]"
    and "unat (draw_vbo_count (last (batches (record_ops (draw_ops p v srcs []) s))))
          = unat (draw_vbo_count (last (batches s))) + 6 * length srcs"
proof -
  have pos: "0 < 6 * length srcs" using ne by simp
  have small: "6 * length srcs < 65536" using le by simp
  have u: "unat (word_of_nat (6 * length srcs) :: 16 word) = 6 * length srcs"
    using small by (simp only: unat_of_nat) simp
  then have nz: "(word_of_nat (6 * length srcs) :: 16 word) \<noteq> 0"
    using pos by (metis less_numeral_extra(3) unat_0)
  from draw_merges[OF r nz] obtain new where new: "length new = 6 * length srcs"
    "record_ops (draw_ops p v srcs []) s =
       s\<lparr>batches := butlast (batches s) @
            [(last (batches s))\<lparr>draw_vbo_count :=
               draw_vbo_count (last (batches s)) + word_of_nat (6 * length srcs)\<rparr>],
         vertices := vertices s @ new,
         attachments := (attachments s)\<lparr>fbo_changed := False\<rparr>,
         in_draw := False\<rparr>" by blast
  let ?c = "draw_vbo_count (last (batches s))"
  have sum: "unat (?c + word_of_nat (6 * length srcs)) = unat ?c + 6 * length srcs"
    using le u by (simp only: unat_word_ariths) simp
  show "batches (record_ops (draw_ops p v srcs []) s) = butlast (batches s) @
            [(last (batches s))\<lparr>draw_vbo_count := ?c + word_of_nat (6 * length srcs)\<rparr>]"
    by (simp only: new(2)) simp
  show "unat (draw_vbo_count (last (batches (record_ops (draw_ops p v srcs []) s))))
          = unat ?c + 6 * length srcs"
    by (simp only: new(2)) (use sum in simp)
  have uc: "(ucast (?c + word_of_nat (6 * length srcs)) :: guint) = ucast ?c + word_of_nat (6 * length srcs)"
  proof -
    have "(ucast (?c + word_of_nat (6 * length srcs)) :: guint)
            = word_of_nat (unat (?c + word_of_nat (6 * length srcs)))" by simp
    also have "\<dots> = word_of_nat (unat ?c) + word_of_nat (6 * length srcs)" by (simp only: sum) simp
    finally show ?thesis by simp
  qed
  show "merge_ready p v (record_ops (draw_ops p v srcs []) s)"
    using r uc by (simp only: new(2)) (simp add: merge_ready_def gsk_gl_buffer_get_offset_def new(1) add.assoc)
qed


lemma draws_merge_all:
  assumes "merge_ready p v s" and "list_all (\<lambda>srcs. srcs \<noteq> []) srcss"
    and "unat (draw_vbo_count (last (batches s))) + 6 * sum_list (map length srcss) \<le> 65535"
  shows "merge_ready p v (record_ops (concat (map (\<lambda>srcs. draw_ops p v srcs []) srcss)) s) \<and>
     batches (record_ops (concat (map (\<lambda>srcs. draw_ops p v srcs []) srcss)) s) =
       butlast (batches s) @ [(last (batches s))\<lparr>draw_vbo_count :=
          draw_vbo_count (last (batches s)) + word_of_nat (6 * sum_list (map length srcss))\<rparr>] \<and>
     unat (draw_vbo_count (last (batches (record_ops (concat (map (\<lambda>srcs. draw_ops p v srcs []) srcss)) s))))
       = unat (draw_vbo_count (last (batches s))) + 6 * sum_list (map length srcss)"
  using assms
proof (induction srcss arbitrary: s)
  case Nil
  then have "batches s \<noteq> []" by (simp add: merge_ready_def)
  then show ?case using Nil by simp
next
  case (Cons srcs srcss)
  let ?s1 = "record_ops (draw_ops p v srcs []) s"
  let ?c = "draw_vbo_count (last (batches s))"
  have ne: "srcs \<noteq> []" and rest: "list_all (\<lambda>srcs. srcs \<noteq> []) srcss" using Cons.prems(2) by simp_all
  have le1: "unat ?c + 6 * length srcs \<le> 65535" using Cons.prems(3) by simp
  note d = draw_merges_ready[OF Cons.prems(1) ne le1]
  have le2: "unat (draw_vbo_count (last (batches ?s1))) + 6 * sum_list (map length srcss) \<le> 65535"
    using Cons.prems(3) by (simp add: d(3))
  note ih = Cons.IH[OF d(1) rest le2]
  have run: "record_ops (concat (map (\<lambda>srcs. draw_ops p v srcs []) (srcs # srcss))) s =
      record_ops (concat (map (\<lambda>srcs. draw_ops p v srcs []) srcss)) ?s1"
    by (simp add: record_ops_append)
  have b1: "butlast (batches ?s1) = butlast (batches s)"
    and l1: "last (batches ?s1) = (last (batches s))\<lparr>draw_vbo_count := ?c + word_of_nat (6 * length srcs)\<rparr>"
    by (simp_all only: d(2) butlast_snoc last_snoc)
  have w: "?c + word_of_nat (6 * length srcs) + word_of_nat (6 * sum_list (map length srcss))
             = ?c + word_of_nat (6 * sum_list (map length (srcs # srcss)))"
    by (simp add: algebra_simps)
  have B: "batches (record_ops (concat (map (\<lambda>srcs. draw_ops p v srcs []) srcss)) ?s1) =
       butlast (batches s) @ [(last (batches s))\<lparr>draw_vbo_count :=
          ?c + word_of_nat (6 * sum_list (map length (srcs # srcss)))\<rparr>]"
    using ih[THEN conjunct2, THEN conjunct1] unfolding b1 l1 w[symmetric] by simp
  have C: "unat (draw_vbo_count (last (batches (record_ops (concat (map (\<lambda>srcs. draw_ops p v srcs []) srcss)) ?s1))))
       = unat ?c + 6 * sum_list (map length (srcs # srcss))"
    using ih[THEN conjunct2, THEN conjunct2] unfolding d(3) by simp
  show ?case
    unfolding run using ih[THEN conjunct1] B C by blast
qed

lemma first_draw:
  assumes f: "frame_start s" and ne: "srcs \<noteq> []" and le: "6 * length srcs \<le> 65535"
  shows "merge_ready p v (record_ops (draw_ops p v srcs snap) s) \<and>
     length (batches (record_ops (draw_ops p v srcs snap) s)) = 1 \<and>
     unat (draw_vbo_count (last (batches (record_ops (draw_ops p v srcs snap) s)))) = 6 * length srcs"
proof -
  from f have nd: "\<not> in_draw s" and e: "batches s = []" and t: "tail_batch_index s = -1"
    by (simp_all add: frame_start_def)
  have pos: "0 < 6 * length srcs" using ne by simp
  have small: "6 * length srcs < 65536" using le by simp
  have u: "unat (word_of_nat (6 * length srcs) :: 16 word) = 6 * length srcs"
    using small by (simp only: unat_of_nat) simp
  then have nz: "(word_of_nat (6 * length srcs) :: 16 word) \<noteq> 0"
    using pos by (metis less_numeral_extra(3) unat_0)
  let ?b = "(opened_batch p v s)\<lparr>draw_vbo_count := word_of_nat (6 * length srcs)\<rparr>"
  from bracket_count[OF nd, of p v srcs] obtain new where new: "length new = 6 * length srcs"
    "record_ops (Begin_draw p v # map Add_vertices srcs) s =
       s\<lparr>batches := batches s @ [?b], in_draw := True, vertices := vertices s @ new\<rparr>" by blast
  let ?sA = "s\<lparr>batches := batches s @ [?b], in_draw := True, vertices := vertices s @ new\<rparr>"
  have "record_ops (draw_ops p v srcs snap) s = gsk_gl_command_queue_end_draw snap ?sA"
    by (simp only: draw_ops_run new(2))
  also have "\<dots> = enqueue_batch ((after_snapshot snap ?sA)\<lparr>batches := [] @ [closed_batch snap ?sA ?b]\<rparr>)"
    by (rule end_draw_link) (use nz in \<open>simp_all add: e can_chain_def\<close>)
  also have "\<dots> = (after_snapshot snap ?sA)\<lparr>batches := [closed_batch snap ?sA ?b], tail_batch_index := 0\<rparr>"
    using t by (simp add: enqueue_batch_def after_snapshot_def)
  finally have run: "record_ops (draw_ops p v srcs snap) s =
     (after_snapshot snap ?sA)\<lparr>batches := [closed_batch snap ?sA ?b], tail_batch_index := 0\<rparr>" .
  have uc: "(ucast (word_of_nat (6 * length srcs) :: 16 word) :: guint) = word_of_nat (6 * length srcs)"
  proof -
    have "(ucast (word_of_nat (6 * length srcs) :: 16 word) :: guint)
            = word_of_nat (unat (word_of_nat (6 * length srcs) :: 16 word))" by simp
    then show ?thesis by (simp only: u)
  qed
  show ?thesis
    unfolding run using u uc
    by (simp add: merge_ready_def after_snapshot_def closed_batch_def opened_batch_def zero_batch_def
          gsk_gl_buffer_get_offset_def new(1) snapshot_binds_idem)
qed

lemma end_draw_decision:
  assumes inv: "queue_inv s" and d: "in_draw s" and bs: "batches s = bs @ [b]"
    and nz: "draw_vbo_count b \<noteq> 0"
  shows "can_chain (if bs = [] then None else Some (last bs)) (closed_batch snap s b) \<Longrightarrow>
      batches (gsk_gl_command_queue_end_draw snap s) =
        butlast bs @ [(last bs)\<lparr>draw_vbo_count := draw_vbo_count (last bs) + draw_vbo_count b\<rparr>] \<and>
      length (batches (gsk_gl_command_queue_end_draw snap s)) = length bs \<and>
      tail_batch_index (gsk_gl_command_queue_end_draw snap s) = tail_batch_index s"
    and "\<not> can_chain (if bs = [] then None else Some (last bs)) (closed_batch snap s b) \<Longrightarrow>
      batches (gsk_gl_command_queue_end_draw snap s) =
        (if bs = [] then [] else butlast bs @ [(last bs)\<lparr>next_batch_index := int (length bs)\<rparr>])
          @ [closed_batch snap s b] \<and>
      length (batches (gsk_gl_command_queue_end_draw snap s)) = length bs + 1 \<and>
      tail_batch_index (gsk_gl_command_queue_end_draw snap s) = int (length bs)"
proof -
  from inv d bs have t: "tail_batch_index s = int (length bs) - 1"
    by (simp add: queue_inv_def linked_count_def)
  {
    assume c: "can_chain (if bs = [] then None else Some (last bs)) (closed_batch snap s b)"
    then have "bs \<noteq> []" by (auto simp: can_chain_def)
    then obtain bs' l where bl: "bs = bs' @ [l]" by (cases bs rule: rev_cases) auto
    have "gsk_gl_command_queue_end_draw snap s =
        (after_snapshot snap s)\<lparr>batches := bs' @ [l\<lparr>draw_vbo_count := draw_vbo_count l + draw_vbo_count b\<rparr>]\<rparr>"
      using end_draw_merge[OF d _ nz, of bs' l snap] c bs bl by simp
    then show "batches (gsk_gl_command_queue_end_draw snap s) =
        butlast bs @ [(last bs)\<lparr>draw_vbo_count := draw_vbo_count (last bs) + draw_vbo_count b\<rparr>] \<and>
      length (batches (gsk_gl_command_queue_end_draw snap s)) = length bs \<and>
      tail_batch_index (gsk_gl_command_queue_end_draw snap s) = tail_batch_index s"
      by (simp add: bl after_snapshot_def)
  }
  {
    assume c: "\<not> can_chain (if bs = [] then None else Some (last bs)) (closed_batch snap s b)"
    have e: "gsk_gl_command_queue_end_draw snap s =
       enqueue_batch ((after_snapshot snap s)\<lparr>batches := bs @ [closed_batch snap s b]\<rparr>)"
      using end_draw_link[OF d bs nz c] .
    show "batches (gsk_gl_command_queue_end_draw snap s) =
        (if bs = [] then [] else butlast bs @ [(last bs)\<lparr>next_batch_index := int (length bs)\<rparr>])
          @ [closed_batch snap s b] \<and>
      length (batches (gsk_gl_command_queue_end_draw snap s)) = length bs + 1 \<and>
      tail_batch_index (gsk_gl_command_queue_end_draw snap s) = int (length bs)"
    proof (cases bs rule: rev_cases)
      case Nil
      then show ?thesis using t by (simp add: e enqueue_batch_def after_snapshot_def)
    next
      case (snoc bs' l)
      then have "nat (tail_batch_index s) = length bs'" "tail_batch_index s \<noteq> -1" using t by simp_all
      then show ?thesis using snoc
        by (simp add: e enqueue_batch_def after_snapshot_def Let_def nth_append list_update_append)
    qed
  }
qed

lemma count_zero_iff:
  assumes "n < 2 ^ LENGTH('a)"
  shows "(word_of_nat n :: 'a::len word) = 0 \<longleftrightarrow> n = 0"
proof
  assume "(word_of_nat n :: 'a word) = 0"
  then have "unat (word_of_nat n :: 'a word) = 0" by simp
  then show "n = 0" using assms by (simp add: unat_of_nat)
qed simp

lemma snapshot_binds_length: "length (snd (snapshot_binds ts)) \<le> length ts"
  by (induction ts) (auto simp: split_beta Let_def)

subsection \<open>Framebuffer switches during execution\<close>

lemma no_bind_fb_simps [simp]:
  "no_bind_fb []"
  "no_bind_fb (xs @ ys) \<longleftrightarrow> no_bind_fb xs \<and> no_bind_fb ys"
  by (simp_all add: no_bind_fb_def)

lemma no_bind_fb_bts: "no_bind_fb cs \<Longrightarrow> binds_then_scissor H sf sc cs"
  by (induction cs) (auto simp: no_bind_fb_def split: gl_call.splits)

lemma bts_append:
  "binds_then_scissor H sf sc xs \<Longrightarrow> binds_then_scissor H sf sc ys \<Longrightarrow>
     binds_then_scissor H sf sc (xs @ ys)"
proof (induction xs)
  case Nil
  then show ?case by simp
next
  case (Cons c cs)
  have "take (length a) (cs @ ys) = a" if "take (length a) cs = a" for a :: "gl_call list"
  proof -
    have "length (take (length a) cs) = length a" using that by simp
    then have "length a \<le> length cs" by simp
    then show ?thesis using that by simp
  qed
  then show ?case using Cons by (auto split: gl_call.splits)
qed

lemma apply_scissor_no_bind: "no_bind_fb (apply_scissor fb H sf sc)"
  by (auto simp: apply_scissor_def no_bind_fb_def split: option.splits)

lemma bts_apply_framebuffer:
  "binds_then_scissor H sf sc (fst (apply_framebuffer H sf sc st fb))"
  by (simp add: apply_framebuffer_def no_bind_fb_bts[OF apply_scissor_no_bind])

lemma no_bind_apply_viewport: "no_bind_fb (fst (apply_viewport st w h))"
  by (simp add: apply_viewport_def no_bind_fb_def)

lemma no_bind_bind_calls: "bind_calls binds b = Inr c \<Longrightarrow> no_bind_fb c"
  by (auto simp: bind_calls_def Let_def no_bind_fb_def list_all_iff split: if_splits)

lemma no_bind_uniform_calls: "uniform_calls us b = Inr c \<Longrightarrow> no_bind_fb c"
  by (auto simp: uniform_calls_def Let_def no_bind_fb_def list_all_iff split: if_splits)

lemma bts_execute_batch:
  assumes "execute_batch s H sf sc b st = Inr (calls, st')"
  shows "binds_then_scissor H sf sc calls"
proof (cases "kind b")
  case GSK_GL_COMMAND_KIND_CLEAR
  then have "calls = fst (apply_framebuffer H sf sc st (clear_framebuffer b)) @
      fst (apply_viewport (snd (apply_framebuffer H sf sc st (clear_framebuffer b))) (viewport_width b) (viewport_height b))
      @ [GlClear (clear_bits b)]"
    using assms by (auto simp: execute_batch_def split_beta Let_def)
  moreover have "no_bind_fb [GlClear (clear_bits b)]" by (simp add: no_bind_fb_def)
  ultimately show ?thesis
    by (simp only:)
       (intro bts_append bts_apply_framebuffer no_bind_fb_bts[OF no_bind_apply_viewport]
          no_bind_fb_bts[of "[GlClear (clear_bits b)]"])
next
  case GSK_GL_COMMAND_KIND_PUSH_DEBUG_GROUP
  then show ?thesis using assms by (auto simp: execute_batch_def)
next
  case GSK_GL_COMMAND_KIND_POP_DEBUG_GROUP
  then show ?thesis using assms by (auto simp: execute_batch_def)
next
  case GSK_GL_COMMAND_KIND_DRAW
  let ?p = "if ucast (program b) \<noteq> cur_program st
            then ([GlUseProgram (ucast (program b))], st\<lparr>cur_program := ucast (program b)\<rparr>)
            else ([], st)"
  let ?f = "apply_framebuffer H sf sc (snd ?p) (draw_framebuffer b)"
  let ?v = "apply_viewport (snd ?f) (viewport_width b) (viewport_height b)"
  from assms GSK_GL_COMMAND_KIND_DRAW obtain c3 c4 where
    c3: "bind_calls (batch_binds s) b = Inr c3" and c4: "uniform_calls (batch_uniforms s) b = Inr c4"
    and calls: "calls = fst ?p @ fst ?f @ fst ?v @ c3 @ c4 @ [GlDrawArrays (draw_vbo_offset b) (draw_vbo_count b)]"
    by (auto simp: execute_batch_def split_beta Let_def split: sum.splits)
  have p: "no_bind_fb (fst ?p)" by (simp add: no_bind_fb_def)
  have d: "no_bind_fb [GlDrawArrays (draw_vbo_offset b) (draw_vbo_count b)]" by (simp add: no_bind_fb_def)
  show ?thesis unfolding calls
    by (intro bts_append bts_apply_framebuffer no_bind_fb_bts[OF no_bind_apply_viewport]
          no_bind_fb_bts[OF no_bind_bind_calls[OF c3]] no_bind_fb_bts[OF no_bind_uniform_calls[OF c4]]
          no_bind_fb_bts[OF p] no_bind_fb_bts[OF d])
qed

lemma bts_execute_loop:
  "execute_loop fuel s H sf sc i st = Inr passes \<Longrightarrow>
     binds_then_scissor H sf sc (concat (map snd passes))"
proof (induction fuel arbitrary: i st passes)
  case 0
  then show ?case by (subst (asm) execute_loop.simps) (auto split: if_splits)
next
  case (Suc fuel)
  show ?case
  proof (cases "i \<ge> 0")
    case False
    then show ?thesis using Suc.prems by (subst (asm) execute_loop.simps) auto
  next
    case True
    from Suc.prems True obtain calls st' rest where
      eb: "execute_batch s H sf sc (batches s ! nat i) st = Inr (calls, st')"
      and el: "execute_loop fuel s H sf sc (next_batch_index (batches s ! nat i)) st' = Inr rest"
      and p: "passes = (nat i, calls) # rest"
      by (subst (asm) execute_loop.simps) (auto simp: Let_def split: if_splits sum.splits)
    show ?thesis unfolding p using bts_execute_batch[OF eb] Suc.IH[OF el]
      by (simp add: bts_append)
  qed
qed

subsection \<open>The scissor state follows the batches\<close>

lemma gl_run_simps [simp]:
  "gl_run g [] = g" "gl_run g (c # cs) = gl_run (gl_apply c g) cs"
  "gl_run g (xs @ ys) = gl_run (gl_run g xs) ys"
  by (simp_all add: gl_run_def)

lemma targets_drawn_append:
  "targets_drawn g (xs @ ys) = targets_drawn g xs @ targets_drawn (gl_run g xs) ys"
  by (induction xs arbitrary: g) simp_all

lemma neutral_call: "scissor_neutral c \<Longrightarrow> gl_apply c g = g \<and> \<not> is_clear_or_draw c"
  by (cases c) simp_all

lemma neutral_calls:
  "list_all scissor_neutral cs \<Longrightarrow> gl_run g cs = g \<and> targets_drawn g cs = []"
  by (induction cs arbitrary: g) (simp_all add: neutral_call)

lemma neutral_prologue: "list_all scissor_neutral execute_prologue"
  by (simp add: execute_prologue_def)

lemma neutral_viewport: "list_all scissor_neutral (fst (apply_viewport st w h))"
  by (simp add: apply_viewport_def)

lemma neutral_bind_calls: "bind_calls binds b = Inr c \<Longrightarrow> list_all scissor_neutral c"
  by (auto simp: bind_calls_def Let_def list_all_iff split: if_splits)

lemma neutral_uniform_calls: "uniform_calls us b = Inr c \<Longrightarrow> list_all scissor_neutral c"
  by (auto simp: uniform_calls_def Let_def list_all_iff split: if_splits)

lemma apply_scissor_effect:
  "gl_bound_framebuffer (gl_run g (apply_scissor fb H sf sc)) = gl_bound_framebuffer g \<and>
   gl_scissor_in_effect (gl_run g (apply_scissor fb H sf sc)) = scissor_for fb H sf sc \<and>
   targets_drawn g (apply_scissor fb H sf sc) = []"
  by (cases sc) (simp_all add: apply_scissor_def scissor_for_def gl_scissor_in_effect_def)

lemma apply_framebuffer_tracks:
  assumes "scissor_tracks H sf sc g st"
  shows "scissor_tracks H sf sc (gl_run g (fst (apply_framebuffer H sf sc st fb)))
           (snd (apply_framebuffer H sf sc st fb)) \<and>
         cur_framebuffer (snd (apply_framebuffer H sf sc st fb)) = fb \<and>
         targets_drawn g (fst (apply_framebuffer H sf sc st fb)) = []"
  using assms apply_scissor_effect[of "g\<lparr>gl_bound_framebuffer := fb\<rparr>" fb H sf sc]
  by (simp add: apply_framebuffer_def scissor_tracks_def)


lemma viewport_framebuffer: "cur_framebuffer (snd (apply_viewport st w h)) = cur_framebuffer st"
  by (simp add: apply_viewport_def)

lemma tracks_cong:
  "scissor_tracks H sf sc g st \<Longrightarrow> cur_framebuffer st' = cur_framebuffer st \<Longrightarrow>
   scissor_tracks H sf sc g st'"
  by (simp add: scissor_tracks_def)


lemma draw_after_switch:
  assumes tr: "scissor_tracks H sf sc g st"
    and pre: "list_all scissor_neutral pre" and mid: "list_all scissor_neutral mid"
    and c: "is_clear_or_draw c" and fb: "cur_framebuffer st2 = fb"
  shows "scissor_tracks H sf sc (gl_run g (pre @ fst (apply_framebuffer H sf sc st fb) @ mid @ [c])) st2 \<and>
         targets_drawn g (pre @ fst (apply_framebuffer H sf sc st fb) @ mid @ [c]) =
           [(fb, scissor_for fb H sf sc)]"
proof -
  let ?A = "fst (apply_framebuffer H sf sc st fb)"
  let ?g1 = "gl_run g ?A"
  note f = apply_framebuffer_tracks[OF tr, of fb]
  have t1: "gl_bound_framebuffer ?g1 = fb" "gl_scissor_in_effect ?g1 = scissor_for fb H sf sc"
    using f by (simp_all add: scissor_tracks_def)
  have dA: "targets_drawn g ?A = []" using f by simp
  have p1: "gl_run g pre = g" "targets_drawn g pre = []"
    using neutral_calls[OF pre, of g] by simp_all
  have m1: "gl_run ?g1 mid = ?g1" "targets_drawn ?g1 mid = []"
    using neutral_calls[OF mid, of ?g1] by simp_all
  have cg: "gl_apply c ?g1 = ?g1" using c by (cases c) simp_all
  have run: "gl_run g (pre @ ?A @ mid @ [c]) = ?g1"
    by (simp only: gl_run_simps p1 m1 cg)
  have drawn: "targets_drawn g (pre @ ?A @ mid @ [c]) = [(fb, scissor_for fb H sf sc)]"
    by (simp only: targets_drawn_append p1 m1 dA gl_run_simps targets_drawn.simps c t1 if_True
          append_Nil append_Nil2)
  have "scissor_tracks H sf sc ?g1 st2"
    unfolding scissor_tracks_def using t1 fb by simp
  then show ?thesis by (simp only: run drawn simp_thms)
qed


lemma execute_batch_tracks:
  assumes eb: "execute_batch s H sf sc b st = Inr (calls, st')"
    and tr: "scissor_tracks H sf sc g st"
  shows "scissor_tracks H sf sc (gl_run g calls) st' \<and>
         targets_drawn g calls =
           (case batch_target b of None \<Rightarrow> [] | Some fb \<Rightarrow> [(fb, scissor_for fb H sf sc)])"
proof (cases "kind b")
  case GSK_GL_COMMAND_KIND_CLEAR
  let ?f = "apply_framebuffer H sf sc st (clear_framebuffer b)"
  let ?v = "apply_viewport (snd ?f) (viewport_width b) (viewport_height b)"
  have calls: "calls = [] @ fst ?f @ fst ?v @ [GlClear (clear_bits b)]" and st': "st' = snd ?v"
    using eb GSK_GL_COMMAND_KIND_CLEAR by (auto simp: execute_batch_def split_beta Let_def)
  have fb: "cur_framebuffer (snd ?v) = clear_framebuffer b"
    by (simp add: viewport_framebuffer apply_framebuffer_def)
  have t: "batch_target b = Some (clear_framebuffer b)"
    using GSK_GL_COMMAND_KIND_CLEAR by (simp add: batch_target_def)
  have n: "list_all scissor_neutral ([] :: gl_call list)" by simp
  have d: "is_clear_or_draw (GlClear (clear_bits b))" by simp
  from draw_after_switch[OF tr n neutral_viewport d fb]
  show ?thesis unfolding calls st' t by simp
next
  case GSK_GL_COMMAND_KIND_PUSH_DEBUG_GROUP
  then have "calls = [PushDebugGroup (debug_group b)]" "st' = st" "batch_target b = None"
    using eb by (auto simp: execute_batch_def batch_target_def)
  then show ?thesis using tr by simp
next
  case GSK_GL_COMMAND_KIND_POP_DEBUG_GROUP
  then have "calls = [PopDebugGroup]" "st' = st" "batch_target b = None"
    using eb by (auto simp: execute_batch_def batch_target_def)
  then show ?thesis using tr by simp
next
  case GSK_GL_COMMAND_KIND_DRAW
  let ?p = "if ucast (program b) \<noteq> cur_program st
            then ([GlUseProgram (ucast (program b))], st\<lparr>cur_program := ucast (program b)\<rparr>)
            else ([], st)"
  let ?f = "apply_framebuffer H sf sc (snd ?p) (draw_framebuffer b)"
  let ?v = "apply_viewport (snd ?f) (viewport_width b) (viewport_height b)"
  from eb GSK_GL_COMMAND_KIND_DRAW obtain c3 c4 where
    c3: "bind_calls (batch_binds s) b = Inr c3" and c4: "uniform_calls (batch_uniforms s) b = Inr c4"
    and calls: "calls = fst ?p @ fst ?f @ (fst ?v @ c3 @ c4) @ [GlDrawArrays (draw_vbo_offset b) (draw_vbo_count b)]"
    and st': "st' = snd ?v"
    by (auto simp: execute_batch_def split_beta Let_def split: sum.splits)
  have np: "list_all scissor_neutral (fst ?p)" by simp
  have trp: "scissor_tracks H sf sc g (snd ?p)" using tr by (simp add: scissor_tracks_def)
  have fb: "cur_framebuffer (snd ?v) = draw_framebuffer b"
    by (simp add: viewport_framebuffer apply_framebuffer_def)
  have t: "batch_target b = Some (draw_framebuffer b)"
    using GSK_GL_COMMAND_KIND_DRAW by (simp add: batch_target_def)
  have mid: "list_all scissor_neutral (fst ?v @ c3 @ c4)"
    using neutral_viewport[of "snd ?f" "viewport_width b" "viewport_height b"]
      neutral_bind_calls[OF c3] neutral_uniform_calls[OF c4] by simp
  have d: "is_clear_or_draw (GlDrawArrays (draw_vbo_offset b) (draw_vbo_count b))" by simp
  from draw_after_switch[OF trp np mid d fb]
  show ?thesis unfolding calls st' t by simp
qed

lemma execute_loop_tracks:
  "execute_loop fuel s H sf sc i st = Inr passes \<Longrightarrow> scissor_tracks H sf sc g st \<Longrightarrow>
     targets_drawn g (concat (map snd passes)) =
       map (\<lambda>fb. (fb, scissor_for fb H sf sc))
         (List.map_filter batch_target (map (\<lambda>k. batches s ! k) (map fst passes)))"
proof (induction fuel arbitrary: i st passes g)
  case 0
  then show ?case
    by (subst (asm) execute_loop.simps) (auto simp: List.map_filter_simps split: if_splits)
next
  case (Suc fuel)
  show ?case
  proof (cases "i \<ge> 0")
    case False
    then show ?thesis using Suc.prems
      by (subst (asm) execute_loop.simps) (auto simp: List.map_filter_simps)
  next
    case True
    from Suc.prems(1) True obtain calls st' rest where
      eb: "execute_batch s H sf sc (batches s ! nat i) st = Inr (calls, st')"
      and el: "execute_loop fuel s H sf sc (next_batch_index (batches s ! nat i)) st' = Inr rest"
      and p: "passes = (nat i, calls) # rest"
      by (subst (asm) execute_loop.simps) (auto simp: Let_def split: if_splits sum.splits)
    note b = execute_batch_tracks[OF eb Suc.prems(2)]
    note r = Suc.IH[OF el b[THEN conjunct1]]
    have split: "targets_drawn g (concat (map snd passes)) =
        targets_drawn g calls @ targets_drawn (gl_run g calls) (concat (map snd rest))"
      by (simp only: p list.map snd_conv concat.simps targets_drawn_append)
    have sel: "List.map_filter batch_target (map (\<lambda>k. batches s ! k) (map fst passes)) =
        (case batch_target (batches s ! nat i) of None \<Rightarrow> [] | Some fb \<Rightarrow> [fb]) @
        List.map_filter batch_target (map (\<lambda>k. batches s ! k) (map fst rest))"
      by (cases "batch_target (batches s ! nat i)") (simp_all add: p List.map_filter_simps)
    have one: "targets_drawn g calls =
        map (\<lambda>fb. (fb, scissor_for fb H sf sc))
          (case batch_target (batches s ! nat i) of None \<Rightarrow> [] | Some fb \<Rightarrow> [fb])"
      by (cases "batch_target (batches s ! nat i)") (simp_all add: b[THEN conjunct2])
    show ?thesis by (simp only: split sel one r map_append)
  qed
qed


lemma execute_total:
  assumes inv: "queue_inv s" and nd: "\<not> in_draw s" and ne: "batches s \<noteq> []"
  shows "\<exists>passes. execute_loop (length (batches s)) s H sf sc 0 st = Inr passes \<and>
           map fst passes = [0..<length (batches s)]"
proof -
  let ?n = "length (batches s)"
  have m: "linked_count s = ?n" using nd by (simp add: linked_count_def)
  have l: "links_ok ?n (batches s)"
    and ok: "list_all (batch_ok (length (batch_uniforms s)) (length (batch_binds s))) (batches s)"
    using inv m by (simp_all add: queue_inv_def)
  have n: "0 < ?n" using ne by simp
  then have mx: "max ?n (Suc 0) = ?n" by (cases "batches s") (simp_all add: max_def)
  have "max ?n (Suc 0) - 0 \<le> ?n" using mx by simp
  from execute_loop_visits[OF l order_refl ok n this, of H sf sc st]
  show ?thesis by (simp add: mx)
qed

section \<open>Claims about recording\<close>

lemmas example_simps = new_queue_def cq_defs gsk_gl_command_queue_clear_def can_chain_def Let_def
     viewport_800x600_def guint16_of_float_def zero_batch_def G_MAXINT_def GL_ALL_BUFFER_BITS_def
     example_recording_def

text \<open>
  C5. A \<open>begin_draw\<close>/\<open>end_draw\<close> bracket in which no vertices were added is dropped
  without error: whatever else is called in between, \<open>end_draw\<close> leaves the batch array,
  the tail index, the uniform and bind arrays and the vertex buffer as they were before
  \<open>begin_draw\<close>, takes no snapshot of the attachment state, and leaves the draw state.
\<close>

theorem empty_draw_is_discarded:
  assumes "\<not> in_draw s" and "list_all keeps_bracket mid"
  shows "let opened = record_ops mid (gsk_gl_command_queue_begin_draw prog viewport s);
             s' = gsk_gl_command_queue_end_draw snapshot opened
         in batches s' = batches s \<and> tail_batch_index s' = tail_batch_index s \<and>
            batch_uniforms s' = batch_uniforms s \<and> batch_binds s' = batch_binds s \<and>
            vertices s' = vertices s \<and> attachments s' = attachments opened \<and>
            \<not> in_draw s' \<and> (mid = [] \<longrightarrow> s' = s)"
proof -
  from empty_bracket[OF assms, of snapshot prog viewport] obtain a where
    a: "gsk_gl_command_queue_end_draw snapshot
          (record_ops mid (gsk_gl_command_queue_begin_draw prog viewport s)) = s\<lparr>attachments := a\<rparr>"
       "a = attachments (record_ops mid (gsk_gl_command_queue_begin_draw prog viewport s))"
    by blast
  have "mid = [] \<Longrightarrow> a = attachments s"
    using a(2) assms(1) by (simp add: cq_defs)
  then show ?thesis using assms(1) a by (auto simp: Let_def)
qed

theorem empty_draw_is_discarded_witness:
  "\<not> in_draw new_queue \<and> list_all keeps_bracket [Bind_framebuffer 3] \<and>
   batches (gsk_gl_command_queue_end_draw []
      (record_ops [Bind_framebuffer 3] (gsk_gl_command_queue_begin_draw 1 viewport_800x600 new_queue))) = [] \<and>
   gsk_gl_command_queue_end_draw [] (gsk_gl_command_queue_begin_draw 1 viewport_800x600 new_queue) = new_queue"
  using empty_draw_is_discarded[of new_queue "[Bind_framebuffer 3]" 1 viewport_800x600 "[]"]
        empty_draw_is_discarded[of new_queue "[]" 1 viewport_800x600 "[]"]
  by (simp add: new_queue_def Let_def)

text \<open>
  C2. After any sequence of record operations on a queue at the start of a frame, no
  batch's next index is its own index, and the loop of \<open>execute\<close>, started at the first
  batch, ends without a failed assertion after at most as many passes as there are
  batches and visits no index twice. Outside a draw bracket it visits every batch once,
  in the order of recording.
\<close>

theorem batch_list_is_acyclic:
  assumes "frame_start s0"
  shows "let s = record_ops ops s0; n = length (batches s)
         in (\<forall>i<n. next_batch_index (batches s ! i) \<noteq> int i) \<and>
            (n > 0 \<longrightarrow>
               (\<exists>passes. execute_loop n s surface_height scale_factor scissor 0 st = Inr passes \<and>
                  length passes \<le> n \<and> distinct (map fst passes) \<and>
                  (\<forall>i \<in> set (map fst passes). i < n) \<and>
                  (\<not> in_draw s \<longrightarrow> map fst passes = [0..<n])))"
proof -
  let ?s = "record_ops ops s0"
  let ?n = "length (batches ?s)"
  let ?m = "linked_count ?s"
  have inv: "queue_inv ?s" using assms by (simp add: queue_inv_frame_start queue_inv_ops)
  then have l: "links_ok ?m (batches ?s)"
    and ok: "list_all (batch_ok (length (batch_uniforms ?s)) (length (batch_binds ?s))) (batches ?s)"
    by (simp_all add: queue_inv_def)
  have m: "?m \<le> ?n" by (simp add: linked_count_def)
  have self: "\<forall>i<?n. next_batch_index (batches ?s ! i) \<noteq> int i"
    using links_okD[OF l] by auto
  have walk: "\<exists>passes. execute_loop ?n ?s surface_height scale_factor scissor 0 st = Inr passes \<and>
                  length passes \<le> ?n \<and> distinct (map fst passes) \<and>
                  (\<forall>i \<in> set (map fst passes). i < ?n) \<and>
                  (\<not> in_draw ?s \<longrightarrow> map fst passes = [0..<?n])" if n: "?n > 0"
  proof -
    have n1: "Suc 0 \<le> ?n" using n by (simp add: Suc_leI)
    define k where "k = max ?m (Suc 0)"
    have k: "k \<le> ?n" using m n1 by (simp add: k_def)
    have "k - 0 \<le> ?n" using k by simp
    from execute_loop_visits[OF l m ok n, where fuel="?n" and H=surface_height and sf=scale_factor and sc=scissor and st=st] this
    obtain passes where p: "execute_loop ?n ?s surface_height scale_factor scissor 0 st = Inr passes"
      and v: "map fst passes = [0..<k]" by (auto simp: k_def)
    have "length passes = length (map fst passes)" by simp
    then have len: "length passes \<le> ?n" using k by (simp only: v) simp
    have all: "\<not> in_draw ?s \<Longrightarrow> k = ?n" using n1 by (simp add: k_def linked_count_def max_def)
    have bound: "\<forall>i \<in> set (map fst passes). i < ?n" using k by (simp only: v) auto
    have dist: "distinct (map fst passes)" by (simp only: v) simp
    show ?thesis
      apply (rule exI[of _ passes])
      using p len dist bound all v by blast
  qed
  show ?thesis using self walk by (simp add: Let_def)
qed
theorem batch_list_is_acyclic_witness:
  "frame_start new_queue \<and>
   length (batches (record_ops example_recording new_queue)) = 2 \<and>
   \<not> in_draw (record_ops example_recording new_queue) \<and>
   next_batch_index (batches (record_ops example_recording new_queue) ! 0) \<noteq> 0 \<and>
   next_batch_index (batches (record_ops example_recording new_queue) ! 1) \<noteq> 1 \<and>
   (\<exists>passes. execute_loop 2 (record_ops example_recording new_queue) 600 1 None 0 initial_exec_state
        = Inr passes \<and> map fst passes = [0, 1])"
proof -
  have h: "frame_start new_queue" by (simp add: frame_start_def new_queue_def)
  have n: "length (batches (record_ops example_recording new_queue)) = 2"
    by (simp add: example_simps)
  have d: "\<not> in_draw (record_ops example_recording new_queue)"
    by (simp add: example_simps)
  have u: "[0..<2] = [0, Suc 0]" by (simp add: upt_rec)
  have ne: "batches (record_ops example_recording new_queue) \<noteq> []" using n by auto
  note t = batch_list_is_acyclic[OF h, of example_recording 600 1 None initial_exec_state]
  have a: "\<forall>i<2. next_batch_index (batches (record_ops example_recording new_queue) ! i) \<noteq> int i"
    using t n by (simp add: Let_def)
  have a0: "next_batch_index (batches (record_ops example_recording new_queue) ! 0) \<noteq> 0"
    using a[rule_format, of 0] by simp
  have a1: "next_batch_index (batches (record_ops example_recording new_queue) ! 1) \<noteq> 1"
    using a[rule_format, of 1] by simp
  have e: "\<exists>passes. execute_loop 2 (record_ops example_recording new_queue) 600 1 None 0 initial_exec_state
        = Inr passes \<and> map fst passes = [0, 1]"
    using t n d ne by (auto simp add: Let_def u)
  show ?thesis using h n d a0 a1 e by blast
qed

lemma replicate_split: "replicate 10923 x = [x] @ replicate 10921 x @ [x]"
proof -
  have "replicate (1 + 10921 + 1) x = replicate 1 x @ replicate 10921 x @ replicate 1 x"
    by (simp only: replicate_add append_assoc)
  then show ?thesis by simp
qed

text \<open>
  C1. The code does not reach the sum the spec demands: the vertex count of a batch is a
  16-bit field, and \<open>end_draw\<close> chains by adding the counts in that field without a
  check. 10923 consecutive draws of one rectangle each, with the same program, viewport
  and framebuffer and no uniform or bind change, are chained into one batch. Their
  counts add up to 65538; the batch's \<open>vbo_count\<close> is 2, and \<open>execute\<close> draws two
  vertices.
\<close>

theorem chained_draws_lose_vertices:
  "length (batches (record_ops
      (concat (map (\<lambda>srcs. draw_ops 1 viewport_800x600 srcs []) (replicate 10923 [None]))) new_queue)) = 1 \<and>
   unat (draw_vbo_count (last (batches (record_ops
      (concat (map (\<lambda>srcs. draw_ops 1 viewport_800x600 srcs []) (replicate 10923 [None]))) new_queue)))) = 2 \<and>
   sum_list (replicate 10923 GSK_GL_N_VERTICES) = 65538 \<and>
   gsk_gl_command_queue_execute 1 (record_ops
      (concat (map (\<lambda>srcs. draw_ops 1 viewport_800x600 srcs []) (replicate 10923 [None]))) new_queue)
      600 1 None =
     Inr (execute_prologue @
          [GlDisable GL_SCISSOR_TEST, GlUseProgram 1, GlViewport 800 600, GlDrawArrays 0 2,
           GlDeleteVertexArrays])"
proof -
  let ?d = "\<lambda>srcs. draw_ops 1 viewport_800x600 srcs []"
  let ?one = "[None :: (nat \<Rightarrow> GskGLDrawVertex) option]"
  let ?s1 = "record_ops (?d ?one) new_queue"
  let ?s2 = "record_ops (concat (map ?d (replicate 10921 ?one))) ?s1"
  let ?s3 = "record_ops (?d ?one) ?s2"
  have run: "record_ops (concat (map ?d (replicate 10923 ?one))) new_queue = ?s3"
    by (simp only: replicate_split map_append concat_append list.map concat.simps append_Nil2
          record_ops_append)
  have b1: "batches ?s1 =
     [zero_batch\<lparr>kind := GSK_GL_COMMAND_KIND_DRAW, program := 1, next_batch_index := -1,
                 viewport_width := 800, viewport_height := 600, draw_vbo_count := 6\<rparr>]"
    by (simp add: example_simps draw_ops_def)
  have r1: "merge_ready 1 viewport_800x600 ?s1"
    by (simp add: example_simps draw_ops_def merge_ready_def)
  have ne: "list_all (\<lambda>srcs. srcs \<noteq> []) (replicate 10921 ?one)" by (simp add: list_all_iff)
  have sm: "sum_list (map length (replicate 10921 ?one)) = 10921"
    by (simp add: sum_list_replicate)
  have le: "unat (draw_vbo_count (last (batches ?s1))) + 6 * sum_list (map length (replicate 10921 ?one)) \<le> 65535"
    by (simp only: sm b1) (simp add: zero_batch_def)
  note all = draws_merge_all[OF r1 ne le]
  define s2 where "s2 = ?s2"
  have r2: "merge_ready 1 viewport_800x600 s2" unfolding s2_def using all by blast
  have b2: "batches s2 =
     [zero_batch\<lparr>kind := GSK_GL_COMMAND_KIND_DRAW, program := 1, next_batch_index := -1,
                 viewport_width := 800, viewport_height := 600, draw_vbo_count := 65532\<rparr>]"
    unfolding s2_def
    by (simp only: all[THEN conjunct2, THEN conjunct1] sm b1) (simp add: zero_batch_def)
  have nz: "(word_of_nat (6 * length ?one) :: 16 word) \<noteq> 0" by simp
  from draw_merges[OF r2 nz] obtain new where
    r3: "record_ops (?d ?one) s2 = s2\<lparr>batches := butlast (batches s2) @
            [(last (batches s2))\<lparr>draw_vbo_count :=
               draw_vbo_count (last (batches s2)) + word_of_nat (6 * length ?one)\<rparr>],
         vertices := vertices s2 @ new,
         attachments := (attachments s2)\<lparr>fbo_changed := False\<rparr>,
         in_draw := False\<rparr>" by blast
  define s3 where "s3 = record_ops (?d ?one) s2"
  have s3: "?s3 = s3" by (simp only: s2_def s3_def)
  have b3: "batches s3 =
     [zero_batch\<lparr>kind := GSK_GL_COMMAND_KIND_DRAW, program := 1, next_batch_index := -1,
                 viewport_width := 800, viewport_height := 600, draw_vbo_count := 2\<rparr>]"
    by (simp only: s3_def r3) (simp add: b2 zero_batch_def)
  have d3: "\<not> in_draw s3" by (simp only: s3_def r3) simp
  have n: "length (batches s3) = 1" by (simp only: b3) simp
  have c: "unat (draw_vbo_count (last (batches s3))) = 2" by (simp only: b3) (simp add: zero_batch_def)
  have v: "sum_list (replicate 10923 GSK_GL_N_VERTICES) = 65538"
    by (simp add: sum_list_replicate GSK_GL_N_VERTICES_def)
  have e: "gsk_gl_command_queue_execute 1 s3 600 1 None =
     Inr (execute_prologue @
          [GlDisable GL_SCISSOR_TEST, GlUseProgram 1, GlViewport 800 600, GlDrawArrays 0 2,
           GlDeleteVertexArrays])"
    using d3 by (simp add: gsk_gl_command_queue_execute_def b3 execute_loop.simps execute_batch_def
          apply_framebuffer_def apply_viewport_def apply_scissor_def bind_calls_def uniform_calls_def
          initial_exec_state_def zero_batch_def Let_def)
  show ?thesis unfolding run s3 using n c v e by blast
qed

text \<open>
  What \<open>end_draw\<close> does while the counts fit their fields. Let \<open>end_draw\<close> close a
  bracket whose batch \<open>b\<close> has a non-zero vertex
  count, in a queue reached by recording. The draw is chained to the batch \<open>l\<close> before
  it exactly when \<open>l\<close> is a draw with the same program, viewport width and height and
  the framebuffer now bound, the draw's uniform and bind counts are zero, and \<open>l\<close>'s
  vertex range ends where \<open>b\<close>'s begins. Then \<open>l\<close>'s vertex count grows by \<open>b\<close>'s (in
  the 16-bit field), \<open>b\<close> is discarded and the number of batches is what it was before
  \<open>begin_draw\<close>. Otherwise the completed batch is linked behind \<open>l\<close> and the number of
  batches grows by one. The counts are zero exactly when no uniform and no bind was
  snapshotted, as long as fewer than 2048 uniforms and fewer than 32 texture units are
  involved. Consecutive draws that are chained this way leave one batch whose vertex
  count is the sum of the counts, provided the sum is at most 65535.
\<close>

lemma end_draw_chains_or_links:
  "(queue_inv s \<and> in_draw s \<and> batches s = bs @ [b] \<and> draw_vbo_count b \<noteq> 0 \<longrightarrow>
      (let l = last bs;
           s' = gsk_gl_command_queue_end_draw snapshot s;
           binds = snd (snapshot_binds (textures (attachments s)));
           chained = (bs \<noteq> [] \<and> kind l = GSK_GL_COMMAND_KIND_DRAW \<and>
              program l = program b \<and>
              viewport_width l = viewport_width b \<and> viewport_height l = viewport_height b \<and>
              draw_framebuffer l = fbo_id (attachments s) \<and>
              (word_of_nat (length snapshot) :: 11 word) = 0 \<and>
              (word_of_nat (length binds) :: 5 word) = 0 \<and>
              draw_vbo_offset l + ucast (draw_vbo_count l) = draw_vbo_offset b)
       in (chained \<longrightarrow>
             batches s' = butlast bs @ [l\<lparr>draw_vbo_count := draw_vbo_count l + draw_vbo_count b\<rparr>] \<and>
             length (batches s') = length bs \<and>
             tail_batch_index s' = tail_batch_index s) \<and>
          (\<not> chained \<longrightarrow>
             batches s' = (if bs = [] then [] else butlast bs @ [l\<lparr>next_batch_index := int (length bs)\<rparr>])
                            @ [closed_batch snapshot s b] \<and>
             length (batches s') = length bs + 1 \<and>
             tail_batch_index s' = int (length bs)) \<and>
          (length snapshot < 2048 \<longrightarrow>
             ((word_of_nat (length snapshot) :: 11 word) = 0 \<longleftrightarrow> snapshot = [])) \<and>
          (length (textures (attachments s)) < 32 \<longrightarrow>
             ((word_of_nat (length binds) :: 5 word) = 0 \<longleftrightarrow> binds = [])))) \<and>
   (merge_ready prog viewport s1 \<and> list_all (\<lambda>srcs. srcs \<noteq> []) sources \<and>
    unat (draw_vbo_count (last (batches s1))) + GSK_GL_N_VERTICES * sum_list (map length sources) \<le> 65535 \<longrightarrow>
      (let s' = record_ops (concat (map (\<lambda>srcs. draw_ops prog viewport srcs []) sources)) s1
       in length (batches s') = length (batches s1) \<and>
          butlast (batches s') = butlast (batches s1) \<and>
          unat (draw_vbo_count (last (batches s'))) =
            unat (draw_vbo_count (last (batches s1))) + GSK_GL_N_VERTICES * sum_list (map length sources))) \<and>
   (frame_start s0 \<and> first \<noteq> [] \<and> list_all (\<lambda>srcs. srcs \<noteq> []) sources \<and>
    GSK_GL_N_VERTICES * (length first + sum_list (map length sources)) \<le> 65535 \<longrightarrow>
      (let s' = record_ops (draw_ops prog viewport first snapshot1 @
                   concat (map (\<lambda>srcs. draw_ops prog viewport srcs []) sources)) s0
       in length (batches s') = 1 \<and>
          unat (draw_vbo_count (last (batches s'))) =
            GSK_GL_N_VERTICES * (length first + sum_list (map length sources))))"
proof (intro conjI impI)
  assume a: "queue_inv s \<and> in_draw s \<and> batches s = bs @ [b] \<and> draw_vbo_count b \<noteq> 0"
  then have inv: "queue_inv s" and d: "in_draw s" and bs: "batches s = bs @ [b]"
    and nz: "draw_vbo_count b \<noteq> 0" by simp_all
  let ?binds = "snd (snapshot_binds (textures (attachments s)))"
  let ?chained = "bs \<noteq> [] \<and> kind (last bs) = GSK_GL_COMMAND_KIND_DRAW \<and>
              program (last bs) = program b \<and>
              viewport_width (last bs) = viewport_width b \<and> viewport_height (last bs) = viewport_height b \<and>
              draw_framebuffer (last bs) = fbo_id (attachments s) \<and>
              (word_of_nat (length snapshot) :: 11 word) = 0 \<and>
              (word_of_nat (length ?binds) :: 5 word) = 0 \<and>
              draw_vbo_offset (last bs) + ucast (draw_vbo_count (last bs)) = draw_vbo_offset b"
  have cc: "can_chain (if bs = [] then None else Some (last bs)) (closed_batch snapshot s b) \<longleftrightarrow> ?chained"
    by (simp add: can_chain_def closed_batch_def)
  note dec = end_draw_decision[OF inv d bs nz, of snapshot, unfolded cc]
  have u: "length snapshot < 2048 \<Longrightarrow> ((word_of_nat (length snapshot) :: 11 word) = 0 \<longleftrightarrow> snapshot = [])"
    using count_zero_iff[where 'a=11, of "length snapshot"] by simp
  have t: "length (textures (attachments s)) < 32 \<Longrightarrow>
             ((word_of_nat (length ?binds) :: 5 word) = 0 \<longleftrightarrow> ?binds = [])"
  proof -
    assume "length (textures (attachments s)) < 32"
    then have "length ?binds < 32" using snapshot_binds_length[of "textures (attachments s)"] by simp
    then show ?thesis using count_zero_iff[where 'a=5, of "length ?binds"] by simp
  qed
  show "let l = last bs;
           s' = gsk_gl_command_queue_end_draw snapshot s;
           binds = snd (snapshot_binds (textures (attachments s)));
           chained = (bs \<noteq> [] \<and> kind l = GSK_GL_COMMAND_KIND_DRAW \<and>
              program l = program b \<and>
              viewport_width l = viewport_width b \<and> viewport_height l = viewport_height b \<and>
              draw_framebuffer l = fbo_id (attachments s) \<and>
              (word_of_nat (length snapshot) :: 11 word) = 0 \<and>
              (word_of_nat (length binds) :: 5 word) = 0 \<and>
              draw_vbo_offset l + ucast (draw_vbo_count l) = draw_vbo_offset b)
       in (chained \<longrightarrow>
             batches s' = butlast bs @ [l\<lparr>draw_vbo_count := draw_vbo_count l + draw_vbo_count b\<rparr>] \<and>
             length (batches s') = length bs \<and>
             tail_batch_index s' = tail_batch_index s) \<and>
          (\<not> chained \<longrightarrow>
             batches s' = (if bs = [] then [] else butlast bs @ [l\<lparr>next_batch_index := int (length bs)\<rparr>])
                            @ [closed_batch snapshot s b] \<and>
             length (batches s') = length bs + 1 \<and>
             tail_batch_index s' = int (length bs)) \<and>
          (length snapshot < 2048 \<longrightarrow>
             ((word_of_nat (length snapshot) :: 11 word) = 0 \<longleftrightarrow> snapshot = [])) \<and>
          (length (textures (attachments s)) < 32 \<longrightarrow>
             ((word_of_nat (length binds) :: 5 word) = 0 \<longleftrightarrow> binds = []))"
    unfolding Let_def using dec u t by blast
next
  assume a: "merge_ready prog viewport s1 \<and> list_all (\<lambda>srcs. srcs \<noteq> []) sources \<and>
    unat (draw_vbo_count (last (batches s1))) + GSK_GL_N_VERTICES * sum_list (map length sources) \<le> 65535"
  then have r: "merge_ready prog viewport s1" and ne: "list_all (\<lambda>srcs. srcs \<noteq> []) sources"
    and le: "unat (draw_vbo_count (last (batches s1))) + 6 * sum_list (map length sources) \<le> 65535"
    by (simp_all add: GSK_GL_N_VERTICES_def)
  have ne1: "batches s1 \<noteq> []" using r by (simp add: merge_ready_def)
  note all = draws_merge_all[OF r ne le]
  let ?s' = "record_ops (concat (map (\<lambda>srcs. draw_ops prog viewport srcs []) sources)) s1"
  have L: "length (batches ?s') = length (batches s1)"
    using ne1 by (simp only: all[THEN conjunct2, THEN conjunct1]) simp
  have B: "butlast (batches ?s') = butlast (batches s1)"
    by (simp only: all[THEN conjunct2, THEN conjunct1] butlast_snoc)
  have C: "unat (draw_vbo_count (last (batches ?s'))) =
            unat (draw_vbo_count (last (batches s1))) + 6 * sum_list (map length sources)"
    using all[THEN conjunct2, THEN conjunct2] .
  show "let s' = record_ops (concat (map (\<lambda>srcs. draw_ops prog viewport srcs []) sources)) s1
       in length (batches s') = length (batches s1) \<and>
          butlast (batches s') = butlast (batches s1) \<and>
          unat (draw_vbo_count (last (batches s'))) =
            unat (draw_vbo_count (last (batches s1))) + GSK_GL_N_VERTICES * sum_list (map length sources)"
    unfolding Let_def GSK_GL_N_VERTICES_def using L B C by blast
next
  assume a: "frame_start s0 \<and> first \<noteq> [] \<and> list_all (\<lambda>srcs. srcs \<noteq> []) sources \<and>
    GSK_GL_N_VERTICES * (length first + sum_list (map length sources)) \<le> 65535"
  then have f: "frame_start s0" and fne: "first \<noteq> []" and ne: "list_all (\<lambda>srcs. srcs \<noteq> []) sources"
    and le: "6 * (length first + sum_list (map length sources)) \<le> 65535"
    by (simp_all add: GSK_GL_N_VERTICES_def)
  let ?s1 = "record_ops (draw_ops prog viewport first snapshot1) s0"
  have le1: "6 * length first \<le> 65535" using le by simp
  note fd = first_draw[OF f fne le1, of prog viewport snapshot1]
  have le2: "unat (draw_vbo_count (last (batches ?s1))) + 6 * sum_list (map length sources) \<le> 65535"
    using le fd by simp
  note all = draws_merge_all[OF fd[THEN conjunct1] ne le2]
  have ne1: "batches ?s1 \<noteq> []" using fd by auto
  let ?s' = "record_ops (concat (map (\<lambda>srcs. draw_ops prog viewport srcs []) sources)) ?s1"
  have run: "record_ops (draw_ops prog viewport first snapshot1 @
                   concat (map (\<lambda>srcs. draw_ops prog viewport srcs []) sources)) s0 = ?s'"
    by (rule record_ops_append)
  have L: "length (batches ?s') = 1"
    using ne1 fd by (simp only: all[THEN conjunct2, THEN conjunct1]) simp
  have C: "unat (draw_vbo_count (last (batches ?s'))) = 6 * (length first + sum_list (map length sources))"
    using all[THEN conjunct2, THEN conjunct2] fd by simp
  show "let s' = record_ops (draw_ops prog viewport first snapshot1 @
                   concat (map (\<lambda>srcs. draw_ops prog viewport srcs []) sources)) s0
       in length (batches s') = 1 \<and>
          unat (draw_vbo_count (last (batches s'))) =
            GSK_GL_N_VERTICES * (length first + sum_list (map length sources))"
    unfolding Let_def GSK_GL_N_VERTICES_def run using L C by blast
qed



lemma end_draw_chains_or_links_witness:
  "queue_inv (record_ops (butlast example_recording) new_queue) \<and>
   in_draw (record_ops (butlast example_recording) new_queue) \<and>
   length (batches (record_ops (butlast example_recording) new_queue)) = 3 \<and>
   draw_vbo_count (last (batches (record_ops (butlast example_recording) new_queue))) \<noteq> 0 \<and>
   length (batches (gsk_gl_command_queue_end_draw [] (record_ops (butlast example_recording) new_queue))) = 2 \<and>
   draw_vbo_count (last (batches
      (gsk_gl_command_queue_end_draw [] (record_ops (butlast example_recording) new_queue)))) = 12 \<and>
   merge_ready 1 viewport_800x600 (record_ops (take 4 example_recording) new_queue) \<and>
   unat (draw_vbo_count (last (batches (record_ops (take 4 example_recording) new_queue)))) = 6 \<and>
   unat (draw_vbo_count (last (batches
      (record_ops (concat (map (\<lambda>srcs. draw_ops 1 viewport_800x600 srcs []) [[None]]))
         (record_ops (take 4 example_recording) new_queue))))) = 12 \<and>
   frame_start new_queue \<and>
   length (batches (record_ops (draw_ops 1 viewport_800x600 [None] [] @
      concat (map (\<lambda>srcs. draw_ops 1 viewport_800x600 srcs []) [[None], [None]])) new_queue)) = 1 \<and>
   unat (draw_vbo_count (last (batches (record_ops (draw_ops 1 viewport_800x600 [None] [] @
      concat (map (\<lambda>srcs. draw_ops 1 viewport_800x600 srcs []) [[None], [None]])) new_queue)))) = 18"
proof -
  let ?sA = "record_ops (butlast example_recording) new_queue"
  let ?s1 = "record_ops (take 4 example_recording) new_queue"
  have f: "frame_start new_queue" by (simp add: frame_start_def new_queue_def)
  have inv: "queue_inv ?sA" using f by (simp add: queue_inv_frame_start queue_inv_ops)
  have bA: "batches ?sA =
     [zero_batch\<lparr>next_batch_index := 1, viewport_width := 800, viewport_height := 600,
                 clear_bits := 17664\<rparr>,
      zero_batch\<lparr>kind := GSK_GL_COMMAND_KIND_DRAW, program := 1, next_batch_index := -1,
                 viewport_width := 800, viewport_height := 600, draw_vbo_count := 6\<rparr>] @
     [zero_batch\<lparr>kind := GSK_GL_COMMAND_KIND_DRAW, program := 1, next_batch_index := -1,
                 viewport_width := 800, viewport_height := 600, draw_vbo_count := 6,
                 draw_vbo_offset := 6\<rparr>]"
    by (simp add: example_simps)
  have dA: "in_draw ?sA" by (simp add: example_simps)
  have aA: "attachments ?sA = \<lparr>fbo_id = 0, fbo_changed = False, textures = []\<rparr>"
    by (simp add: example_simps)
  have r1: "merge_ready 1 viewport_800x600 ?s1"
    by (simp add: example_simps merge_ready_def)
  have c1: "unat (draw_vbo_count (last (batches ?s1))) = 6"
    by (simp add: example_simps)
  note t = end_draw_chains_or_links[where s="?sA" and b="last (batches ?sA)" and bs="butlast (batches ?sA)"
      and snapshot="[]" and prog=1 and viewport=viewport_800x600 and ?s1.0="?s1" and sources="[[None], [None]]"
      and ?s0.0=new_queue and first="[None]" and ?snapshot1.0="[]"]
  note t2 = end_draw_chains_or_links[where prog=1 and viewport=viewport_800x600 and ?s1.0="?s1"
      and sources="[[None]]"]
  have A: "length (batches (gsk_gl_command_queue_end_draw [] ?sA)) = 2 \<and>
     draw_vbo_count (last (batches (gsk_gl_command_queue_end_draw [] ?sA))) = 12"
    using t[THEN conjunct1] inv dA by (simp add: bA aA Let_def zero_batch_def)
  have B: "unat (draw_vbo_count (last (batches
      (record_ops (concat (map (\<lambda>srcs. draw_ops 1 viewport_800x600 srcs []) [[None]])) ?s1)))) = 12"
    using t2[THEN conjunct2, THEN conjunct1] r1 by (simp add: c1 Let_def GSK_GL_N_VERTICES_def)
  have C: "length (batches (record_ops (draw_ops 1 viewport_800x600 [None] [] @
      concat (map (\<lambda>srcs. draw_ops 1 viewport_800x600 srcs []) [[None], [None]])) new_queue)) = 1 \<and>
   unat (draw_vbo_count (last (batches (record_ops (draw_ops 1 viewport_800x600 [None] [] @
      concat (map (\<lambda>srcs. draw_ops 1 viewport_800x600 srcs []) [[None], [None]])) new_queue)))) = 18"
    using t[THEN conjunct2, THEN conjunct2] f by (simp add: Let_def GSK_GL_N_VERTICES_def)
  have n: "length (batches ?sA) = 3" by (simp add: bA)
  have z: "draw_vbo_count (last (batches ?sA)) \<noteq> 0" by (simp add: bA)
  show ?thesis using inv dA n z A r1 c1 B f C by blast
qed

text \<open>
  C10. The code does not keep the count the claim states: the vertex count of a batch is
  a 16-bit field that \<open>add_vertices\<close> increments without a check. After 10923 calls of
  \<open>add_vertices\<close> in one bracket, 65538 vertices are reserved in the buffer and the open
  batch's \<open>vbo_count\<close> is 2.
\<close>

theorem add_vertices_count_wraps:
  "unat (draw_vbo_count (last (batches
      (record_ops (Begin_draw 1 viewport_800x600 # map Add_vertices (replicate 10923 None)) new_queue)))) = 2 \<and>
   length (vertices
      (record_ops (Begin_draw 1 viewport_800x600 # map Add_vertices (replicate 10923 None)) new_queue)) = 65538 \<and>
   GSK_GL_N_VERTICES * length (replicate 10923 (None :: (nat \<Rightarrow> GskGLDrawVertex) option)) = 65538"
proof -
  have h: "\<not> in_draw new_queue" by (simp add: new_queue_def)
  have v: "length (vertices new_queue) = 0" by (simp add: new_queue_def)
  show ?thesis
    by (simp only: bracket_count_value[OF h] v) (simp add: GSK_GL_N_VERTICES_def)
qed

text \<open>
  What \<open>add_vertices\<close> does while the count fits its field. Inside a draw bracket
  every call of \<open>add_vertices\<close> reserves
  \<open>GSK_GL_N_VERTICES\<close> further slots of the vertex buffer, leaving the slots before them
  as they are, and adds \<open>GSK_GL_N_VERTICES\<close> to the open batch's 16-bit \<open>vbo_count\<close>.
  The batch's final count is \<open>GSK_GL_N_VERTICES\<close> times the number of calls whenever that
  product is at most 65535. The call returns \<open>NULL\<close> exactly when a source was given,
  whose vertices are then in the new slots; without a source it returns the pointer to
  the first new slot.
\<close>

lemma add_vertices_reserves_quantum:
  "(in_draw s \<and> batches s \<noteq> [] \<longrightarrow>
      (let r = gsk_gl_command_queue_add_vertices source s; dest = fst r; s' = snd r
       in length (vertices s') = length (vertices s) + GSK_GL_N_VERTICES \<and>
          take (length (vertices s)) (vertices s') = vertices s \<and>
          draw_vbo_count (last (batches s')) =
            draw_vbo_count (last (batches s)) + word_of_nat GSK_GL_N_VERTICES \<and>
          butlast (batches s') = butlast (batches s) \<and>
          (dest = None \<longleftrightarrow> source \<noteq> None) \<and>
          (source = None \<longrightarrow> dest = Some (length (vertices s))) \<and>
          (\<forall>src. source = Some src \<longrightarrow>
             drop (length (vertices s)) (vertices s') = map (\<lambda>i. Some (src i)) [0..<GSK_GL_N_VERTICES]))) \<and>
   (\<not> in_draw s0 \<and> GSK_GL_N_VERTICES * length sources \<le> 65535 \<longrightarrow>
      unat (draw_vbo_count (last (batches
         (record_ops (Begin_draw prog viewport # map Add_vertices sources) s0))))
        = GSK_GL_N_VERTICES * length sources \<and>
      length (vertices (record_ops (Begin_draw prog viewport # map Add_vertices sources) s0))
        = length (vertices s0) + GSK_GL_N_VERTICES * length sources)"
proof (intro conjI impI)
  assume "in_draw s \<and> batches s \<noteq> []"
  then have d: "in_draw s" and ne: "batches s \<noteq> []" by simp_all
  then have bs: "batches s = butlast (batches s) @ [last (batches s)]" by simp
  show "let r = gsk_gl_command_queue_add_vertices source s; dest = fst r; s' = snd r
       in length (vertices s') = length (vertices s) + GSK_GL_N_VERTICES \<and>
          take (length (vertices s)) (vertices s') = vertices s \<and>
          draw_vbo_count (last (batches s')) =
            draw_vbo_count (last (batches s)) + word_of_nat GSK_GL_N_VERTICES \<and>
          butlast (batches s') = butlast (batches s) \<and>
          (dest = None \<longleftrightarrow> source \<noteq> None) \<and>
          (source = None \<longrightarrow> dest = Some (length (vertices s))) \<and>
          (\<forall>src. source = Some src \<longrightarrow>
             drop (length (vertices s)) (vertices s') = map (\<lambda>i. Some (src i)) [0..<GSK_GL_N_VERTICES])"
    by (cases source) (simp_all add: add_vertices_step[OF d bs] Let_def GSK_GL_N_VERTICES_def)
next
  assume "\<not> in_draw s0 \<and> GSK_GL_N_VERTICES * length sources \<le> 65535"
  then have nd: "\<not> in_draw s0" and le: "6 * length sources < 65536" by (simp_all add: GSK_GL_N_VERTICES_def)
  show "unat (draw_vbo_count (last (batches
         (record_ops (Begin_draw prog viewport # map Add_vertices sources) s0))))
        = GSK_GL_N_VERTICES * length sources"
    using le by (simp only: bracket_count_value(1)[OF nd] GSK_GL_N_VERTICES_def) simp
  show "length (vertices (record_ops (Begin_draw prog viewport # map Add_vertices sources) s0))
        = length (vertices s0) + GSK_GL_N_VERTICES * length sources"
    by (simp only: bracket_count_value(2)[OF nd] GSK_GL_N_VERTICES_def)
qed


lemma add_vertices_reserves_quantum_witness:
  "in_draw (gsk_gl_command_queue_begin_draw 1 viewport_800x600 new_queue) \<and>
   batches (gsk_gl_command_queue_begin_draw 1 viewport_800x600 new_queue) \<noteq> [] \<and>
   fst (gsk_gl_command_queue_add_vertices None
          (gsk_gl_command_queue_begin_draw 1 viewport_800x600 new_queue)) = Some 0 \<and>
   fst (gsk_gl_command_queue_add_vertices (Some (\<lambda>i. test_vertex))
          (gsk_gl_command_queue_begin_draw 1 viewport_800x600 new_queue)) = None \<and>
   vertices (snd (gsk_gl_command_queue_add_vertices (Some (\<lambda>i. test_vertex))
          (gsk_gl_command_queue_begin_draw 1 viewport_800x600 new_queue))) = replicate 6 (Some test_vertex) \<and>
   \<not> in_draw new_queue \<and>
   unat (draw_vbo_count (last (batches
      (record_ops (Begin_draw 1 viewport_800x600 # map Add_vertices [None, None]) new_queue)))) = 12"
proof -
  let ?s = "gsk_gl_command_queue_begin_draw 1 viewport_800x600 new_queue"
  have d: "in_draw ?s" and ne: "batches ?s \<noteq> []" and v: "vertices ?s = []"
    by (simp_all add: new_queue_def cq_defs)
  have nd: "\<not> in_draw new_queue" by (simp add: new_queue_def)
  note t1 = add_vertices_reserves_quantum[where s="?s" and source=None, THEN conjunct1]
  note t2 = add_vertices_reserves_quantum[where s="?s" and source="Some (\<lambda>i. test_vertex)", THEN conjunct1]
  note t3 = add_vertices_reserves_quantum[where ?s0.0=new_queue and sources="[None, None]"
               and prog=1 and viewport=viewport_800x600, THEN conjunct2]
  have a: "fst (gsk_gl_command_queue_add_vertices None ?s) = Some 0"
    using t1 d ne by (simp add: Let_def v)
  have b: "fst (gsk_gl_command_queue_add_vertices (Some (\<lambda>i. test_vertex)) ?s) = None"
    using t2 d ne by (simp add: Let_def)
  have u: "[0..<6] = [0, 1, 2, 3, 4, 5]" by (simp add: upt_rec)
  have c: "vertices (snd (gsk_gl_command_queue_add_vertices (Some (\<lambda>i. test_vertex)) ?s))
             = replicate 6 (Some test_vertex)"
    using t2 d ne by (simp add: Let_def v GSK_GL_N_VERTICES_def u numeral_eq_Suc)
  have e: "unat (draw_vbo_count (last (batches
      (record_ops (Begin_draw 1 viewport_800x600 # map Add_vertices [None, None]) new_queue)))) = 12"
    using t3 nd by (simp add: GSK_GL_N_VERTICES_def)
  show ?thesis using d ne a b c nd e by blast
qed

section \<open>Claims about execution\<close>

lemmas exec_simps = execute_loop.simps gsk_gl_command_queue_execute_def execute_batch_def
  apply_framebuffer_def apply_viewport_def apply_scissor_def bind_calls_def uniform_calls_def
  initial_exec_state_def execute_prologue_def example_scissor_def offscreen_recording_def
  gsk_gl_command_queue_bind_framebuffer_def gsk_gl_attachment_state_bind_framebuffer_def

text \<open>
  C3, as the claim states it, fails: \<open>apply_scissor\<close> disables the scissor test when the
  framebuffer id is not zero and applies the rectangle when it is zero. Executing the
  example recorded for the window (framebuffer 0) with a scissor rectangle enables the
  scissor test before the batches are drawn; executing it recorded for framebuffer 1
  disables the test as soon as that framebuffer is bound.
\<close>

theorem scissor_exemption_counterexample:
  "apply_scissor 0 600 2 (Some example_scissor) =
     [GlEnable GL_SCISSOR_TEST, GlScissor 20 460 200 100] \<and>
   apply_scissor 1 600 2 (Some example_scissor) = [GlDisable GL_SCISSOR_TEST] \<and>
   gsk_gl_command_queue_execute (Suc (Suc 0)) (record_ops example_recording new_queue)
        600 2 (Some example_scissor) =
     Inr (execute_prologue @
          [GlEnable GL_SCISSOR_TEST, GlScissor 20 460 200 100,
           GlViewport 800 600, GlClear 17664, GlUseProgram 1, GlDrawArrays 0 12,
           GlDeleteVertexArrays]) \<and>
   gsk_gl_command_queue_execute (Suc (Suc 0)) (record_ops offscreen_recording new_queue)
        600 2 (Some example_scissor) =
     Inr (execute_prologue @
          [GlEnable GL_SCISSOR_TEST, GlScissor 20 460 200 100,
           GlBindFramebuffer 1, GlDisable GL_SCISSOR_TEST,
           GlViewport 800 600, GlClear 17664, GlUseProgram 1, GlDrawArrays 0 12,
           GlDeleteVertexArrays])"
  by (simp add: example_simps exec_simps)

text \<open>
  C3, amended. The scissor test is disabled for every framebuffer id other than zero and
  when no scissor rectangle was supplied. For framebuffer zero, the window, the supplied
  rectangle is applied, scaled by the scale factor and flipped vertically within the
  surface height. For every queue recorded from the start of a frame, \<open>execute\<close> runs
  to its end; it sets the scissor state once for framebuffer zero before the first
  batch, and recomputes it right after every \<open>glBindFramebuffer\<close> it issues; and every
  \<open>glClear\<close> and \<open>glDrawArrays\<close> it issues, one per clear and draw batch in the order of
  recording, finds the framebuffer of its batch bound and the scissor state of that
  framebuffer in effect. The framebuffer bound on entry is taken to be the window's, as
  \<open>execute\<close> does.
\<close>

theorem scissor_follows_framebuffer:
  assumes "frame_start s0"
  shows "let s = record_ops ops s0
         in \<not> in_draw s \<and> batches s \<noteq> [] \<and> gl_bound_framebuffer g = 0 \<longrightarrow>
            (\<exists>calls. gsk_gl_command_queue_execute (length (batches s)) s surface_height scale_factor scissor
                        = Inr calls \<and>
               take (length (execute_prologue @ apply_scissor 0 surface_height scale_factor scissor)) calls
                 = execute_prologue @ apply_scissor 0 surface_height scale_factor scissor \<and>
               binds_then_scissor surface_height scale_factor scissor calls \<and>
               targets_drawn g calls =
                 map (\<lambda>fb. (fb, scissor_for fb surface_height scale_factor scissor))
                   (List.map_filter batch_target (batches s)))"
proof -
  let ?s = "record_ops ops s0"
  let ?H = surface_height and ?sf = scale_factor and ?sc = scissor
  have inv: "queue_inv ?s" using assms by (simp add: queue_inv_frame_start queue_inv_ops)
  have main: "\<exists>calls. gsk_gl_command_queue_execute (length (batches ?s)) ?s ?H ?sf ?sc = Inr calls \<and>
               take (length (execute_prologue @ apply_scissor 0 ?H ?sf ?sc)) calls
                 = execute_prologue @ apply_scissor 0 ?H ?sf ?sc \<and>
               binds_then_scissor ?H ?sf ?sc calls \<and>
               targets_drawn g calls =
                 map (\<lambda>fb. (fb, scissor_for fb ?H ?sf ?sc)) (List.map_filter batch_target (batches ?s))"
    if nd: "\<not> in_draw ?s" and ne: "batches ?s \<noteq> []" and g0: "gl_bound_framebuffer g = 0"
  proof -
    from execute_total[OF inv nd ne, of ?H ?sf ?sc initial_exec_state] obtain passes where
      l: "execute_loop (length (batches ?s)) ?s ?H ?sf ?sc 0 initial_exec_state = Inr passes"
      and v: "map fst passes = [0..<length (batches ?s)]" by blast
    let ?calls = "execute_prologue @ apply_scissor 0 ?H ?sf ?sc @ concat (map snd passes) @ [GlDeleteVertexArrays]"
    have e: "gsk_gl_command_queue_execute (length (batches ?s)) ?s ?H ?sf ?sc = Inr ?calls"
      using nd ne l by (simp add: gsk_gl_command_queue_execute_def)
    have pre: "take (length (execute_prologue @ apply_scissor 0 ?H ?sf ?sc)) ?calls
                 = execute_prologue @ apply_scissor 0 ?H ?sf ?sc" by simp
    have p: "no_bind_fb execute_prologue" by (simp add: execute_prologue_def no_bind_fb_def)
    have d: "no_bind_fb [GlDeleteVertexArrays]" by (simp add: no_bind_fb_def)
    have bts: "binds_then_scissor ?H ?sf ?sc ?calls"
      by (intro bts_append no_bind_fb_bts[OF p] no_bind_fb_bts[OF apply_scissor_no_bind]
            bts_execute_loop[OF l] no_bind_fb_bts[OF d])
    let ?g1 = "gl_run g (apply_scissor 0 ?H ?sf ?sc)"
    note a = apply_scissor_effect[of g 0 ?H ?sf ?sc]
    have tr: "scissor_tracks ?H ?sf ?sc ?g1 initial_exec_state"
      using a g0 by (simp add: scissor_tracks_def initial_exec_state_def)
    note np = neutral_calls[OF neutral_prologue, of g]
    have nth: "map (\<lambda>k. batches ?s ! k) (map fst passes) = batches ?s"
      by (simp only: v map_nth)
    have "targets_drawn g ?calls = targets_drawn ?g1 (concat (map snd passes))"
      using a np by (simp add: targets_drawn_append)
    also have "\<dots> = map (\<lambda>fb. (fb, scissor_for fb ?H ?sf ?sc)) (List.map_filter batch_target (batches ?s))"
      by (simp only: execute_loop_tracks[OF l tr] nth)
    finally have td: "targets_drawn g ?calls =
        map (\<lambda>fb. (fb, scissor_for fb ?H ?sf ?sc)) (List.map_filter batch_target (batches ?s))" .
    show ?thesis
      by (rule exI[of _ ?calls]) (simp only: e pre bts td simp_thms)
  qed
  show ?thesis unfolding Let_def using main by blast
qed

theorem scissor_follows_framebuffer_witness:
  "frame_start new_queue \<and>
   \<not> in_draw (record_ops offscreen_recording new_queue) \<and>
   batches (record_ops offscreen_recording new_queue) \<noteq> [] \<and>
   gl_bound_framebuffer gl_at_entry = 0 \<and>
   gsk_gl_command_queue_execute (Suc (Suc 0)) (record_ops offscreen_recording new_queue)
        600 2 (Some example_scissor) =
     Inr (execute_prologue @
          [GlEnable GL_SCISSOR_TEST, GlScissor 20 460 200 100,
           GlBindFramebuffer 1, GlDisable GL_SCISSOR_TEST,
           GlViewport 800 600, GlClear 17664, GlUseProgram 1, GlDrawArrays 0 12,
           GlDeleteVertexArrays]) \<and>
   targets_drawn gl_at_entry
     (execute_prologue @
          [GlEnable GL_SCISSOR_TEST, GlScissor 20 460 200 100,
           GlBindFramebuffer 1, GlDisable GL_SCISSOR_TEST,
           GlViewport 800 600, GlClear 17664, GlUseProgram 1, GlDrawArrays 0 12,
           GlDeleteVertexArrays]) = [(1, None), (1, None)] \<and>
   targets_drawn gl_at_entry
     (execute_prologue @
          [GlEnable GL_SCISSOR_TEST, GlScissor 20 460 200 100,
           GlViewport 800 600, GlClear 17664, GlUseProgram 1, GlDrawArrays 0 12,
           GlDeleteVertexArrays]) = [(0, Some (20, 460, 200, 100)), (0, Some (20, 460, 200, 100))]"
proof -
  let ?off = "record_ops offscreen_recording new_queue"
  let ?win = "record_ops example_recording new_queue"
  let ?coff = "execute_prologue @
          [GlEnable GL_SCISSOR_TEST, GlScissor 20 460 200 100,
           GlBindFramebuffer 1, GlDisable GL_SCISSOR_TEST,
           GlViewport 800 600, GlClear 17664, GlUseProgram 1, GlDrawArrays 0 12,
           GlDeleteVertexArrays]"
  let ?cwin = "execute_prologue @
          [GlEnable GL_SCISSOR_TEST, GlScissor 20 460 200 100,
           GlViewport 800 600, GlClear 17664, GlUseProgram 1, GlDrawArrays 0 12,
           GlDeleteVertexArrays]"
  have f: "frame_start new_queue" by (simp add: frame_start_def new_queue_def)
  have g: "gl_bound_framebuffer gl_at_entry = 0" by (simp add: gl_at_entry_def)
  have noff: "length (batches ?off) = Suc (Suc 0)" and doff: "\<not> in_draw ?off"
    by (simp_all add: example_simps offscreen_recording_def
          gsk_gl_command_queue_bind_framebuffer_def gsk_gl_attachment_state_bind_framebuffer_def)
  have nwin: "length (batches ?win) = Suc (Suc 0)" and dwin: "\<not> in_draw ?win"
    by (simp_all add: example_simps)
  have neoff: "batches ?off \<noteq> []" and newin: "batches ?win \<noteq> []" using noff nwin by auto
  have eoff: "gsk_gl_command_queue_execute (Suc (Suc 0)) ?off 600 2 (Some example_scissor) = Inr ?coff"
    by (simp add: example_simps exec_simps)
  have ewin: "gsk_gl_command_queue_execute (Suc (Suc 0)) ?win 600 2 (Some example_scissor) = Inr ?cwin"
    by (simp add: example_simps exec_simps)
  have toff: "map (\<lambda>fb. (fb, scissor_for fb 600 2 (Some example_scissor)))
                (List.map_filter batch_target (batches ?off)) = [(1, None), (1, None)]"
    by (simp add: example_simps offscreen_recording_def batch_target_def scissor_for_def
          List.map_filter_simps
          gsk_gl_command_queue_bind_framebuffer_def gsk_gl_attachment_state_bind_framebuffer_def)
  have twin: "map (\<lambda>fb. (fb, scissor_for fb 600 2 (Some example_scissor)))
                (List.map_filter batch_target (batches ?win)) =
              [(0, Some (20, 460, 200, 100)), (0, Some (20, 460, 200, 100))]"
    by (simp add: example_simps batch_target_def scissor_for_def example_scissor_def
          List.map_filter_simps)
  from scissor_follows_framebuffer[OF f, of offscreen_recording gl_at_entry 600 2 "Some example_scissor"]
  have a: "targets_drawn gl_at_entry ?coff = [(1, None), (1, None)]"
    using doff neoff g by (simp only: Let_def noff eoff toff) auto
  from scissor_follows_framebuffer[OF f, of example_recording gl_at_entry 600 2 "Some example_scissor"]
  have b: "targets_drawn gl_at_entry ?cwin = [(0, Some (20, 460, 200, 100)), (0, Some (20, 460, 200, 100))]"
    using dwin newin g by (simp only: Let_def nwin ewin twin) auto
  show ?thesis using f doff neoff g eoff a b by blast
qed

section \<open>Claims about resource creation\<close>

lemmas texture_defs = gsk_gl_command_queue_create_texture_def gsk_gl_command_queue_create_render_target_def
  gsk_gl_command_queue_save_def gsk_gl_command_queue_restore_def gl_do_def

lemma sint_is_uint: "(w :: 32 word) < 2 ^ 31 \<Longrightarrow> sint w = uint w"
proof -
  assume "w < 2 ^ 31"
  then have u: "uint w < 2 ^ 31" by (simp add: word_less_alt)
  have "- (2 ^ 31) \<le> uint w" by (rule order_trans[of _ 0]) simp_all
  then have "signed_take_bit 31 (uint w) = uint w"
    using u by (rule signed_take_bit_int_eq_self)
  then show ?thesis by (simp add: sint_uint)
qed

lemma uint_not_sentinel: "uint (w :: 32 word) \<noteq> - 1"
  using uint_ge_0[of w] by arith

text \<open>
  C6. Let \<open>m\<close> be the maximum texture size the queue holds after querying it if need be.
  When the width or the height exceeds \<open>m\<close>, \<open>create_texture\<close> returns -1 and, apart
  from that query, issues no GL call and leaves the queue as it is; it does not abort;
  \<open>create_render_target\<close> returns \<open>FALSE\<close>, and when it was called with the positive
  width and height it requires, both output ids are zero and it has only restored the
  attachment state it saved. Otherwise \<open>create_texture\<close> returns the name that
  \<open>glGenTextures\<close> gave the new texture, which is not negative, with the saved states,
  the attachment state and the batches unchanged. The name is a \<open>GLuint\<close> returned as
  \<open>int\<close>; it is taken to be below \<open>2^31\<close>, as the names of a GL implementation are.
\<close>

theorem create_texture_checks_size:
  "(let m = (if max_texture_size self = -1 then gl_max_texture_size gl else max_texture_size self);
        query = (if max_texture_size self = -1 then [GlGetIntegerv_MAX_TEXTURE_SIZE] else [])
    in (width > m \<or> height > m \<longrightarrow>
          gsk_gl_command_queue_create_texture gl width height min_filter mag_filter self
            = Inr (-1, self\<lparr>gl_context := gl_context self @ query, max_texture_size := m\<rparr>) \<and>
          (\<exists>out self'.
             gsk_gl_command_queue_create_render_target gl width height min_filter mag_filter self
               = Inr ((False, out), self')) \<and>
          (0 < width \<and> 0 < height \<longrightarrow>
             gsk_gl_command_queue_create_render_target gl width height min_filter mag_filter self
               = Inr ((False, Some (0, 0)),
                      self\<lparr>gl_context := gl_context self @ query @ [RestoreAttachments],
                           max_texture_size := m\<rparr>))) \<and>
       (\<not> (width > m \<or> height > m) \<and> gl_gen_texture gl < 2 ^ 31 \<longrightarrow>
          (\<exists>self'. gsk_gl_command_queue_create_texture gl width height min_filter mag_filter self
                      = Inr (uint (gl_gen_texture gl), self') \<and>
                   0 \<le> uint (gl_gen_texture gl) \<and>
                   uint (gl_gen_texture gl) \<noteq> -1 \<and>
                   max_texture_size self' = m \<and>
                   saved_state self' = saved_state self \<and>
                   attachments self' = attachments self \<and>
                   batches self' = batches self)))"
  by (auto simp add: texture_defs Let_def sint_is_uint uint_not_sentinel)

theorem create_texture_checks_size_witness:
  "(20000 :: int) > max_texture_size new_queue \<and>
   gsk_gl_command_queue_create_texture example_gl 20000 64 9729 9729 new_queue = Inr (-1, new_queue) \<and>
   gsk_gl_command_queue_create_render_target example_gl 20000 64 9729 9729 new_queue
     = Inr ((False, Some (0, 0)), new_queue\<lparr>gl_context := [RestoreAttachments]\<rparr>) \<and>
   \<not> ((64 :: int) > max_texture_size new_queue) \<and>
   gl_gen_texture example_gl < 2 ^ 31 \<and>
   map_sum id fst (gsk_gl_command_queue_create_texture example_gl 64 64 9729 9729 new_queue) = Inr 7"
proof -
  note t1 = create_texture_checks_size[where self=new_queue and gl=example_gl and width=20000
      and height=64 and min_filter=9729 and mag_filter=9729]
  note t2 = create_texture_checks_size[where self=new_queue and gl=example_gl and width=64
      and height=64 and min_filter=9729 and mag_filter=9729]
  have m: "max_texture_size new_queue = 16384" by (simp add: new_queue_def)
  have a: "gsk_gl_command_queue_create_texture example_gl 20000 64 9729 9729 new_queue = Inr (-1, new_queue) \<and>
     gsk_gl_command_queue_create_render_target example_gl 20000 64 9729 9729 new_queue
     = Inr ((False, Some (0, 0)), new_queue\<lparr>gl_context := [RestoreAttachments]\<rparr>)"
    using t1 by (simp add: Let_def m) (simp add: new_queue_def)
  have c: "gl_gen_texture example_gl < 2 ^ 31" by (simp add: example_gl_def)
  have b: "map_sum id fst (gsk_gl_command_queue_create_texture example_gl 64 64 9729 9729 new_queue) = Inr 7"
    using t2 c by (auto simp add: Let_def m example_gl_def)
  show ?thesis using a b c by (simp add: m)
qed


section \<open>Properties of the render job\<close>

subsection \<open>Rounding of small integers\<close>

lemma exponent_from_lower: "e0 \<le> float_exponent_from n e0 x"
proof (induction n arbitrary: e0)
  case 0
  show ?case by simp
next
  case (Suc n)
  have "e0 \<le> e0 + 1" by simp
  also have "\<dots> \<le> float_exponent_from n (e0 + 1) x" by (rule Suc.IH)
  finally show ?case by simp
qed

lemma exponent_from_upper:
  "e0 \<le> b \<Longrightarrow> \<bar>x\<bar> < 2 powi (b + 1) \<Longrightarrow> nat (b - e0) \<le> n \<Longrightarrow> float_exponent_from n e0 x \<le> b"
proof (induction n arbitrary: e0)
  case 0
  then show ?case by simp
next
  case (Suc n)
  show ?case
  proof (cases "\<bar>x\<bar> < 2 powi (e0 + 1)")
    case True
    then show ?thesis using Suc.prems(1) by simp
  next
    case False
    have "e0 \<noteq> b" using False Suc.prems(2) by auto
    then have lt: "e0 + 1 \<le> b" using Suc.prems(1) by simp
    have "nat (b - (e0 + 1)) \<le> n" using Suc.prems(3) lt by simp
    from Suc.IH[OF lt Suc.prems(2) this] False show ?thesis by simp
  qed
qed

lemma round_to_even_int [simp]: "round_to_even (of_int k) = k"
  by (simp add: round_to_even_def)

lemma float_round_int:
  assumes "\<bar>k\<bar> < 2 ^ 24"
  shows "float_round (of_int k) = of_int k"
proof -
  define q where "q = float_exponent (of_int k) - 23"
  have "\<bar>of_int k :: real\<bar> < 2 powi (23 + 1)"
  proof -
    have "\<bar>of_int k :: real\<bar> = of_int \<bar>k\<bar>" by simp
    also have "\<dots> < of_int (2 ^ 24)" using assms by (simp only: of_int_less_iff)
    finally show ?thesis by simp
  qed
  then have "float_exponent (of_int k) \<le> 23"
    unfolding float_exponent_def by (intro exponent_from_upper) simp_all
  then have q: "q \<le> 0" by (simp add: q_def)
  define n where "n = nat (- q)"
  have p: "(2 :: real) powi q = inverse (2 ^ n)"
    using q by (auto simp add: power_int_def n_def power_one_over inverse_eq_divide)
  have "of_int k / (2 :: real) powi q = of_int (k * 2 ^ n)"
    by (simp add: p divide_inverse)
  then have "round_to_even (of_int k / 2 powi q) = k * 2 ^ n"
    by (simp only: round_to_even_int)
  then have "float_round (of_int k) = of_int (k * 2 ^ n) * 2 powi q"
    by (simp only: float_round_def q_def[symmetric])
  also have "\<dots> = of_int k" by (simp add: p divide_inverse)
  finally show ?thesis .
qed

lemma float_round_numeral [simp]:
  "(numeral n :: int) < 16777216 \<Longrightarrow> float_round (numeral n) = numeral n"
  using float_round_int[of "numeral n"] by simp

lemma float_round_neg_numeral [simp]:
  "(numeral n :: int) < 16777216 \<Longrightarrow> float_round (- numeral n) = - numeral n"
  using float_round_int[of "- numeral n"] by simp

lemma float_round_0 [simp]: "float_round 0 = 0"
  using float_round_int[of 0] by simp

lemma float_round_1 [simp]: "float_round 1 = 1"
  using float_round_int[of 1] by simp


subsection \<open>What a visit leaves unchanged\<close>











declare gsk_gl_render_job_visit_node.simps [simp del]
declare gsk_gl_render_job_visit_clipped_child.simps [simp del]












lemma new_job_modelview:
  "gsk_gl_render_job_new api viewport f region = Some job \<Longrightarrow> job_modelview job \<noteq> []"
  by (auto simp add: gsk_gl_render_job_new_def gsk_gl_render_job_set_modelview_def
      gsk_gl_render_job_push_clip_def gsk_gl_render_job_transform_bounds_def
      gsk_gl_render_job_get_modelview_def emit_def Let_def split: if_splits option.splits prod.splits)

lemma example_job_value:
  "example_job =
     \<lparr>job_viewport = GRAPHENE_RECT_INIT 0 0 200 200,
      job_modelview = [\<lparr>mv_transform = example_modelview, mv_scale_x = 1, mv_scale_y = 1,
                        mv_offset_x_before = 0, mv_offset_y_before = 0\<rparr>],
      job_clip = [\<lparr>clip_rect = GSK_ROUNDED_RECT_INIT 0 0 200 200, is_rectilinear = True\<rparr>],
      job_offset_x = 0, job_offset_y = 0, job_scale_x = 1, job_scale_y = 1, job_calls = []\<rparr>"
  by (simp add: example_job_def gsk_gl_render_job_new_def gsk_gl_render_job_set_modelview_def
      gsk_gl_render_job_push_clip_def new_frame_def extract_matrix_metadata_def affine_api_def
      example_modelview_def GRAPHENE_RECT_INIT_def GSK_ROUNDED_RECT_INIT_def
      gsk_rounded_rect_is_rectilinear_def zero_size_def Let_def)

lemma length_stop_floats: "length (stop_floats stops) = 5 * length stops"
  by (induction stops) (auto simp add: stop_floats_def)

lemmas visit_simps = gsk_gl_render_job_visit_node.simps gsk_gl_render_job_visit_clipped_child.simps
  node_is_invisible_def gsk_gl_render_job_node_overlaps_clip_def gsk_gl_render_job_get_clip_def
  gsk_gl_render_job_transform_bounds_def gsk_gl_render_job_get_modelview_def
  gsk_gl_render_job_clip_is_rectilinear_def gsk_gl_render_job_push_clip_def
  gsk_gl_render_job_pop_clip_def gsk_gl_render_job_visit_color_node_def
  gsk_gl_render_job_draw_rect_def program_begin_draw_def emit_def
  bounds_argument_def GRAPHENE_RECT_INIT_def GSK_ROUNDED_RECT_INIT_def rect_as_rounded_def
  zero_size_def radius_10_def affine_api_def example_modelview_def
  graphene_rect_normalize_def graphene_rect_intersection_def graphene_rect_contains_rect_def
  gsk_rounded_rect_is_rectilinear_def rounded_inner_rect_contains_rect_def
  intersect_rounded_rectilinear_def rounded_rect_has_corner_def
  rounded_rect_corner0_def rounded_rect_corner1_def rounded_rect_corner2_def rounded_rect_corner3_def
  rect_intersects_def rect_contains_rect_def scale_corner_def uninitialised_rect_def
  fadd_def fsub_def fmul_def Let_def

lemma clipped_child_under_rectilinear_clip:
  assumes "job_modelview job \<noteq> []" and "job_clip job \<noteq> []"
    and "is_rectilinear (last (job_clip job))"
  shows "gsk_gl_render_job_visit_clipped_child api child clip job =
     gsk_gl_render_job_pop_clip
       (gsk_gl_render_job_visit_node api child
          (gsk_gl_render_job_push_clip
             (rect_as_rounded
                (graphene_rect_intersection
                   (transform_bounds api (mv_transform (last (job_modelview job)))
                      (bounds_argument job (bounds clip)))
                   (bounds (clip_rect (last (job_clip job))))))
             job))"
  using assms
  by (simp add: gsk_gl_render_job_visit_clipped_child.simps gsk_gl_render_job_transform_bounds_def
      gsk_gl_render_job_get_modelview_def gsk_gl_render_job_clip_is_rectilinear_def
      gsk_gl_render_job_get_clip_def)

lemma clipped_child_under_rounded_clip:
  assumes "job_modelview job \<noteq> []" and "job_clip job \<noteq> []"
    and "\<not> is_rectilinear (last (job_clip job))"
  shows "gsk_gl_render_job_visit_clipped_child api child clip job =
     (case intersect_rounded_rectilinear
             (transform_bounds api (mv_transform (last (job_modelview job)))
                (bounds_argument job (bounds clip))) clip of
        Some intersection \<Rightarrow>
          gsk_gl_render_job_pop_clip
            (gsk_gl_render_job_visit_node api child (gsk_gl_render_job_push_clip intersection job))
      | None \<Rightarrow> job)"
  using assms
  by (simp add: gsk_gl_render_job_visit_clipped_child.simps gsk_gl_render_job_transform_bounds_def
      gsk_gl_render_job_get_modelview_def gsk_gl_render_job_clip_is_rectilinear_def
      gsk_gl_render_job_get_clip_def)

section \<open>Claims about the render job\<close>








text \<open>
  C9, as the claim states it, fails at the maximum: a linear gradient with exactly
  \<open>MAX_GRADIENT_STOPS\<close> stops, six, does not exceed the maximum, and takes the fallback
  path, which draws nothing.
\<close>

theorem gradient_at_maximum_counterexample:
  "int (length (grey_stops 6)) \<le> MAX_GRADIENT_STOPS \<and>
   gsk_gl_render_job_visit_linear_gradient_node
     (GSK_LINEAR_GRADIENT_NODE (GRAPHENE_RECT_INIT 10 10 20 20) (grey_stops 6) (10, 10) (30, 10))
     example_job = example_job \<and>
   job_calls (gsk_gl_render_job_visit_node affine_api
     (GSK_LINEAR_GRADIENT_NODE (GRAPHENE_RECT_INIT 10 10 20 20) (grey_stops 6) (10, 10) (30, 10))
     example_job) = []"
proof -
  let ?n = "GSK_LINEAR_GRADIENT_NODE (GRAPHENE_RECT_INIT 10 10 20 20) (grey_stops 6) (10, 10) (30, 10)
            :: affine GskRenderNode"
  have a: "gsk_gl_render_job_visit_linear_gradient_node
             (GSK_LINEAR_GRADIENT_NODE r (grey_stops 6) p q) job = job"
    for job :: "affine GskGLRenderJob" and r p q
    by (simp add: gsk_gl_render_job_visit_linear_gradient_node_def grey_stops_def MAX_GRADIENT_STOPS_def
        gsk_gl_render_job_visit_as_fallback_def)
  have b: "job_calls (gsk_gl_render_job_visit_node affine_api ?n example_job) = []"
    by (subst gsk_gl_render_job_visit_node.simps)
       (simp add: a node_is_invisible_def gsk_gl_render_job_node_overlaps_clip_def
          gsk_gl_render_job_get_clip_def gsk_gl_render_job_transform_bounds_def
          gsk_gl_render_job_get_modelview_def example_job_value GRAPHENE_RECT_INIT_def
          split: prod.splits)
  show ?thesis using a b by (simp add: grey_stops_def MAX_GRADIENT_STOPS_def)
qed

text \<open>
  C9, amended. A linear gradient with fewer than \<open>MAX_GRADIENT_STOPS\<close> (= 6) colour stops
  is drawn directly: the linear gradient program is begun, the number of stops, the stops
  as \<open>5 * n\<close> floats, the start point and the end point are set as uniforms, the node's
  bounds are drawn as a rectangle, and the program is ended. A gradient with
  \<open>MAX_GRADIENT_STOPS\<close> stops or more takes the fallback path, which leaves the job as
  it is.
\<close>

theorem gradient_below_maximum_is_drawn:
  "MAX_GRADIENT_STOPS = 6 \<and>
   (int (length stops) < MAX_GRADIENT_STOPS \<longrightarrow>
      gsk_gl_render_job_visit_linear_gradient_node
          (GSK_LINEAR_GRADIENT_NODE b stops start_point end_point) job =
        job\<lparr>job_calls := job_calls job @
          [Program_begin_draw Linear_gradient_program (job_viewport job)
             (map_option mv_transform (gsk_gl_render_job_get_modelview job))
             (gsk_gl_render_job_get_clip job),
           Set_uniform1i UNIFORM_LINEAR_GRADIENT_NUM_COLOR_STOPS (int (length stops)),
           Set_uniform1fv UNIFORM_LINEAR_GRADIENT_COLOR_STOPS (int (length stops) * 5) (stop_floats stops),
           Set_uniform2f UNIFORM_LINEAR_GRADIENT_START_POINT (fst start_point) (snd start_point),
           Set_uniform2f UNIFORM_LINEAR_GRADIENT_END_POINT (fst end_point) (snd end_point),
           Draw_rect (draw_rect_vertices job b),
           Program_end_draw Linear_gradient_program]\<rparr> \<and>
      int (length (stop_floats stops)) = int (length stops) * 5) \<and>
   (\<not> int (length stops) < MAX_GRADIENT_STOPS \<longrightarrow>
      gsk_gl_render_job_visit_linear_gradient_node
          (GSK_LINEAR_GRADIENT_NODE b stops start_point end_point) job =
        gsk_gl_render_job_visit_as_fallback
          (GSK_LINEAR_GRADIENT_NODE b stops start_point end_point) job \<and>
      gsk_gl_render_job_visit_linear_gradient_node
          (GSK_LINEAR_GRADIENT_NODE b stops start_point end_point) job = job)"
  by (simp add: gsk_gl_render_job_visit_linear_gradient_node_def Let_def MAX_GRADIENT_STOPS_def
      gsk_gl_render_job_visit_as_fallback_def gsk_gl_render_job_draw_rect_def program_begin_draw_def
      emit_def draw_rect_vertices_def length_stop_floats)

theorem gradient_below_maximum_is_drawn_witness:
  "int (length (grey_stops 5)) < MAX_GRADIENT_STOPS \<and>
   job_calls (gsk_gl_render_job_visit_linear_gradient_node
     (GSK_LINEAR_GRADIENT_NODE (GRAPHENE_RECT_INIT 10 10 20 20) (grey_stops 5) (10, 10) (30, 10))
     example_job) =
     [Program_begin_draw Linear_gradient_program (GRAPHENE_RECT_INIT 0 0 200 200)
        (Some example_modelview) (Some (GSK_ROUNDED_RECT_INIT 0 0 200 200)),
      Set_uniform1i UNIFORM_LINEAR_GRADIENT_NUM_COLOR_STOPS 5,
      Set_uniform1fv UNIFORM_LINEAR_GRADIENT_COLOR_STOPS 25 (stop_floats (grey_stops 5)),
      Set_uniform2f UNIFORM_LINEAR_GRADIENT_START_POINT 10 10,
      Set_uniform2f UNIFORM_LINEAR_GRADIENT_END_POINT 30 10,
      Draw_rect (draw_rect_vertices example_job (GRAPHENE_RECT_INIT 10 10 20 20)),
      Program_end_draw Linear_gradient_program] \<and>
   \<not> int (length (grey_stops 7)) < MAX_GRADIENT_STOPS \<and>
   gsk_gl_render_job_visit_linear_gradient_node
     (GSK_LINEAR_GRADIENT_NODE (GRAPHENE_RECT_INIT 10 10 20 20) (grey_stops 7) (10, 10) (30, 10))
     example_job = example_job"
proof -
  note t5 = gradient_below_maximum_is_drawn[of "grey_stops 5" "GRAPHENE_RECT_INIT 10 10 20 20"
      "(10, 10)" "(30, 10)" example_job, THEN conjunct2, THEN conjunct1]
  note t7 = gradient_below_maximum_is_drawn[of "grey_stops 7" "GRAPHENE_RECT_INIT 10 10 20 20"
      "(10, 10)" "(30, 10)" example_job, THEN conjunct2, THEN conjunct2]
  have l5: "int (length (grey_stops 5)) < MAX_GRADIENT_STOPS"
    by (simp add: grey_stops_def MAX_GRADIENT_STOPS_def)
  have l7: "\<not> int (length (grey_stops 7)) < MAX_GRADIENT_STOPS"
    by (simp add: grey_stops_def MAX_GRADIENT_STOPS_def)
  have n5: "int (length (grey_stops 5)) = 5" by (simp add: grey_stops_def)
  have a: "job_calls (gsk_gl_render_job_visit_linear_gradient_node
     (GSK_LINEAR_GRADIENT_NODE (GRAPHENE_RECT_INIT 10 10 20 20) (grey_stops 5) (10, 10) (30, 10))
     example_job) =
     [Program_begin_draw Linear_gradient_program (GRAPHENE_RECT_INIT 0 0 200 200)
        (Some example_modelview) (Some (GSK_ROUNDED_RECT_INIT 0 0 200 200)),
      Set_uniform1i UNIFORM_LINEAR_GRADIENT_NUM_COLOR_STOPS 5,
      Set_uniform1fv UNIFORM_LINEAR_GRADIENT_COLOR_STOPS 25 (stop_floats (grey_stops 5)),
      Set_uniform2f UNIFORM_LINEAR_GRADIENT_START_POINT 10 10,
      Set_uniform2f UNIFORM_LINEAR_GRADIENT_END_POINT 30 10,
      Draw_rect (draw_rect_vertices example_job (GRAPHENE_RECT_INIT 10 10 20 20)),
      Program_end_draw Linear_gradient_program]"
    using t5 l5
    by (simp add: n5) (simp add: example_job_value gsk_gl_render_job_get_modelview_def
        gsk_gl_render_job_get_clip_def)
  have b: "gsk_gl_render_job_visit_linear_gradient_node
     (GSK_LINEAR_GRADIENT_NODE (GRAPHENE_RECT_INIT 10 10 20 20) (grey_stops 7) (10, 10) (30, 10))
     example_job = example_job"
    using t7 l7 by blast
  show ?thesis using l5 a l7 b by blast
qed


text \<open>
  C4. Under a rounded current clip the code does not intersect an incoming rectilinear
  clip with the current clip: \<open>visit_clipped_child\<close> calls
  \<open>intersect_rounded_rectilinear\<close> with the incoming clip in the place of the rounded one.
  In the example job, inside the rounded clip \<open>A\<close>, the clip \<open>C\<close> is pushed with the
  bounds of \<open>C\<close>, reaching beyond \<open>A\<close>, and no radius, where the intersection asked for
  has the bounds (50, 50, 50, 50) and the radius of \<open>A\<close> at the bottom right; the clip
  \<open>B\<close>, which cuts a corner box of \<open>A\<close> without containing it, is pushed as it is,
  where the fast path is to fail. In both cases the red rectangle is drawn under the
  clip pushed.
\<close>

theorem nested_clip_ignores_rounded_clip:
  "job_calls (gsk_gl_render_job_visit_node affine_api C_in_A example_job) =
     red_rectangle_calls (rect_as_rounded rect_C) (GRAPHENE_RECT_INIT 60 60 80 80) \<and>
   intersect_rounded_rectilinear rect_C clip_A =
     Some \<lparr>bounds = GRAPHENE_RECT_INIT 50 50 50 50, corner0 = zero_size, corner1 = zero_size,
            corner2 = radius_10, corner3 = zero_size\<rparr> \<and>
   job_calls (gsk_gl_render_job_visit_node affine_api B_in_A example_job) =
     red_rectangle_calls (rect_as_rounded rect_B) (GRAPHENE_RECT_INIT 0 0 100 100) \<and>
   intersect_rounded_rectilinear rect_B clip_A = None"
proof -
  have c: "job_calls (gsk_gl_render_job_visit_node affine_api C_in_A example_job) =
     red_rectangle_calls (rect_as_rounded rect_C) (GRAPHENE_RECT_INIT 60 60 80 80)"
    by (simp add: C_in_A_def clip_A_def rect_C_def red_rectangle_calls_def draw_rect_vertices_def
        example_job_value visit_simps)
  have ci: "intersect_rounded_rectilinear rect_C clip_A =
     Some \<lparr>bounds = GRAPHENE_RECT_INIT 50 50 50 50, corner0 = zero_size, corner1 = zero_size,
            corner2 = radius_10, corner3 = zero_size\<rparr>"
    by (simp add: clip_A_def rect_C_def visit_simps)
  have b: "job_calls (gsk_gl_render_job_visit_node affine_api B_in_A example_job) =
     red_rectangle_calls (rect_as_rounded rect_B) (GRAPHENE_RECT_INIT 0 0 100 100)"
    by (simp add: B_in_A_def clip_A_def rect_B_def red_rectangle_calls_def draw_rect_vertices_def
        example_job_value visit_simps)
  have bi: "intersect_rounded_rectilinear rect_B clip_A = None"
    by (simp add: clip_A_def rect_B_def visit_simps)
  show ?thesis using c ci b bi by blast
qed

end
